theory Spec2Isabelle
  imports Complex_Main "HOL-Library.Sublist"
begin

section \<open>JavaScript values used by the worker\<close>

text \<open>
  Strings are lists of code units, read as \<^typ>\<open>char\<close> (code units below 256).
  \<open>String.prototype.trim\<close> removes white space and line terminators at both ends: of
  the code units a \<^typ>\<open>char\<close> can hold these are TAB, LF, VT, FF, CR, SPACE and NBSP.
\<close>

definition is_space :: "char \<Rightarrow> bool" where
  "is_space c \<longleftrightarrow> of_char c \<in> {9, 10, 11, 12, 13, 32, 160 :: nat}"

definition trim :: "string \<Rightarrow> string" where
  "trim s = rev (dropWhile is_space (rev (dropWhile is_space s)))"

text \<open>\<open>s.slice(a, b)\<close> for non-negative \<open>a\<close>, \<open>b\<close>: code units \<open>a\<close> up to \<open>b\<close>, cut at the end.\<close>

definition slice :: "'a list \<Rightarrow> nat \<Rightarrow> nat \<Rightarrow> 'a list" where
  "slice s a b = take (b - a) (drop a s)"

text \<open>\<open>xs.slice(-n)\<close>: the last \<open>n\<close> elements, all of them when there are fewer.\<close>

definition slice_last :: "nat \<Rightarrow> 'a list \<Rightarrow> 'a list" where
  "slice_last n xs = drop (length xs - n) xs"

text \<open>
  A JSON-shaped JavaScript value. \<open>undefined\<close> is the absence of a value: a property
  read returns an optional value. Numbers are never computed with here beyond
  \<open>+ 1\<close>, and are kept as reals.
\<close>

datatype json =
    JNull
  | JBool bool
  | JNum real
  | JStr string
  | JArr "json list"
  | JObj "(string \<times> json) list"

text \<open>\<open>v.k\<close> on a value that is neither \<open>null\<close> nor \<open>undefined\<close>, for a data property \<open>k\<close>.\<close>

fun get_prop :: "json \<Rightarrow> string \<Rightarrow> json option" where
  "get_prop (JObj kvs) k = map_of kvs k"
| "get_prop _ k = None"

text \<open>\<open>v?.k\<close>: \<open>undefined\<close> when \<open>v\<close> is \<open>null\<close> or \<open>undefined\<close>.\<close>

fun opt_prop :: "json option \<Rightarrow> string \<Rightarrow> json option" where
  "opt_prop None k = None"
| "opt_prop (Some JNull) k = None"
| "opt_prop (Some v) k = get_prop v k"

fun truthy :: "json option \<Rightarrow> bool" where
  "truthy None = False"
| "truthy (Some JNull) = False"
| "truthy (Some (JBool b)) = b"
| "truthy (Some (JNum n)) = (n \<noteq> 0)"
| "truthy (Some (JStr s)) = (s \<noteq> [])"
| "truthy (Some (JArr _)) = True"
| "truthy (Some (JObj _)) = True"

text \<open>A thrown value: an \<open>Error\<close> with its message, or anything else.\<close>

datatype error = Error string | NonError

section \<open>Constants\<close>

definition DEFAULT_MODEL_ID :: string where
  "DEFAULT_MODEL_ID = ''@cf/meta/llama-3.3-70b-instruct-fp8-fast''"

definition EMBEDDING_MODEL_ID :: string where
  "EMBEDDING_MODEL_ID = ''@cf/baai/bge-base-en-v1.5''"

definition MAX_HISTORY :: nat where
  "MAX_HISTORY = 20"

definition MAX_CONTEXT_CHUNKS :: nat where
  "MAX_CONTEXT_CHUNKS = 4"

definition EMBEDDING_MAX_CHARS :: nat where
  "EMBEDDING_MAX_CHARS = 2048"

definition DOCUMENT_MAX_CHARS :: nat where
  "DOCUMENT_MAX_CHARS = 50000"

definition CHUNK_SIZE :: nat where
  "CHUNK_SIZE = 800"

definition CHUNK_OVERLAP :: nat where
  "CHUNK_OVERLAP = 150"

definition MAX_DOC_CHUNKS :: nat where
  "MAX_DOC_CHUNKS = 60"

section \<open>Model selection\<close>

text \<open>
  \<open>selectModelId(requestedModelId: unknown, storedModelId: string | undefined,
  fallbackModelId: string)\<close>.
\<close>

fun selectModelId :: "json option \<Rightarrow> string option \<Rightarrow> string \<Rightarrow> string" where
  "selectModelId requestedModelId storedModelId fallbackModelId =
     (case requestedModelId of
        Some (JStr r) \<Rightarrow>
          if trim r \<noteq> [] then trim r
          else (case storedModelId of
                  Some s \<Rightarrow> if trim s \<noteq> [] then trim s else fallbackModelId
                | None \<Rightarrow> fallbackModelId)
      | _ \<Rightarrow>
          (case storedModelId of
             Some s \<Rightarrow> if trim s \<noteq> [] then trim s else fallbackModelId
           | None \<Rightarrow> fallbackModelId))"

declare selectModelId.simps [simp del]

section \<open>Streams and responses\<close>

text \<open>
  A \<open>ReadableStream<Uint8Array>\<close> read to its end: the values \<open>reader.read()\<close> yields,
  in order, and whether reading then fails instead of reporting \<open>done\<close>.
\<close>

record stream =
  stream_chunks :: "string list"
  stream_errored :: bool

datatype body = JsonBody json | TextBody string | StreamBody stream | NoBody

record response =
  status :: nat
  body :: body

text \<open>\<open>jsonResponse(body, status = 200)\<close>.\<close>

definition jsonResponse :: "json \<Rightarrow> nat \<Rightarrow> response" where
  "jsonResponse b st = \<lparr>status = st, body = JsonBody b\<rparr>"

definition error_body :: "string \<Rightarrow> json" where
  "error_body msg = JObj [(''error'', JStr msg)]"

section \<open>Session store (SessionDurableObject)\<close>

text \<open>
  \<open>state.storage\<close> of one durable object: keys to stored values. The session record
  lives under \<open>SESSION_STORAGE_KEY\<close>; an older layout kept a bare array of messages
  under \<open>"messages"\<close>.
\<close>

type_synonym storage = "string \<Rightarrow> json option"

definition SESSION_STORAGE_KEY :: string where
  "SESSION_STORAGE_KEY = ''session''"

record StoredSessionRecord =
  messages :: "json list"
  modelId :: "string option"
  createdAt :: "json option"
  updatedAt :: "json option"

text \<open>
  The object \<open>{messages, modelId, createdAt, updatedAt}\<close> as a value: a property that is
  \<open>undefined\<close> reads as absent, and \<open>JSON.stringify\<close> leaves it out.
\<close>

definition opt_field :: "string \<Rightarrow> json option \<Rightarrow> (string \<times> json) list" where
  "opt_field k v = (case v of None \<Rightarrow> [] | Some x \<Rightarrow> [(k, x)])"

definition record_json :: "StoredSessionRecord \<Rightarrow> json" where
  "record_json s =
     JObj ([(''messages'', JArr (messages s))]
           @ opt_field ''modelId'' (map_option JStr (modelId s))
           @ opt_field ''createdAt'' (createdAt s)
           @ opt_field ''updatedAt'' (updatedAt s))"

text \<open>
  The values \<open>new Date().toISOString()\<close> returns at the places a request reads the
  clock: the two reads of \<open>getSessionRecord\<close> and the one of \<open>persistMessage\<close>.
\<close>

record clock =
  t_created :: string
  t_updated :: string
  t_now :: string

definition getSessionRecord :: "clock \<Rightarrow> storage \<Rightarrow> StoredSessionRecord \<times> storage" where
  "getSessionRecord clk st =
     (let stored0 = st SESSION_STORAGE_KEY;
          legacyMessages = st ''messages'';
          migrate = (\<not> truthy stored0 \<and> truthy legacyMessages);
          stored = (if migrate then legacyMessages else stored0);
          st' = (if migrate then st(''messages'' := None) else st)
      in if \<not> truthy stored then
           (\<lparr>messages = [], modelId = None,
             createdAt = Some (JStr (t_created clk)), updatedAt = Some (JStr (t_updated clk))\<rparr>, st')
         else (case stored of
             Some (JArr ms) \<Rightarrow>
               (\<lparr>messages = ms, modelId = None,
                 createdAt = Some (JStr (t_created clk)), updatedAt = Some (JStr (t_updated clk))\<rparr>, st')
           | _ \<Rightarrow>
               (\<lparr>messages = (case opt_prop stored ''messages'' of Some (JArr ms) \<Rightarrow> ms | _ \<Rightarrow> []),
                 modelId = (case opt_prop stored ''modelId'' of Some (JStr m) \<Rightarrow> Some (trim m) | _ \<Rightarrow> None),
                 createdAt = opt_prop stored ''createdAt'',
                 updatedAt = opt_prop stored ''updatedAt''\<rparr>, st')))"

definition persistMessage :: "clock \<Rightarrow> json \<Rightarrow> string option \<Rightarrow> storage \<Rightarrow> storage" where
  "persistMessage clk message mid st =
     (let (session, st1) = getSessionRecord clk st;
          s1 = session\<lparr>messages := slice_last MAX_HISTORY (messages session @ [message])\<rparr>;
          s2 = (case mid of Some m \<Rightarrow> if m \<noteq> [] then s1\<lparr>modelId := Some m\<rparr> else s1 | None \<Rightarrow> s1);
          s3 = s2\<lparr>updatedAt := Some (JStr (t_now clk))\<rparr>;
          s4 = (if \<not> truthy (createdAt s3) then s3\<lparr>createdAt := Some (JStr (t_now clk))\<rparr> else s3)
      in st1(SESSION_STORAGE_KEY \<mapsto> record_json s4))"

text \<open>
  A request to the durable object: its verb, its path and what \<open>safeJson\<close> returns for
  its body (\<open>null\<close>, here \<open>None\<close>, when the body is not JSON).
\<close>

record do_request =
  verb :: string
  pathname :: string
  payload :: "json option"

definition valid_message :: "json option \<Rightarrow> bool" where
  "valid_message message \<longleftrightarrow>
     truthy message
     \<and> (opt_prop message ''role'' = Some (JStr ''assistant'') \<or> opt_prop message ''role'' = Some (JStr ''user''))
     \<and> (case opt_prop message ''content'' of Some (JStr _) \<Rightarrow> True | _ \<Rightarrow> False)"

definition do_fetch :: "clock \<Rightarrow> do_request \<Rightarrow> storage \<Rightarrow> response \<times> storage" where
  "do_fetch clk request st =
     (if verb request = ''GET'' \<and> pathname request = ''/messages'' then
        (let (session, st') = getSessionRecord clk st
         in (\<lparr>status = 200, body = JsonBody (record_json session)\<rparr>, st'))
      else if verb request = ''POST'' \<and> pathname request = ''/messages'' then
        (let message = opt_prop (payload request) ''message'';
             mid = (case opt_prop (payload request) ''modelId'' of
                      Some (JStr m) \<Rightarrow> if trim m \<noteq> [] then Some (trim m) else None
                    | _ \<Rightarrow> None)
         in (case message of
               None \<Rightarrow> (jsonResponse (error_body ''Invalid message payload'') 400, st)
             | Some m \<Rightarrow>
                 if \<not> valid_message (Some m) then
                   (jsonResponse (error_body ''Invalid message payload'') 400, st)
                 else (\<lparr>status = 204, body = NoBody\<rparr>, persistMessage clk m mid st)))
      else (\<lparr>status = 404, body = TextBody ''Not found''\<rparr>, st))"

section \<open>The worker's calls to the session store\<close>

text \<open>\<open>response.ok\<close>.\<close>

definition ok :: "response \<Rightarrow> bool" where
  "ok r \<longleftrightarrow> 200 \<le> status r \<and> status r \<le> 299"

fun show_nat :: "nat \<Rightarrow> string" where
  "show_nat n =
     (if n < 10 then [char_of (48 + n)]
      else show_nat (n div 10) @ [char_of (48 + n mod 10)])"

declare show_nat.simps [simp del]

text \<open>\<open>appendMessage(stub, message, modelId)\<close>: the body is \<open>{message, modelId}\<close>.\<close>

definition appendMessage :: "clock \<Rightarrow> json \<Rightarrow> string \<Rightarrow> storage \<Rightarrow> (error + unit) \<times> storage" where
  "appendMessage clk message mid st =
     (let (resp, st') =
            do_fetch clk
              \<lparr>verb = ''POST'', pathname = ''/messages'',
               payload = Some (JObj [(''message'', message), (''modelId'', JStr mid)])\<rparr> st
      in if \<not> ok resp then (Inl (Error (''Failed to store message: '' @ show_nat (status resp))), st')
         else (Inr (), st'))"

definition fetchSessionHistory :: "clock \<Rightarrow> storage \<Rightarrow> (error + StoredSessionRecord) \<times> storage" where
  "fetchSessionHistory clk st =
     (let (resp, st') = do_fetch clk \<lparr>verb = ''GET'', pathname = ''/messages'', payload = None\<rparr> st
      in if \<not> ok resp then
           (Inl (Error (''Failed to read session history: '' @ show_nat (status resp))), st')
         else (case body resp of
             JsonBody d \<Rightarrow>
               (Inr \<lparr>messages = slice_last MAX_HISTORY
                                  (case opt_prop (Some d) ''messages'' of Some (JArr ms) \<Rightarrow> ms | _ \<Rightarrow> []),
                      modelId = (case opt_prop (Some d) ''modelId'' of Some (JStr m) \<Rightarrow> Some m | _ \<Rightarrow> None),
                      createdAt = opt_prop (Some d) ''createdAt'',
                      updatedAt = opt_prop (Some d) ''updatedAt''\<rparr>, st')
           | _ \<Rightarrow> (Inl (Error ''Unexpected end of JSON input''), st')))"

text \<open>
  \<open>env.SESSIONS\<close>: the storage of the durable object named by each session id.
  \<open>GET /api/history?sessionId=...\<close> of the worker's \<open>fetch\<close>; \<open>sessionId\<close> is
  \<open>url.searchParams.get("sessionId")\<close>.
\<close>

type_synonym sessions = "string \<Rightarrow> storage"

definition api_history :: "clock \<Rightarrow> string \<Rightarrow> string option \<Rightarrow> sessions \<Rightarrow> response \<times> sessions" where
  "api_history clk v sessionId ss =
     (if v \<noteq> ''GET'' then (\<lparr>status = 405, body = TextBody ''Method not allowed''\<rparr>, ss)
      else (case sessionId of
          None \<Rightarrow> (jsonResponse (error_body ''Missing sessionId'') 400, ss)
        | Some sid \<Rightarrow>
            if sid = [] then (jsonResponse (error_body ''Missing sessionId'') 400, ss)
            else (case fetchSessionHistory clk (ss sid) of
                (Inl e, st') \<Rightarrow> (jsonResponse (error_body ''Unable to load history'') 500, ss(sid := st'))
              | (Inr history, st') \<Rightarrow> (jsonResponse (record_json history) 200, ss(sid := st')))))"

section \<open>Chunker\<close>

definition newline :: char where
  "newline = CHR 0x0A"

text \<open>
  \<open>text.replace(/\n{3,}/g, "\n\n")\<close>: of every run of newlines the first two are kept.
  The counter is the number of newlines directly before the current position.
\<close>

fun collapse_newlines :: "nat \<Rightarrow> string \<Rightarrow> string" where
  "collapse_newlines k [] = []"
| "collapse_newlines k (c # cs) =
     (if c = newline then
        (if k < 2 then c # collapse_newlines (Suc k) cs else collapse_newlines (Suc k) cs)
      else c # collapse_newlines 0 cs)"

definition normalize :: "string \<Rightarrow> string" where
  "normalize t = trim (collapse_newlines 0 t)"

text \<open>
  The \<open>while\<close> loop of \<open>chunkText\<close>; \<open>step = Math.max(1, chunkSize - overlap)\<close>.
  \<open>push_slice\<close> is the body's first statement: the trimmed window is pushed unless empty.
\<close>

definition push_slice :: "string \<Rightarrow> nat \<Rightarrow> nat \<Rightarrow> string list \<Rightarrow> string list" where
  "push_slice normalized chunkSize index chunks =
     (if length (trim (slice normalized index (index + chunkSize))) > 0
      then chunks @ [trim (slice normalized index (index + chunkSize))] else chunks)"

function chunk_loop :: "string \<Rightarrow> nat \<Rightarrow> nat \<Rightarrow> nat \<Rightarrow> string list \<Rightarrow> string list" where
  "chunk_loop normalized chunkSize overlap index chunks =
     (if index < length normalized \<and> length chunks < MAX_DOC_CHUNKS then
        (if index + chunkSize \<ge> length normalized then push_slice normalized chunkSize index chunks
         else chunk_loop normalized chunkSize overlap (index + max 1 (chunkSize - overlap))
                (push_slice normalized chunkSize index chunks))
      else chunks)"
  by pat_completeness auto
termination
  by (relation "measure (\<lambda>(normalized, chunkSize, overlap, index, chunks). length normalized - index)") auto

declare chunk_loop.simps [simp del]

definition chunkText :: "string \<Rightarrow> nat \<Rightarrow> nat \<Rightarrow> string list" where
  "chunkText t chunkSize overlap =
     (if normalize t = [] then [] else chunk_loop (normalize t) chunkSize overlap 0 [])"

section \<open>Embeddings and vector records\<close>

text \<open>
  \<open>EmbeddingResponse\<close>: \<open>data\<close> is absent or an array; an entry is \<open>None\<close> when the
  entry or its \<open>embedding\<close> is missing or not an array.
\<close>

record EmbeddingResponse =
  data :: "real list option list option"

text \<open>\<open>xs[i]\<close>: \<open>undefined\<close> out of range.\<close>

definition at_index :: "'a list \<Rightarrow> nat \<Rightarrow> 'a option" where
  "at_index xs i = (if i < length xs then Some (xs ! i) else None)"

record vector_metadata =
  md_text :: string
  md_title :: string
  md_docId :: string
  chunkIndex :: nat
  uploadedAt :: string
  sourceType :: string
  originalFileName :: "string option"

record vector_record =
  vec_id :: string
  vector :: "real list"
  metadata :: vector_metadata

record doc_metadata =
  doc_title :: string
  doc_sourceType :: string
  doc_originalFileName :: "string option"

text \<open>
  The bindings of \<open>env\<close> and of the platform that the handlers call. Each returns what
  the call returns or the value it throws.
  \<^item> \<open>ai_embed\<close>: \<open>env.AI.run(EMBEDDING_MODEL_ID, {text})\<close>;
  \<^item> \<open>ai_chat\<close>: \<open>env.AI.run(modelId, {messages, max_tokens}, {returnRawResponse: true})\<close>,
    of whose response the status and the body (\<open>null\<close> or a stream) are used;
  \<^item> \<open>vectorize_query\<close>: \<open>env.VECTORIZE.query({vector, topK, returnMetadata})\<close>;
  \<^item> \<open>vectorize_upsert\<close>: \<open>env.VECTORIZE.upsert(vectors)\<close>;
  \<^item> \<open>date_at\<close>: the clock value read while chunk \<open>i\<close> is turned into a record;
  \<^item> \<open>show_number\<close>: the text of a number, as a template string and \<open>JSON.stringify\<close>
    write a finite number;
  \<^item> \<open>show_plus\<close>: the text of \<open>a + b\<close> inside a template string, the sum being the one of
    IEEE 754 doubles.
\<close>

record ai_response =
  ai_status :: nat
  ai_body :: "stream option"

record env =
  ai_embed :: "string list \<Rightarrow> error + EmbeddingResponse option"
  ai_chat :: "string \<Rightarrow> json list \<Rightarrow> error + ai_response"
  vectorize_query :: "real list \<Rightarrow> nat \<Rightarrow> error + json option"
  vectorize_upsert :: "vector_record list \<Rightarrow> error + unit"
  date_at :: "nat \<Rightarrow> string"
  show_number :: "real \<Rightarrow> string"
  show_plus :: "real \<Rightarrow> real \<Rightarrow> string"

text \<open>The \<open>forEach\<close> of \<open>generateEmbeddingsForChunks\<close>, from position \<open>index\<close> on.\<close>

fun push_upserts :: "env \<Rightarrow> real list option list \<Rightarrow> string \<Rightarrow> doc_metadata \<Rightarrow> nat \<Rightarrow> string list
    \<Rightarrow> vector_record list" where
  "push_upserts e embeddingData docId md index [] = []"
| "push_upserts e embeddingData docId md index (chunk # rest) =
     (case at_index embeddingData index of
        Some (Some embedding) \<Rightarrow>
          if embedding = [] then push_upserts e embeddingData docId md (Suc index) rest
          else \<lparr>vec_id = docId @ ''#'' @ show_nat index,
                vector = embedding,
                metadata = \<lparr>md_text = chunk, md_title = doc_title md, md_docId = docId,
                             chunkIndex = index, uploadedAt = date_at e index,
                             sourceType = doc_sourceType md,
                             originalFileName = doc_originalFileName md\<rparr>\<rparr>
               # push_upserts e embeddingData docId md (Suc index) rest
      | _ \<Rightarrow> push_upserts e embeddingData docId md (Suc index) rest)"

text \<open>\<open>chunk.length > maxChunkLength ? chunk.slice(0, maxChunkLength) : chunk\<close>.\<close>

definition truncate_chunk :: "nat \<Rightarrow> string \<Rightarrow> string" where
  "truncate_chunk maxChunkLength chunk =
     (if length chunk > maxChunkLength then slice chunk 0 maxChunkLength else chunk)"

text \<open>\<open>embeddings?.data ?? []\<close>.\<close>

definition response_data :: "EmbeddingResponse option \<Rightarrow> real list option list" where
  "response_data embeddings =
     (case embeddings of None \<Rightarrow> [] | Some r \<Rightarrow> (case data r of None \<Rightarrow> [] | Some d \<Rightarrow> d))"

definition generateEmbeddingsForChunks ::
    "env \<Rightarrow> string list \<Rightarrow> nat \<Rightarrow> string \<Rightarrow> doc_metadata \<Rightarrow> error + vector_record list" where
  "generateEmbeddingsForChunks e chunks maxChunkLength docId md =
     (let truncatedChunks = map (truncate_chunk maxChunkLength) chunks
      in case ai_embed e truncatedChunks of
           Inl err \<Rightarrow> Inl err
         | Inr embeddings \<Rightarrow>
             (let embeddingData = response_data embeddings
              in if length embeddingData \<noteq> length truncatedChunks then
                   Inl (Error (''Embedding response length '' @ show_nat (length embeddingData)
                               @ '' did not match chunk count '' @ show_nat (length truncatedChunks)))
                 else (let upserts = push_upserts e embeddingData docId md 0 truncatedChunks
                       in if upserts = [] then
                            Inl (Error (''Embedding model '' @ EMBEDDING_MODEL_ID
                                        @ '' returned no vectors for provided content.''))
                          else Inr upserts)))"

section \<open>Document ingestion\<close>

definition to_lower :: "char \<Rightarrow> char" where
  "to_lower c =
     (let n = (of_char c :: nat)
      in if (65 \<le> n \<and> n \<le> 90) \<or> (192 \<le> n \<and> n \<le> 222 \<and> n \<noteq> 215) then char_of (n + 32) else c)"

definition toLowerCase :: "string \<Rightarrow> string" where
  "toLowerCase s = map to_lower s"

definition dquote :: char where
  "dquote = CHR 0x22"

fun join :: "string \<Rightarrow> string list \<Rightarrow> string" where
  "join sep [] = []"
| "join sep [x] = x"
| "join sep (x # y # ys) = x @ sep @ join sep (y # ys)"

text \<open>\<open>s.replace(/\r\n/g, "\n")\<close>.\<close>

fun replace_crlf :: "string \<Rightarrow> string" where
  "replace_crlf (c # d # cs) =
     (if c = CHR 0x0D \<and> d = newline then newline # replace_crlf cs else c # replace_crlf (d # cs))"
| "replace_crlf cs = cs"

text \<open>An uploaded \<open>File\<close>: its name, its declared type and what \<open>file.text()\<close> gives.\<close>

record upload_file =
  file_name :: string
  file_type :: string
  file_text :: string

record ExtractedDocument =
  ex_text :: string
  ex_sourceType :: string
  originalName :: "string option"

text \<open>
  The two extraction routines \<open>extractTextFromPdf\<close> and \<open>extractTextFromImage\<close> call
  Workers AI models; here they are given by what they return or throw for a file.
\<close>

record extractors =
  extractTextFromPdf :: "upload_file \<Rightarrow> error + string"
  extractTextFromImage :: "upload_file \<Rightarrow> error + string"

definition extractTextFromUpload :: "extractors \<Rightarrow> upload_file \<Rightarrow> error + ExtractedDocument" where
  "extractTextFromUpload x f =
     (let name = file_name f;
          lowerName = toLowerCase name;
          mime = toLowerCase (file_type f)
      in if prefix ''text/'' mime \<or> suffix ''.txt'' lowerName \<or> suffix ''.md'' lowerName
            \<or> suffix ''.json'' lowerName \<or> suffix ''.csv'' lowerName then
           Inr \<lparr>ex_text = file_text f, ex_sourceType = ''text-file'', originalName = Some name\<rparr>
         else if mime = ''application/pdf'' \<or> suffix ''.pdf'' lowerName then
           (case extractTextFromPdf x f of
              Inl err \<Rightarrow> Inl err
            | Inr rawText \<Rightarrow> Inr \<lparr>ex_text = rawText, ex_sourceType = ''pdf'', originalName = Some name\<rparr>)
         else if prefix ''image/'' mime then
           (case extractTextFromImage x f of
              Inl err \<Rightarrow> Inl err
            | Inr rawText \<Rightarrow> Inr \<lparr>ex_text = rawText, ex_sourceType = ''image'', originalName = Some name\<rparr>)
         else Inl (Error (''Unsupported file type '' @ [dquote]
                          @ (if mime \<noteq> [] then mime else lowerName) @ [dquote])))"

text \<open>\<open>formData.get(name)\<close>: \<open>null\<close>, a string or a \<open>File\<close>.\<close>

datatype form_field = FieldAbsent | FieldString string | FieldFile upload_file

record form =
  titleField :: form_field
  textField :: form_field
  fileField :: form_field

text \<open>
  A \<open>POST /api/docs\<close> request: the \<open>content-type\<close> header (\<open>""\<close> when absent), the
  \<open>x-source-type\<close> header, what \<open>request.formData()\<close> returns or throws, and what
  \<open>safeJson(request)\<close> returns.
\<close>

record upload_request =
  contentType :: string
  xSourceType :: "string option"
  formData :: "error + form"
  jsonBody :: "json option"

text \<open>A step of a handler throws, returns a response early, or goes on with a value.\<close>

datatype 'a outcome = Throw error | Return response | Continue 'a

record upload_fields =
  up_title :: string
  up_rawText :: string
  up_sourceType :: string
  up_originalFileName :: "string option"

definition read_upload :: "extractors \<Rightarrow> upload_request \<Rightarrow> upload_fields outcome" where
  "read_upload x request =
     (if sublist ''multipart/form-data'' (contentType request) then
        (case formData request of
           Inl err \<Rightarrow> Throw err
         | Inr fd \<Rightarrow>
             (let title = (case titleField fd of
                             FieldString t \<Rightarrow> if trim t \<noteq> [] then trim t else ''Untitled document''
                           | _ \<Rightarrow> ''Untitled document'');
                  rawText = (case textField fd of
                               FieldString t \<Rightarrow> if trim t \<noteq> [] then t else []
                             | _ \<Rightarrow> [])
              in case fileField fd of
                   FieldFile f \<Rightarrow>
                     (case extractTextFromUpload x f of
                        Inl err \<Rightarrow> Throw err
                      | Inr extraction \<Rightarrow>
                          (let originalFileName =
                                 (case originalName extraction of Some n \<Rightarrow> n | None \<Rightarrow> file_name f)
                           in Continue
                                \<lparr>up_title = (if originalFileName \<noteq> [] then originalFileName else title),
                                 up_rawText = join [newline, newline]
                                                (filter (\<lambda>v. trim v \<noteq> []) [ex_text extraction, rawText]),
                                 up_sourceType = ex_sourceType extraction,
                                 up_originalFileName = Some originalFileName\<rparr>))
                 | _ \<Rightarrow> Continue \<lparr>up_title = title, up_rawText = rawText,
                                   up_sourceType = ''manual'', up_originalFileName = None\<rparr>))
      else if \<not> truthy (jsonBody request) then
        Return (jsonResponse (error_body ''Invalid document payload'') 400)
      else Continue
             \<lparr>up_title = (case opt_prop (jsonBody request) ''title'' of
                            Some (JStr t) \<Rightarrow> if trim t \<noteq> [] then trim t else ''Untitled document''
                          | _ \<Rightarrow> ''Untitled document''),
              up_rawText = (case opt_prop (jsonBody request) ''text'' of
                              Some (JStr t) \<Rightarrow> if trim t \<noteq> [] then t else []
                            | _ \<Rightarrow> []),
              up_sourceType = ''manual'', up_originalFileName = None\<rparr>)"

text \<open>
  The text of the document as it is indexed: \<open>cleaned\<close>, cut to the size cap, and
  the chunks handed to the embedding model.
\<close>

definition cleaned_text :: "string \<Rightarrow> string" where
  "cleaned_text rawText = trim (replace_crlf rawText)"

definition limited_text :: "string \<Rightarrow> string" where
  "limited_text cleaned =
     (if length cleaned > DOCUMENT_MAX_CHARS then slice cleaned 0 DOCUMENT_MAX_CHARS else cleaned)"

definition document_chunks :: "string \<Rightarrow> string list" where
  "document_chunks limited =
     filter (\<lambda>chunk. length chunk > 0) (map trim (chunkText limited CHUNK_SIZE CHUNK_OVERLAP))"

text \<open>
  The \<open>try\<close> block of \<open>handleDocumentUpload\<close>. \<open>docId\<close> is the fresh id
  (\<open>crypto.randomUUID()\<close>). The second component lists the calls made to
  \<open>env.VECTORIZE.upsert\<close>, in order.
\<close>

definition upload_try ::
    "env \<Rightarrow> extractors \<Rightarrow> string \<Rightarrow> upload_request \<Rightarrow> (error + response) \<times> vector_record list list" where
  "upload_try e x docId request =
     (case read_upload x request of
        Throw err \<Rightarrow> (Inl err, [])
      | Return r \<Rightarrow> (Inr r, [])
      | Continue u \<Rightarrow>
          (let sourceType = (case xSourceType request of Some h \<Rightarrow> h | None \<Rightarrow> up_sourceType u);
               cleaned = cleaned_text (up_rawText u)
           in if cleaned = [] then (Inr (jsonResponse (error_body ''Document content is required'') 400), [])
              else
                (let chunks = document_chunks (limited_text cleaned)
                 in if length chunks = 0 then
                      (Inr (jsonResponse (error_body ''No textual content found to index'') 400), [])
                    else
                      (case generateEmbeddingsForChunks e chunks EMBEDDING_MAX_CHARS docId
                              \<lparr>doc_title = up_title u, doc_sourceType = sourceType,
                               doc_originalFileName = up_originalFileName u\<rparr> of
                         Inl err \<Rightarrow> (Inl err, [])
                       | Inr upserts \<Rightarrow>
                           (case vectorize_upsert e upserts of
                              Inl err \<Rightarrow> (Inl err, [upserts])
                            | Inr _ \<Rightarrow>
                                (Inr (jsonResponse
                                        (JObj [(''docId'', JStr docId), (''title'', JStr (up_title u)),
                                               (''chunks'', JNum (real (length upserts))),
                                               (''sourceType'', JStr sourceType)]) 200),
                                 [upserts]))))))"

text \<open>\<open>handleDocumentUpload\<close>: the \<open>catch\<close> turns whatever was thrown into a 500.\<close>

definition handleDocumentUpload ::
    "env \<Rightarrow> extractors \<Rightarrow> string \<Rightarrow> upload_request \<Rightarrow> response \<times> vector_record list list" where
  "handleDocumentUpload e x docId request =
     (case upload_try e x docId request of
        (Inr r, calls) \<Rightarrow> (r, calls)
      | (Inl err, calls) \<Rightarrow>
          (jsonResponse
             (error_body (case err of
                            Error m \<Rightarrow> if m \<noteq> [] then m else ''Failed to index document''
                          | NonError \<Rightarrow> ''Failed to index document'')) 500,
           calls))"

section \<open>Retrieval context\<close>

record ContextSnippet =
  snip_title :: "string option"
  snip_text :: string
  snip_index :: "real option"
  snip_score :: "real option"

datatype role = System | User | Assistant

record ChatMessage =
  role :: role
  content :: string

fun role_name :: "role \<Rightarrow> string" where
  "role_name System = ''system''"
| "role_name User = ''user''"
| "role_name Assistant = ''assistant''"

definition message_json :: "ChatMessage \<Rightarrow> json" where
  "message_json m = JObj [(''role'', JStr (role_name (role m))), (''content'', JStr (content m))]"

record retrieval =
  promptMessages :: "ChatMessage list"
  snippets :: "ContextSnippet list"

definition no_context :: retrieval where
  "no_context = \<lparr>promptMessages = [], snippets = []\<rparr>"

definition embedText :: "env \<Rightarrow> string \<Rightarrow> real list option" where
  "embedText e t =
     (let truncated = (if length t > EMBEDDING_MAX_CHARS then slice t 0 EMBEDDING_MAX_CHARS else t)
      in case ai_embed e [truncated] of
           Inl err \<Rightarrow> None
         | Inr result \<Rightarrow>
             (case result of
                None \<Rightarrow> None
              | Some r \<Rightarrow>
                  (case data r of
                     None \<Rightarrow> None
                   | Some d \<Rightarrow> (case at_index d 0 of Some (Some embedding) \<Rightarrow> Some embedding | _ \<Rightarrow> None))))"

text \<open>
  \<open>for (const match of matches)\<close>: an array gives its elements, a string its characters,
  and anything else is not iterable.
\<close>

fun iterate :: "json \<Rightarrow> error + json list" where
  "iterate (JArr xs) = Inr xs"
| "iterate (JStr s) = Inr (map (\<lambda>c. JStr [c]) s)"
| "iterate _ = Inl (Error ''matches is not iterable'')"

text \<open>The body of the loop over the matches; \<open>contexts\<close> is what was pushed so far.\<close>

fun collect_contexts :: "json list \<Rightarrow> ContextSnippet list \<Rightarrow> ContextSnippet list" where
  "collect_contexts [] contexts = contexts"
| "collect_contexts (match # rest) contexts =
     (if \<not> truthy (Some match) then collect_contexts rest contexts
      else
        (let md = get_prop match ''metadata'';
             snippet = (case opt_prop md ''text'' of Some (JStr t) \<Rightarrow> trim t | _ \<Rightarrow> [])
         in if snippet = [] then collect_contexts rest contexts
            else
              (let pushed = contexts @
                     [\<lparr>snip_title = (case opt_prop md ''title'' of
                                       Some (JStr t) \<Rightarrow> if trim t \<noteq> [] then Some (trim t) else None
                                     | _ \<Rightarrow> None),
                       snip_text = snippet,
                       snip_index = (case opt_prop md ''chunkIndex'' of Some (JNum n) \<Rightarrow> Some n | _ \<Rightarrow> None),
                       snip_score = (case get_prop match ''score'' of Some (JNum n) \<Rightarrow> Some n | _ \<Rightarrow> None)\<rparr>]
               in if length pushed \<ge> MAX_CONTEXT_CHUNKS then pushed
                  else collect_contexts rest pushed)))"

definition context_header :: "env \<Rightarrow> nat \<Rightarrow> ContextSnippet \<Rightarrow> string" where
  "context_header e i c =
     join '' ''
       ([''Context '' @ show_nat (i + 1)]
        @ (case snip_title c of
             Some t \<Rightarrow> if t \<noteq> [] then [''from '' @ [dquote] @ t @ [dquote]] else []
           | None \<Rightarrow> [])
        @ (case snip_index c of
             Some n \<Rightarrow> [''(chunk '' @ show_plus e n 1 @ '')'']
           | None \<Rightarrow> []))"

definition contextBlock :: "env \<Rightarrow> ContextSnippet list \<Rightarrow> string" where
  "contextBlock e contexts =
     join [newline, newline]
       (map (\<lambda>(i, c). context_header e i c @ '':'' @ [newline] @ snip_text c) (enumerate 0 contexts))"

text \<open>The \<open>try\<close> block of \<open>buildRetrievalContext\<close>.\<close>

definition retrieval_try :: "env \<Rightarrow> string \<Rightarrow> error + retrieval" where
  "retrieval_try e trimmed =
     (case embedText e trimmed of
        None \<Rightarrow> Inr no_context
      | Some embedding \<Rightarrow>
          (case vectorize_query e embedding MAX_CONTEXT_CHUNKS of
             Inl err \<Rightarrow> Inl err
           | Inr queryResult \<Rightarrow>
               (case iterate (case opt_prop queryResult ''matches'' of
                                None \<Rightarrow> JArr [] | Some JNull \<Rightarrow> JArr [] | Some v \<Rightarrow> v) of
                  Inl err \<Rightarrow> Inl err
                | Inr matches \<Rightarrow>
                    (let contexts = collect_contexts matches []
                     in if length contexts = 0 then Inr no_context
                        else Inr \<lparr>promptMessages =
                                    [\<lparr>role = System,
                                      content = ''Use the reference material below to answer the user. If none of it is relevant, answer based on your general knowledge.''
                                                @ [newline, newline] @ contextBlock e contexts\<rparr>],
                                  snippets = contexts\<rparr>))))"

text \<open>
  \<open>buildRetrievalContext\<close>. The result is a sum so that a throw would show; the
  \<open>catch\<close> returns the empty context.
\<close>

definition buildRetrievalContext :: "env \<Rightarrow> string \<Rightarrow> error + retrieval" where
  "buildRetrievalContext e question =
     (if trim question = [] then Inr no_context
      else (case retrieval_try e (trim question) of
              Inl err \<Rightarrow> Inr no_context
            | Inr r \<Rightarrow> Inr r))"

section \<open>The framing line and the client stream\<close>

text \<open>
  \<open>JSON.stringify\<close> without indentation. A string is quoted; the quote, the backslash
  and the control characters below \<open>0x20\<close> are escaped. Numbers are written by the
  given function.
\<close>

definition hex_digit :: "nat \<Rightarrow> char" where
  "hex_digit n = (if n < 10 then char_of (48 + n) else char_of (87 + n))"

definition escape_char :: "char \<Rightarrow> string" where
  "escape_char c =
     (if c = dquote then [CHR 0x5C, dquote]
      else if c = CHR 0x5C then [CHR 0x5C, CHR 0x5C]
      else if c = CHR 0x08 then [CHR 0x5C, CHR ''b'']
      else if c = CHR 0x0C then [CHR 0x5C, CHR ''f'']
      else if c = CHR 0x0A then [CHR 0x5C, CHR ''n'']
      else if c = CHR 0x0D then [CHR 0x5C, CHR ''r'']
      else if c = CHR 0x09 then [CHR 0x5C, CHR ''t'']
      else if (of_char c :: nat) < 32 then
        [CHR 0x5C, CHR ''u'', CHR ''0'', CHR ''0'', hex_digit (of_char c div 16), hex_digit (of_char c mod 16)]
      else [c])"

definition quote :: "string \<Rightarrow> string" where
  "quote s = [dquote] @ concat (map escape_char s) @ [dquote]"

fun stringify :: "(real \<Rightarrow> string) \<Rightarrow> json \<Rightarrow> string" where
  "stringify sn JNull = ''null''"
| "stringify sn (JBool b) = (if b then ''true'' else ''false'')"
| "stringify sn (JNum n) = sn n"
| "stringify sn (JStr s) = quote s"
| "stringify sn (JArr xs) = ''['' @ join '','' (map (stringify sn) xs) @ '']''"
| "stringify sn (JObj kvs) =
     ''{'' @ join '','' (map (\<lambda>kv. quote (fst kv) @ '':'' @ stringify sn (snd kv)) kvs) @ ''}''"

text \<open>\<open>TextEncoder.encode\<close>: UTF-8, here for code units below 256.\<close>

definition utf8 :: "char \<Rightarrow> string" where
  "utf8 c =
     (let n = (of_char c :: nat)
      in if n < 128 then [c] else [char_of (192 + n div 64), char_of (128 + n mod 64)])"

definition encode :: "string \<Rightarrow> string" where
  "encode s = concat (map utf8 s)"

text \<open>
  The object handed to \<open>JSON.stringify\<close>: a property whose value is \<open>undefined\<close> is
  left out.
\<close>

definition snippet_json :: "ContextSnippet \<Rightarrow> json" where
  "snippet_json c =
     JObj (opt_field ''title'' (map_option JStr (snip_title c))
           @ [(''text'', JStr (snip_text c))]
           @ opt_field ''index'' (map_option JNum (snip_index c))
           @ opt_field ''score'' (map_option JNum (snip_score c)))"

definition context_payload :: "env \<Rightarrow> ContextSnippet list \<Rightarrow> string" where
  "context_payload e sn = stringify (show_number e) (JObj [(''context'', JArr (map snippet_json sn))])"

text \<open>
  \<open>prependContextStream\<close>. Every value read is a \<open>Uint8Array\<close>, an object, so the test
  \<open>if (value)\<close> lets all of them through. A failed read is caught and logged, and the
  new stream is closed in the \<open>finally\<close>.
\<close>

definition prependContextStream :: "env \<Rightarrow> stream \<Rightarrow> ContextSnippet list \<Rightarrow> stream" where
  "prependContextStream e s sn =
     (if length sn = 0 then s
      else \<lparr>stream_chunks = encode (context_payload e sn @ [newline]) # stream_chunks s,
            stream_errored = False\<rparr>)"

text \<open>\<open>body.tee()\<close>: two streams over the same source.\<close>

definition tee :: "stream \<Rightarrow> stream \<times> stream" where
  "tee s = (s, s)"

section \<open>Chat\<close>

definition SYSTEM_PROMPT :: string where
  "SYSTEM_PROMPT = ''You are a helpful, friendly assistant. Provide concise and accurate responses.''"

text \<open>The task handed to \<open>ctx.waitUntil\<close>: \<open>captureAssistantResponse(stream, stub, modelId)\<close>.\<close>

record capture =
  cap_stream :: stream
  cap_session :: string
  cap_modelId :: string

text \<open>
  The \<open>try\<close> block of \<open>handleChatRequest\<close>. \<open>b\<close> is what \<open>safeJson(request)\<close>
  returns; the two clocks are those of the history read and of the append.
\<close>

definition chat_try ::
    "env \<Rightarrow> clock \<Rightarrow> clock \<Rightarrow> json option \<Rightarrow> sessions
     \<Rightarrow> (error + response \<times> capture option) \<times> sessions" where
  "chat_try e clk1 clk2 b ss =
     (if \<not> truthy b then (Inr (jsonResponse (error_body ''Invalid JSON payload'') 400, None), ss)
      else
        (let sessionId = (case opt_prop b ''sessionId'' of Some (JStr v) \<Rightarrow> trim v | _ \<Rightarrow> []);
             message = (case opt_prop b ''message'' of Some (JStr v) \<Rightarrow> trim v | _ \<Rightarrow> [])
         in if sessionId = [] then (Inr (jsonResponse (error_body ''Missing sessionId'') 400, None), ss)
            else if message = [] then
              (Inr (jsonResponse (error_body ''Message content is required'') 400, None), ss)
            else
              (case fetchSessionHistory clk1 (ss sessionId) of
                 (Inl err, st1) \<Rightarrow> (Inl err, ss(sessionId := st1))
               | (Inr historyRecord, st1) \<Rightarrow>
                   (let sessionModelId =
                          selectModelId (opt_prop b ''modelId'') (modelId historyRecord) DEFAULT_MODEL_ID;
                        userMessage = \<lparr>role = User, content = message\<rparr>
                    in case appendMessage clk2 (message_json userMessage) sessionModelId st1 of
                         (Inl err, st2) \<Rightarrow> (Inl err, ss(sessionId := st2))
                       | (Inr _, st2) \<Rightarrow>
                           (case buildRetrievalContext e message of
                              Inl err \<Rightarrow> (Inl err, ss(sessionId := st2))
                            | Inr r \<Rightarrow>
                                (case ai_chat e sessionModelId
                                        ([message_json \<lparr>role = System, content = SYSTEM_PROMPT\<rparr>]
                                         @ map message_json (promptMessages r)
                                         @ messages historyRecord
                                         @ [message_json userMessage]) of
                                   Inl err \<Rightarrow> (Inl err, ss(sessionId := st2))
                                 | Inr response \<Rightarrow>
                                     (case ai_body response of
                                        None \<Rightarrow>
                                          (Inr (jsonResponse (error_body ''Model returned empty response'') 500,
                                                None),
                                           ss(sessionId := st2))
                                      | Some bd \<Rightarrow>
                                          (let (clientStream, storageStream) = tee bd
                                           in (Inr (\<lparr>status = ai_status response,
                                                      body = StreamBody
                                                               (prependContextStream e clientStream (snippets r))\<rparr>,
                                                    Some \<lparr>cap_stream = storageStream,
                                                          cap_session = sessionId,
                                                          cap_modelId = sessionModelId\<rparr>),
                                               ss(sessionId := st2))))))))))"

definition handleChatRequest ::
    "env \<Rightarrow> clock \<Rightarrow> clock \<Rightarrow> json option \<Rightarrow> sessions \<Rightarrow> (response \<times> capture option) \<times> sessions" where
  "handleChatRequest e clk1 clk2 b ss =
     (case chat_try e clk1 clk2 b ss of
        (Inr r, ss') \<Rightarrow> (r, ss')
      | (Inl err, ss') \<Rightarrow> ((jsonResponse (error_body ''Failed to process request'') 500, None), ss'))"

section \<open>Vocabulary of the statements\<close>

text \<open>
  The message list a read of the session returns; it does not depend on the clock
  (\<open>getSessionRecord_messages_clock\<close> below).
\<close>

definition stored_messages :: "storage \<Rightarrow> json list" where
  "stored_messages st = messages (fst (getSessionRecord \<lparr>t_created = [], t_updated = [], t_now = []\<rparr> st))"

text \<open>A sequence of appends, each with its clock, message and model id.\<close>

fun persist_all :: "(clock \<times> json \<times> string option) list \<Rightarrow> storage \<Rightarrow> storage" where
  "persist_all [] st = st"
| "persist_all ((clk, message, mid) # rest) st = persist_all rest (persistMessage clk message mid st)"

definition payload_messages :: "response \<Rightarrow> json option" where
  "payload_messages r = (case body r of JsonBody j \<Rightarrow> opt_prop (Some j) ''messages'' | _ \<Rightarrow> None)"

definition read_twice :: "clock \<Rightarrow> clock \<Rightarrow> string \<Rightarrow> sessions \<Rightarrow> response \<times> response" where
  "read_twice clk1 clk2 sid ss =
     (fst (api_history clk1 ''GET'' (Some sid) ss),
      fst (api_history clk2 ''GET'' (Some sid) (snd (api_history clk1 ''GET'' (Some sid) ss))))"

fun run_requests :: "(clock \<times> do_request) list \<Rightarrow> storage \<Rightarrow> storage" where
  "run_requests [] st = st"
| "run_requests ((clk, request) # rest) st = run_requests rest (snd (do_fetch clk request st))"

definition user_or_assistant :: "json \<Rightarrow> bool" where
  "user_or_assistant m \<longleftrightarrow>
     get_prop m ''role'' = Some (JStr ''user'') \<or> get_prop m ''role'' = Some (JStr ''assistant'')"

function chunk_windows :: "string \<Rightarrow> nat \<Rightarrow> nat \<Rightarrow> nat \<Rightarrow> nat \<Rightarrow> nat list" where
  "chunk_windows normalized chunkSize overlap index n =
     (if index < length normalized \<and> n < MAX_DOC_CHUNKS then
        index #
        (if index + chunkSize \<ge> length normalized then []
         else chunk_windows normalized chunkSize overlap (index + max 1 (chunkSize - overlap))
                (if length (trim (slice normalized index (index + chunkSize))) > 0 then Suc n else n))
      else [])"
  by pat_completeness auto
termination
  by (relation "measure (\<lambda>(normalized, chunkSize, overlap, index, n). length normalized - index)") auto

declare chunk_windows.simps [simp del]

definition text_windows :: "string \<Rightarrow> nat list" where
  "text_windows t = chunk_windows (normalize t) CHUNK_SIZE CHUNK_OVERLAP 0 0"

definition usable :: "real list option list \<Rightarrow> nat \<Rightarrow> bool" where
  "usable d i \<longleftrightarrow> (case at_index d i of Some (Some v) \<Rightarrow> v \<noteq> [] | _ \<Rightarrow> False)"

definition upsert_indices :: "vector_record list \<Rightarrow> nat list" where
  "upsert_indices ups = map (\<lambda>u. chunkIndex (metadata u)) ups"

definition embedding_data :: "env \<Rightarrow> nat \<Rightarrow> string list \<Rightarrow> real list option list" where
  "embedding_data e n chunks =
     (case ai_embed e (map (truncate_chunk n) chunks) of Inl err \<Rightarrow> [] | Inr r \<Rightarrow> response_data r)"

definition unclassified :: "upload_file \<Rightarrow> bool" where
  "unclassified f \<longleftrightarrow>
     \<not> (prefix ''text/'' (toLowerCase (file_type f)) \<or> suffix ''.txt'' (toLowerCase (file_name f))
        \<or> suffix ''.md'' (toLowerCase (file_name f)) \<or> suffix ''.json'' (toLowerCase (file_name f))
        \<or> suffix ''.csv'' (toLowerCase (file_name f)))
     \<and> \<not> (toLowerCase (file_type f) = ''application/pdf'' \<or> suffix ''.pdf'' (toLowerCase (file_name f)))
     \<and> \<not> prefix ''image/'' (toLowerCase (file_type f))"

definition upsert_record ::
    "env \<Rightarrow> real list option list \<Rightarrow> string \<Rightarrow> doc_metadata \<Rightarrow> nat \<Rightarrow> string \<Rightarrow> vector_record" where
  "upsert_record e d docId md k c =
     \<lparr>vec_id = docId @ ''#'' @ show_nat k,
      vector = (case at_index d k of Some (Some v) \<Rightarrow> v | _ \<Rightarrow> []),
      metadata = \<lparr>md_text = c, md_title = doc_title md, md_docId = docId,
                   chunkIndex = k, uploadedAt = date_at e k,
                   sourceType = doc_sourceType md,
                   originalFileName = doc_originalFileName md\<rparr>\<rparr>"

definition has_text :: "json \<Rightarrow> bool" where
  "has_text match \<longleftrightarrow>
     truthy (Some match)
     \<and> (case opt_prop (get_prop match ''metadata'') ''text'' of Some (JStr t) \<Rightarrow> trim t \<noteq> [] | _ \<Rightarrow> False)"

definition chat_message :: "json option \<Rightarrow> string" where
  "chat_message b = (case opt_prop b ''message'' of Some (JStr v) \<Rightarrow> trim v | _ \<Rightarrow> [])"

definition chat_session :: "json option \<Rightarrow> string" where
  "chat_session b = (case opt_prop b ''sessionId'' of Some (JStr v) \<Rightarrow> trim v | _ \<Rightarrow> [])"

definition chat_snippets :: "env \<Rightarrow> json option \<Rightarrow> ContextSnippet list" where
  "chat_snippets e b =
     (case buildRetrievalContext e (chat_message b) of Inl err \<Rightarrow> [] | Inr r \<Rightarrow> snippets r)"

definition chat_model :: "clock \<Rightarrow> json option \<Rightarrow> sessions \<Rightarrow> string" where
  "chat_model clk1 b ss =
     selectModelId (opt_prop b ''modelId'')
       (modelId (fst (getSessionRecord clk1 (ss (chat_session b))))) DEFAULT_MODEL_ID"

definition chat_prompt :: "env \<Rightarrow> json option \<Rightarrow> sessions \<Rightarrow> json list" where
  "chat_prompt e b ss =
     message_json \<lparr>role = System, content = SYSTEM_PROMPT\<rparr>
     # map message_json
         (case buildRetrievalContext e (chat_message b) of Inl err \<Rightarrow> [] | Inr r \<Rightarrow> promptMessages r)
     @ slice_last MAX_HISTORY (stored_messages (ss (chat_session b)))
     @ [message_json \<lparr>role = User, content = chat_message b\<rparr>]"

definition stream_bytes :: "stream \<Rightarrow> string" where
  "stream_bytes s = concat (stream_chunks s)"

text \<open>
  A response without the \<open>createdAt\<close> and \<open>updatedAt\<close> properties of its JSON body.
\<close>

definition without_timestamps :: "response \<Rightarrow> response" where
  "without_timestamps r =
     (case body r of
        JsonBody (JObj kvs) \<Rightarrow>
          r\<lparr>body := JsonBody (JObj (filter (\<lambda>kv. fst kv \<noteq> ''createdAt'' \<and> fst kv \<noteq> ''updatedAt'') kvs))\<rparr>
      | _ \<Rightarrow> r)"

section \<open>Properties of the session store\<close>

lemma getSessionRecord_messages_clock:
  "messages (fst (getSessionRecord clk st)) = messages (fst (getSessionRecord clk' st))"
  unfolding getSessionRecord_def Let_def
  by (cases "if \<not> truthy (st SESSION_STORAGE_KEY) \<and> truthy (st ''messages'') then st ''messages'' else st SESSION_STORAGE_KEY")
     (simp_all split: json.splits)

lemma messages_getSessionRecord:
  "messages (fst (getSessionRecord clk st)) = stored_messages st"
  unfolding stored_messages_def by (rule getSessionRecord_messages_clock)

lemma record_json_props:
  "opt_prop (Some (record_json s)) ''messages'' = Some (JArr (messages s))"
  "opt_prop (Some (record_json s)) ''modelId'' = map_option JStr (modelId s)"
  "opt_prop (Some (record_json s)) ''createdAt'' = createdAt s"
  "opt_prop (Some (record_json s)) ''updatedAt'' = updatedAt s"
  by (simp_all add: record_json_def opt_field_def split: option.splits)

lemma getSessionRecord_current:
  "st SESSION_STORAGE_KEY = Some (JObj kvs) \<Longrightarrow>
   getSessionRecord clk st =
     (\<lparr>messages = (case map_of kvs ''messages'' of Some (JArr ms) \<Rightarrow> ms | _ \<Rightarrow> []),
       modelId = (case map_of kvs ''modelId'' of Some (JStr m) \<Rightarrow> Some (trim m) | _ \<Rightarrow> None),
       createdAt = map_of kvs ''createdAt'',
       updatedAt = map_of kvs ''updatedAt''\<rparr>, st)"
  by (simp add: getSessionRecord_def Let_def)

lemma getSessionRecord_put:
  "getSessionRecord clk (st(SESSION_STORAGE_KEY \<mapsto> record_json s)) =
     (\<lparr>messages = messages s, modelId = map_option trim (modelId s),
       createdAt = createdAt s, updatedAt = updatedAt s\<rparr>,
      st(SESSION_STORAGE_KEY \<mapsto> record_json s))"
proof -
  obtain kvs where k: "record_json s = JObj kvs" by (simp add: record_json_def)
  have p: "map_of kvs ''messages'' = Some (JArr (messages s))"
      "map_of kvs ''modelId'' = map_option JStr (modelId s)"
      "map_of kvs ''createdAt'' = createdAt s"
      "map_of kvs ''updatedAt'' = updatedAt s"
    using record_json_props[of s] unfolding k by simp_all
  show ?thesis
    unfolding k
    by (subst getSessionRecord_current[where kvs = kvs]) (simp_all add: p split: option.splits)
qed

lemma stored_messages_put:
  "stored_messages (st(SESSION_STORAGE_KEY \<mapsto> record_json s)) = messages s"
  by (simp add: stored_messages_def getSessionRecord_put)

lemma stored_messages_persist:
  "stored_messages (persistMessage clk m mid st) = slice_last MAX_HISTORY (stored_messages st @ [m])"
proof -
  obtain session st1 where g: "getSessionRecord clk st = (session, st1)"
    by (cases "getSessionRecord clk st")
  have m: "messages session = stored_messages st"
    using messages_getSessionRecord[of clk st] g by simp
  show ?thesis
    unfolding persistMessage_def Let_def g prod.case stored_messages_put
    by (simp add: m split: option.splits)
qed

lemma slice_last_append:
  "slice_last n (slice_last n xs @ ys) = slice_last n (xs @ ys)"
proof (cases "length xs \<le> n")
  case True
  then show ?thesis by (simp add: slice_last_def)
next
  case False
  then have "length xs - (length xs - n) = n" by arith
  with False show ?thesis
    by (simp add: slice_last_def add.commute)
qed

lemma length_slice_last: "length (slice_last n xs) = min n (length xs)"
  by (simp add: slice_last_def)

lemma stored_messages_persist_all:
  "appends \<noteq> [] \<Longrightarrow>
   stored_messages (persist_all appends st)
     = slice_last MAX_HISTORY (stored_messages st @ map (\<lambda>a. fst (snd a)) appends)"
proof (induction appends arbitrary: st)
  case Nil
  then show ?case by simp
next
  case (Cons a rest)
  obtain clk m mid where a: "a = (clk, m, mid)" by (cases a)
  show ?case
  proof (cases "rest = []")
    case True
    then show ?thesis by (simp add: a stored_messages_persist)
  next
    case False
    from Cons.IH[OF False, of "persistMessage clk m mid st"]
    show ?thesis
      by (simp add: a stored_messages_persist slice_last_append)
  qed
qed

lemma persist_all_capped:
  assumes "appends \<noteq> []"
  shows "stored_messages (persist_all appends st)
           = slice_last MAX_HISTORY (stored_messages st @ map (\<lambda>a. fst (snd a)) appends)
       \<and> length (stored_messages (persist_all appends st))
           = min MAX_HISTORY (length (stored_messages st) + length appends)
       \<and> length (stored_messages (persist_all appends st)) \<le> 20"
  using stored_messages_persist_all[OF assms, of st]
  by (simp add: length_slice_last MAX_HISTORY_def)

lemma stored_messages_empty: "stored_messages (\<lambda>k. None) = []"
  by (simp add: stored_messages_def getSessionRecord_def Let_def)

lemma fetchSessionHistory_eq:
  "fetchSessionHistory clk st =
     (Inr \<lparr>messages = slice_last MAX_HISTORY (messages (fst (getSessionRecord clk st))),
           modelId = modelId (fst (getSessionRecord clk st)),
           createdAt = createdAt (fst (getSessionRecord clk st)),
           updatedAt = updatedAt (fst (getSessionRecord clk st))\<rparr>,
      snd (getSessionRecord clk st))"
proof -
  obtain session st' where g: "getSessionRecord clk st = (session, st')"
    by (cases "getSessionRecord clk st")
  show ?thesis
    by (simp add: fetchSessionHistory_def do_fetch_def g ok_def record_json_props split: option.splits)
qed

lemma api_history_eq:
  "sid \<noteq> [] \<Longrightarrow>
   api_history clk ''GET'' (Some sid) ss =
     (jsonResponse
        (record_json \<lparr>messages = slice_last MAX_HISTORY (stored_messages (ss sid)),
                       modelId = modelId (fst (getSessionRecord clk (ss sid))),
                       createdAt = createdAt (fst (getSessionRecord clk (ss sid))),
                       updatedAt = updatedAt (fst (getSessionRecord clk (ss sid)))\<rparr>) 200,
      ss(sid := snd (getSessionRecord clk (ss sid))))"
  by (simp add: api_history_def fetchSessionHistory_eq messages_getSessionRecord)

lemma getSessionRecord_no_migration:
  "truthy (st SESSION_STORAGE_KEY) \<or> \<not> truthy (st ''messages'') \<Longrightarrow>
   snd (getSessionRecord clk st) = st"
  unfolding getSessionRecord_def Let_def
  by (cases "st SESSION_STORAGE_KEY") (auto split: json.splits option.splits)

lemma getSessionRecord_same_reads:
  assumes c: "t_created clk = t_created clk'" and u: "t_updated clk = t_updated clk'"
  shows "getSessionRecord clk st = getSessionRecord clk' st"
  unfolding getSessionRecord_def c u by (rule refl)

lemma getSessionRecord_current_clock:
  "st SESSION_STORAGE_KEY = Some (JObj kvs) \<Longrightarrow> getSessionRecord clk st = getSessionRecord clk' st"
  by (simp add: getSessionRecord_current)

lemma payload_messages_history:
  "sid \<noteq> [] \<Longrightarrow>
   payload_messages (fst (api_history clk ''GET'' (Some sid) ss))
     = Some (JArr (slice_last MAX_HISTORY (stored_messages (ss sid))))"
  by (simp add: api_history_eq payload_messages_def jsonResponse_def record_json_props)

lemma without_timestamps_record:
  "without_timestamps (jsonResponse (record_json r) st)
     = jsonResponse (JObj ((''messages'', JArr (messages r)) # opt_field ''modelId'' (map_option JStr (modelId r)))) st"
  by (simp add: without_timestamps_def jsonResponse_def record_json_def opt_field_def split: option.splits)

lemma getSessionRecord_modelId_clock:
  "modelId (fst (getSessionRecord clk st)) = modelId (fst (getSessionRecord clk' st))"
  unfolding getSessionRecord_def Let_def
  by (cases "if \<not> truthy (st SESSION_STORAGE_KEY) \<and> truthy (st ''messages'') then st ''messages'' else st SESSION_STORAGE_KEY")
     (simp_all split: json.splits)

lemma api_history_without_timestamps:
  "sid \<noteq> [] \<Longrightarrow>
   without_timestamps (fst (api_history clk ''GET'' (Some sid) ss))
     = jsonResponse (JObj ((''messages'', JArr (slice_last MAX_HISTORY (stored_messages (ss sid))))
                           # opt_field ''modelId''
                               (map_option JStr (modelId (fst (getSessionRecord clk0 (ss sid))))))) 200"
  by (simp add: api_history_eq without_timestamps_record getSessionRecord_modelId_clock[of clk _ clk0])

text \<open>
  C8. Take a session whose store holds a truthy value under the session key, or no truthy
  value under the key \<open>messages\<close>. A read of its history leaves the store as it is. The
  first of two consecutive reads returns the last \<open>MAX_HISTORY\<close> stored messages, the
  second one the same list, and the two responses are equal once \<open>createdAt\<close> and
  \<open>updatedAt\<close> are left out. They are equal altogether when the stored value is an
  object, or when both reads see the same values of the clock.
\<close>
theorem history_read_twice:
  assumes "sid \<noteq> []"
      and "truthy (ss sid SESSION_STORAGE_KEY) \<or> \<not> truthy (ss sid ''messages'')"
  shows "snd (api_history clk1 ''GET'' (Some sid) ss) = ss
       \<and> payload_messages (fst (read_twice clk1 clk2 sid ss))
           = Some (JArr (slice_last MAX_HISTORY (stored_messages (ss sid))))
       \<and> payload_messages (snd (read_twice clk1 clk2 sid ss)) = payload_messages (fst (read_twice clk1 clk2 sid ss))
       \<and> without_timestamps (snd (read_twice clk1 clk2 sid ss))
           = without_timestamps (fst (read_twice clk1 clk2 sid ss))
       \<and> ((\<exists>kvs. ss sid SESSION_STORAGE_KEY = Some (JObj kvs))
            \<or> (t_created clk1 = t_created clk2 \<and> t_updated clk1 = t_updated clk2)
          \<longrightarrow> snd (read_twice clk1 clk2 sid ss) = fst (read_twice clk1 clk2 sid ss))"
proof -
  have same: "snd (getSessionRecord clk1 (ss sid)) = ss sid"
    using assms(2) by (rule getSessionRecord_no_migration)
  have unchanged: "snd (api_history clk1 ''GET'' (Some sid) ss) = ss"
    by (simp add: api_history_eq[OF assms(1)] same)
  have first: "payload_messages (fst (read_twice clk1 clk2 sid ss))
           = Some (JArr (slice_last MAX_HISTORY (stored_messages (ss sid))))"
    by (simp add: read_twice_def payload_messages_history[OF assms(1)])
  have msgs: "payload_messages (snd (read_twice clk1 clk2 sid ss))
                = payload_messages (fst (read_twice clk1 clk2 sid ss))"
    by (simp add: read_twice_def unchanged payload_messages_history[OF assms(1)])
  have upto: "without_timestamps (snd (read_twice clk1 clk2 sid ss))
           = without_timestamps (fst (read_twice clk1 clk2 sid ss))"
    unfolding read_twice_def fst_conv snd_conv unchanged
    by (simp only: api_history_without_timestamps[OF assms(1), of _ _ clk1])
  have eq: "snd (read_twice clk1 clk2 sid ss) = fst (read_twice clk1 clk2 sid ss)"
    if "(\<exists>kvs. ss sid SESSION_STORAGE_KEY = Some (JObj kvs))
        \<or> (t_created clk1 = t_created clk2 \<and> t_updated clk1 = t_updated clk2)"
  proof -
    from that have "getSessionRecord clk2 (ss sid) = getSessionRecord clk1 (ss sid)"
      by (auto intro: getSessionRecord_current_clock getSessionRecord_same_reads)
    then show ?thesis
      by (simp add: read_twice_def api_history_eq[OF assms(1)] same)
  qed
  from unchanged first msgs upto eq show ?thesis by blast
qed

theorem history_read_twice_counterexample:
  "snd (api_history \<lparr>t_created = ''t1'', t_updated = ''t1'', t_now = ''t1''\<rparr> ''GET'' (Some ''s1'')
         (\<lambda>sid k. None)) = (\<lambda>sid k. None)
   \<and> fst (read_twice \<lparr>t_created = ''t1'', t_updated = ''t1'', t_now = ''t1''\<rparr>
                      \<lparr>t_created = ''t2'', t_updated = ''t2'', t_now = ''t2''\<rparr> ''s1'' (\<lambda>sid k. None))
       = jsonResponse (JObj [(''messages'', JArr []), (''createdAt'', JStr ''t1''),
                             (''updatedAt'', JStr ''t1'')]) 200
   \<and> snd (read_twice \<lparr>t_created = ''t1'', t_updated = ''t1'', t_now = ''t1''\<rparr>
                      \<lparr>t_created = ''t2'', t_updated = ''t2'', t_now = ''t2''\<rparr> ''s1'' (\<lambda>sid k. None))
       = jsonResponse (JObj [(''messages'', JArr []), (''createdAt'', JStr ''t2''),
                             (''updatedAt'', JStr ''t2'')]) 200
   \<and> fst (read_twice \<lparr>t_created = ''t1'', t_updated = ''t1'', t_now = ''t1''\<rparr>
                      \<lparr>t_created = ''t2'', t_updated = ''t2'', t_now = ''t2''\<rparr> ''s1'' (\<lambda>sid k. None))
     \<noteq> snd (read_twice \<lparr>t_created = ''t1'', t_updated = ''t1'', t_now = ''t1''\<rparr>
                        \<lparr>t_created = ''t2'', t_updated = ''t2'', t_now = ''t2''\<rparr> ''s1'' (\<lambda>sid k. None))
   \<and> snd (api_history \<lparr>t_created = ''t1'', t_updated = ''t1'', t_now = ''t1''\<rparr> ''GET'' (Some ''s1'')
         (\<lambda>sid. (\<lambda>k. None)(''session'' \<mapsto> JArr [JStr ''m''])))
       = (\<lambda>sid. (\<lambda>k. None)(''session'' \<mapsto> JArr [JStr ''m'']))
   \<and> fst (read_twice \<lparr>t_created = ''t1'', t_updated = ''t1'', t_now = ''t1''\<rparr>
                      \<lparr>t_created = ''t2'', t_updated = ''t2'', t_now = ''t2''\<rparr> ''s1''
                      (\<lambda>sid. (\<lambda>k. None)(''session'' \<mapsto> JArr [JStr ''m''])))
     \<noteq> snd (read_twice \<lparr>t_created = ''t1'', t_updated = ''t1'', t_now = ''t1''\<rparr>
                        \<lparr>t_created = ''t2'', t_updated = ''t2'', t_now = ''t2''\<rparr> ''s1''
                        (\<lambda>sid. (\<lambda>k. None)(''session'' \<mapsto> JArr [JStr ''m''])))"
proof -
  let ?c1 = "\<lparr>t_created = ''t1'', t_updated = ''t1'', t_now = ''t1''\<rparr>"
  let ?c2 = "\<lparr>t_created = ''t2'', t_updated = ''t2'', t_now = ''t2''\<rparr>"
  let ?E = "(\<lambda>sid k. None) :: sessions"
  let ?A = "(\<lambda>sid. (\<lambda>k. None)(''session'' \<mapsto> JArr [JStr ''m''])) :: sessions"
  have g: "getSessionRecord c (\<lambda>k. None)
             = (\<lparr>messages = [], modelId = None, createdAt = Some (JStr (t_created c)),
                 updatedAt = Some (JStr (t_updated c))\<rparr>, (\<lambda>k. None))" for c
    by (simp add: getSessionRecord_def Let_def)
  have ga: "getSessionRecord c ((\<lambda>k. None)(''session'' \<mapsto> JArr [JStr ''m'']))
             = (\<lparr>messages = [JStr ''m''], modelId = None, createdAt = Some (JStr (t_created c)),
                 updatedAt = Some (JStr (t_updated c))\<rparr>, (\<lambda>k. None)(''session'' \<mapsto> JArr [JStr ''m'']))" for c
    by (simp add: getSessionRecord_def Let_def SESSION_STORAGE_KEY_def)
  have se: "stored_messages (\<lambda>k. None) = []" by (rule stored_messages_empty)
  have 1: "snd (api_history ?c1 ''GET'' (Some ''s1'') ?E) = ?E"
    by (simp add: api_history_eq g fun_eq_iff)
  have 2: "fst (read_twice ?c1 ?c2 ''s1'' ?E)
       = jsonResponse (JObj [(''messages'', JArr []), (''createdAt'', JStr ''t1''),
                             (''updatedAt'', JStr ''t1'')]) 200"
    by (simp add: read_twice_def api_history_eq g se slice_last_def record_json_def opt_field_def)
  have 3: "snd (read_twice ?c1 ?c2 ''s1'' ?E)
       = jsonResponse (JObj [(''messages'', JArr []), (''createdAt'', JStr ''t2''),
                             (''updatedAt'', JStr ''t2'')]) 200"
    unfolding read_twice_def snd_conv 1
    by (simp add: api_history_eq g se slice_last_def record_json_def opt_field_def)
  have 4: "fst (read_twice ?c1 ?c2 ''s1'' ?E) \<noteq> snd (read_twice ?c1 ?c2 ''s1'' ?E)"
    unfolding 2 3 by (simp add: jsonResponse_def)
  have 5: "snd (api_history ?c1 ''GET'' (Some ''s1'') ?A) = ?A"
    by (simp add: api_history_eq ga fun_eq_iff)
  have 6: "fst (read_twice ?c1 ?c2 ''s1'' ?A) \<noteq> snd (read_twice ?c1 ?c2 ''s1'' ?A)"
    unfolding read_twice_def fst_conv snd_conv 5
    by (simp add: api_history_eq ga jsonResponse_def record_json_def opt_field_def)
  from 1 2 3 4 5 6 show ?thesis by (intro conjI)
qed

theorem history_read_twice_witness:
  "snd (api_history \<lparr>t_created = ''t1'', t_updated = ''t1'', t_now = ''t1''\<rparr> ''GET'' (Some ''s1'')
         (\<lambda>sid. (\<lambda>k. None)(''session'' \<mapsto>
            JObj [(''messages'', JArr [JStr ''m'']), (''createdAt'', JStr ''t0''), (''updatedAt'', JStr ''t0'')])))
     = (\<lambda>sid. (\<lambda>k. None)(''session'' \<mapsto>
            JObj [(''messages'', JArr [JStr ''m'']), (''createdAt'', JStr ''t0''), (''updatedAt'', JStr ''t0'')]))
   \<and> snd (read_twice \<lparr>t_created = ''t1'', t_updated = ''t1'', t_now = ''t1''\<rparr>
                      \<lparr>t_created = ''t2'', t_updated = ''t2'', t_now = ''t2''\<rparr> ''s1''
         (\<lambda>sid. (\<lambda>k. None)(''session'' \<mapsto>
            JObj [(''messages'', JArr [JStr ''m'']), (''createdAt'', JStr ''t0''), (''updatedAt'', JStr ''t0'')])))
     = fst (read_twice \<lparr>t_created = ''t1'', t_updated = ''t1'', t_now = ''t1''\<rparr>
                      \<lparr>t_created = ''t2'', t_updated = ''t2'', t_now = ''t2''\<rparr> ''s1''
         (\<lambda>sid. (\<lambda>k. None)(''session'' \<mapsto>
            JObj [(''messages'', JArr [JStr ''m'']), (''createdAt'', JStr ''t0''), (''updatedAt'', JStr ''t0'')])))
   \<and> payload_messages (snd (read_twice \<lparr>t_created = ''t1'', t_updated = ''t1'', t_now = ''t1''\<rparr>
                      \<lparr>t_created = ''t2'', t_updated = ''t2'', t_now = ''t2''\<rparr> ''s1''
         (\<lambda>sid. (\<lambda>k. None)(''session'' \<mapsto> JArr [JStr ''m'']))))
     = Some (JArr [JStr ''m''])
   \<and> without_timestamps (snd (read_twice \<lparr>t_created = ''t1'', t_updated = ''t1'', t_now = ''t1''\<rparr>
                      \<lparr>t_created = ''t2'', t_updated = ''t2'', t_now = ''t2''\<rparr> ''s1''
         (\<lambda>sid. (\<lambda>k. None)(''session'' \<mapsto> JArr [JStr ''m'']))))
     = without_timestamps (fst (read_twice \<lparr>t_created = ''t1'', t_updated = ''t1'', t_now = ''t1''\<rparr>
                      \<lparr>t_created = ''t2'', t_updated = ''t2'', t_now = ''t2''\<rparr> ''s1''
         (\<lambda>sid. (\<lambda>k. None)(''session'' \<mapsto> JArr [JStr ''m'']))))"
proof -
  let ?c1 = "\<lparr>t_created = ''t1'', t_updated = ''t1'', t_now = ''t1''\<rparr>"
  let ?c2 = "\<lparr>t_created = ''t2'', t_updated = ''t2'', t_now = ''t2''\<rparr>"
  let ?S = "\<lambda>sid :: string. (\<lambda>k. None)(''session'' \<mapsto>
            JObj [(''messages'', JArr [JStr ''m'']), (''createdAt'', JStr ''t0''), (''updatedAt'', JStr ''t0'')])"
  let ?A = "(\<lambda>sid. (\<lambda>k. None)(''session'' \<mapsto> JArr [JStr ''m''])) :: sessions"
  have h1: "''s1'' \<noteq> []" by simp
  have h2: "truthy (?S ''s1'' SESSION_STORAGE_KEY) \<or> \<not> truthy (?S ''s1'' ''messages'')"
    by (simp add: SESSION_STORAGE_KEY_def)
  have h3: "\<exists>kvs. ?S ''s1'' SESSION_STORAGE_KEY = Some (JObj kvs)"
    by (simp add: SESSION_STORAGE_KEY_def)
  have a2: "truthy (?A ''s1'' SESSION_STORAGE_KEY) \<or> \<not> truthy (?A ''s1'' ''messages'')"
    by (simp add: SESSION_STORAGE_KEY_def)
  have sa: "stored_messages (?A ''s1'') = [JStr ''m'']"
    by (simp add: stored_messages_def getSessionRecord_def Let_def SESSION_STORAGE_KEY_def)
  note w = history_read_twice[OF h1 h2, of ?c1 ?c2]
  note wa = history_read_twice[OF h1 a2, of ?c1 ?c2]
  from w h3 have 1: "snd (api_history ?c1 ''GET'' (Some ''s1'') ?S) = ?S" by blast
  from w h3 have 2: "snd (read_twice ?c1 ?c2 ''s1'' ?S) = fst (read_twice ?c1 ?c2 ''s1'' ?S)" by blast
  from wa have m: "payload_messages (snd (read_twice ?c1 ?c2 ''s1'' ?A))
                   = payload_messages (fst (read_twice ?c1 ?c2 ''s1'' ?A))"
    by blast
  from wa have f: "payload_messages (fst (read_twice ?c1 ?c2 ''s1'' ?A))
                   = Some (JArr (slice_last MAX_HISTORY (stored_messages (?A ''s1''))))"
    by blast
  have 3: "payload_messages (snd (read_twice ?c1 ?c2 ''s1'' ?A)) = Some (JArr [JStr ''m''])"
    unfolding m f sa by (simp add: slice_last_def MAX_HISTORY_def)
  from wa have 4: "without_timestamps (snd (read_twice ?c1 ?c2 ''s1'' ?A))
                   = without_timestamps (fst (read_twice ?c1 ?c2 ''s1'' ?A))"
    by blast
  from 1 2 3 4 show ?thesis by (intro conjI)
qed

lemma set_slice_last: "set (slice_last n xs) \<subseteq> set xs"
  by (simp add: slice_last_def set_drop_subset)

lemma stored_messages_after_read:
  "set (stored_messages (snd (getSessionRecord clk st))) \<subseteq> set (stored_messages st)"
proof (cases "truthy (st SESSION_STORAGE_KEY) \<or> \<not> truthy (st ''messages'')")
  case True
  then show ?thesis by (simp add: getSessionRecord_no_migration)
next
  case False
  then have "snd (getSessionRecord clk st) = st(''messages'' := None)"
    unfolding getSessionRecord_def Let_def
    by (cases "st ''messages''") (auto split: json.splits)
  moreover from False have "stored_messages (st(''messages'' := None)) = []"
    by (simp add: stored_messages_def getSessionRecord_def Let_def SESSION_STORAGE_KEY_def)
  ultimately show ?thesis by simp
qed

lemma valid_message_iff:
  "valid_message (Some m) \<longleftrightarrow>
     user_or_assistant m \<and> (\<exists>c. get_prop m ''content'' = Some (JStr c))"
  unfolding valid_message_def user_or_assistant_def
  by (cases m) (auto split: option.splits json.splits)

lemma do_fetch_post:
  "do_fetch clk \<lparr>verb = ''POST'', pathname = ''/messages'', payload = b\<rparr> st =
     (case opt_prop b ''message'' of
        None \<Rightarrow> (jsonResponse (error_body ''Invalid message payload'') 400, st)
      | Some m \<Rightarrow>
          if valid_message (Some m) then
            (\<lparr>status = 204, body = NoBody\<rparr>,
             persistMessage clk m
               (case opt_prop b ''modelId'' of
                  Some (JStr i) \<Rightarrow> if trim i \<noteq> [] then Some (trim i) else None
                | _ \<Rightarrow> None) st)
          else (jsonResponse (error_body ''Invalid message payload'') 400, st))"
  by (simp add: do_fetch_def Let_def split: option.splits)

lemma do_fetch_preserves:
  assumes "\<forall>m\<in>set (stored_messages st). user_or_assistant m"
  shows "\<forall>m\<in>set (stored_messages (snd (do_fetch clk request st))). user_or_assistant m"
proof -
  consider (get) "verb request = ''GET'' \<and> pathname request = ''/messages''"
    | (post) "\<not> (verb request = ''GET'' \<and> pathname request = ''/messages'')"
             "verb request = ''POST'' \<and> pathname request = ''/messages''"
    | (other) "\<not> (verb request = ''GET'' \<and> pathname request = ''/messages'')"
              "\<not> (verb request = ''POST'' \<and> pathname request = ''/messages'')"
    by blast
  then show ?thesis
  proof cases
    case get
    then have "snd (do_fetch clk request st) = snd (getSessionRecord clk st)"
      by (simp add: do_fetch_def split: prod.splits)
    with assms stored_messages_after_read[of clk st] show ?thesis by auto
  next
    case post
    show ?thesis
    proof (cases "opt_prop (payload request) ''message''")
      case None
      with post show ?thesis using assms by (simp add: do_fetch_def)
    next
      case (Some m)
      show ?thesis
      proof (cases "valid_message (Some m)")
        case False
        with post Some show ?thesis using assms by (simp add: do_fetch_def)
      next
        case True
        then have u: "user_or_assistant m" by (simp add: valid_message_iff)
        have "set (slice_last MAX_HISTORY (stored_messages st @ [m])) \<subseteq> set (stored_messages st) \<union> {m}"
          using set_slice_last[of MAX_HISTORY "stored_messages st @ [m]"] by simp
        moreover have "snd (do_fetch clk request st)
            = persistMessage clk m
               (case opt_prop (payload request) ''modelId'' of
                  Some (JStr i) \<Rightarrow> if trim i \<noteq> [] then Some (trim i) else None
                | _ \<Rightarrow> None) st"
          using post Some True by (simp add: do_fetch_def Let_def)
        ultimately show ?thesis
          using u assms by (auto simp: stored_messages_persist)
      qed
    qed
  next
    case other
    then have "snd (do_fetch clk request st) = st"
      unfolding do_fetch_def by (simp only: if_False snd_conv)
    then show ?thesis using assms by simp
  qed
qed

lemma run_requests_preserves:
  "\<forall>m\<in>set (stored_messages st). user_or_assistant m \<Longrightarrow>
   \<forall>m\<in>set (stored_messages (run_requests reqs st)). user_or_assistant m"
proof (induction reqs arbitrary: st)
  case Nil
  then show ?case by simp
next
  case (Cons a reqs)
  obtain clk request where a: "a = (clk, request)" by (cases a)
  from Cons.prems have "\<forall>m\<in>set (stored_messages (snd (do_fetch clk request st))). user_or_assistant m"
    by (rule do_fetch_preserves)
  from Cons.IH[OF this] show ?case by (simp add: a)
qed

text \<open>
  C10. \<open>POST /messages\<close> answers 204 exactly when the message has the role \<open>user\<close> or
  \<open>assistant\<close> and a string as content, and the stored list is then the last
  \<open>MAX_HISTORY\<close> of the former list followed by the message. Any other payload, a message
  of role \<open>system\<close> among them, is answered 400 with \<open>Invalid message payload\<close> and leaves
  the store as it is. No sequence of requests puts a message of another role into a store
  that holds none, and a store that starts empty never holds a message of role \<open>system\<close>.
\<close>
theorem append_endpoint_guard:
  "(status (fst (do_fetch clk \<lparr>verb = ''POST'', pathname = ''/messages'', payload = b\<rparr> st)) = 204
      \<longleftrightarrow> (\<exists>m c. opt_prop b ''message'' = Some m \<and> user_or_assistant m
                  \<and> get_prop m ''content'' = Some (JStr c)))
   \<and> (\<forall>m. opt_prop b ''message'' = Some m
          \<and> status (fst (do_fetch clk \<lparr>verb = ''POST'', pathname = ''/messages'', payload = b\<rparr> st)) = 204
        \<longrightarrow> stored_messages (snd (do_fetch clk \<lparr>verb = ''POST'', pathname = ''/messages'', payload = b\<rparr> st))
              = slice_last MAX_HISTORY (stored_messages st @ [m]))
   \<and> (status (fst (do_fetch clk \<lparr>verb = ''POST'', pathname = ''/messages'', payload = b\<rparr> st)) \<noteq> 204
        \<longrightarrow> fst (do_fetch clk \<lparr>verb = ''POST'', pathname = ''/messages'', payload = b\<rparr> st)
              = jsonResponse (error_body ''Invalid message payload'') 400
          \<and> snd (do_fetch clk \<lparr>verb = ''POST'', pathname = ''/messages'', payload = b\<rparr> st) = st)
   \<and> (\<forall>m. opt_prop b ''message'' = Some m \<and> get_prop m ''role'' = Some (JStr ''system'')
        \<longrightarrow> status (fst (do_fetch clk \<lparr>verb = ''POST'', pathname = ''/messages'', payload = b\<rparr> st)) = 400
          \<and> snd (do_fetch clk \<lparr>verb = ''POST'', pathname = ''/messages'', payload = b\<rparr> st) = st)
   \<and> ((\<forall>m\<in>set (stored_messages st). user_or_assistant m)
        \<longrightarrow> (\<forall>m\<in>set (stored_messages (run_requests reqs st)). user_or_assistant m))
   \<and> (\<forall>m\<in>set (stored_messages (run_requests reqs (\<lambda>k. None))).
          user_or_assistant m \<and> get_prop m ''role'' \<noteq> Some (JStr ''system''))"
proof -
  let ?r = "do_fetch clk \<lparr>verb = ''POST'', pathname = ''/messages'', payload = b\<rparr> st"
  have a: "status (fst ?r) = 204
      \<longleftrightarrow> (\<exists>m c. opt_prop b ''message'' = Some m \<and> user_or_assistant m
                  \<and> get_prop m ''content'' = Some (JStr c))"
    by (cases "opt_prop b ''message''")
       (auto simp: do_fetch_post jsonResponse_def valid_message_iff)
  have b: "stored_messages (snd ?r) = slice_last MAX_HISTORY (stored_messages st @ [m])"
    if "opt_prop b ''message'' = Some m" "status (fst ?r) = 204" for m
    using that
    by (auto simp: do_fetch_post jsonResponse_def stored_messages_persist split: if_splits)
  have c: "fst ?r = jsonResponse (error_body ''Invalid message payload'') 400 \<and> snd ?r = st"
    if "status (fst ?r) \<noteq> 204"
    using that
    by (cases "opt_prop b ''message''") (auto simp: do_fetch_post split: if_splits)
  have d: "status (fst ?r) = 400 \<and> snd ?r = st"
    if "opt_prop b ''message'' = Some m" "get_prop m ''role'' = Some (JStr ''system'')" for m
    using that
    by (simp add: do_fetch_post valid_message_iff user_or_assistant_def jsonResponse_def)
  have e: "\<forall>m\<in>set (stored_messages (run_requests reqs st)). user_or_assistant m"
    if "\<forall>m\<in>set (stored_messages st). user_or_assistant m"
    using that by (rule run_requests_preserves)
  have f: "\<forall>m\<in>set (stored_messages (run_requests reqs (\<lambda>k. None))).
          user_or_assistant m \<and> get_prop m ''role'' \<noteq> Some (JStr ''system'')"
    using run_requests_preserves[of "\<lambda>k. None" reqs]
    by (auto simp: stored_messages_empty user_or_assistant_def)
  from a b c d e f show ?thesis by blast
qed

theorem append_endpoint_guard_witness:
  "status (fst (do_fetch \<lparr>t_created = ''t'', t_updated = ''t'', t_now = ''t''\<rparr>
                  \<lparr>verb = ''POST'', pathname = ''/messages'',
                   payload = Some (JObj [(''message'',
                               JObj [(''role'', JStr ''system''), (''content'', JStr ''be evil'')])])\<rparr>
                  (\<lambda>k. None))) = 400
   \<and> snd (do_fetch \<lparr>t_created = ''t'', t_updated = ''t'', t_now = ''t''\<rparr>
                  \<lparr>verb = ''POST'', pathname = ''/messages'',
                   payload = Some (JObj [(''message'',
                               JObj [(''role'', JStr ''system''), (''content'', JStr ''be evil'')])])\<rparr>
                  (\<lambda>k. None)) = (\<lambda>k. None)
   \<and> status (fst (do_fetch \<lparr>t_created = ''t'', t_updated = ''t'', t_now = ''t''\<rparr>
                  \<lparr>verb = ''POST'', pathname = ''/messages'',
                   payload = Some (JObj [(''message'',
                               JObj [(''role'', JStr ''user''), (''content'', JStr ''hi'')])])\<rparr>
                  (\<lambda>k. None))) = 204
   \<and> stored_messages (snd (do_fetch \<lparr>t_created = ''t'', t_updated = ''t'', t_now = ''t''\<rparr>
                  \<lparr>verb = ''POST'', pathname = ''/messages'',
                   payload = Some (JObj [(''message'',
                               JObj [(''role'', JStr ''user''), (''content'', JStr ''hi'')])])\<rparr>
                  (\<lambda>k. None)))
       = [JObj [(''role'', JStr ''user''), (''content'', JStr ''hi'')]]"
proof -
  let ?c = "\<lparr>t_created = ''t'', t_updated = ''t'', t_now = ''t''\<rparr>"
  let ?sys = "JObj [(''role'', JStr ''system''), (''content'', JStr ''be evil'')]"
  let ?usr = "JObj [(''role'', JStr ''user''), (''content'', JStr ''hi'')]"
  let ?E = "(\<lambda>k. None) :: storage"
  have s: "opt_prop (Some (JObj [(''message'', ?sys)])) ''message'' = Some ?sys
           \<and> get_prop ?sys ''role'' = Some (JStr ''system'')"
    by simp
  have u: "\<exists>m c. opt_prop (Some (JObj [(''message'', ?usr)])) ''message'' = Some m \<and> user_or_assistant m
                  \<and> get_prop m ''content'' = Some (JStr c)"
    by (simp add: user_or_assistant_def)
  have um: "opt_prop (Some (JObj [(''message'', ?usr)])) ''message'' = Some ?usr" by simp
  note sysw = append_endpoint_guard[of ?c "Some (JObj [(''message'', ?sys)])" ?E "[]"]
  note usrw = append_endpoint_guard[of ?c "Some (JObj [(''message'', ?usr)])" ?E "[]"]
  from sysw s have 1: "status (fst (do_fetch ?c \<lparr>verb = ''POST'', pathname = ''/messages'',
                   payload = Some (JObj [(''message'', ?sys)])\<rparr> ?E)) = 400
      \<and> snd (do_fetch ?c \<lparr>verb = ''POST'', pathname = ''/messages'',
                   payload = Some (JObj [(''message'', ?sys)])\<rparr> ?E) = ?E"
    by blast
  from usrw u have 2: "status (fst (do_fetch ?c \<lparr>verb = ''POST'', pathname = ''/messages'',
                   payload = Some (JObj [(''message'', ?usr)])\<rparr> ?E)) = 204"
    by blast
  from usrw um 2 have 3: "stored_messages (snd (do_fetch ?c \<lparr>verb = ''POST'', pathname = ''/messages'',
                   payload = Some (JObj [(''message'', ?usr)])\<rparr> ?E))
        = slice_last MAX_HISTORY (stored_messages ?E @ [?usr])"
    by blast
  from 1 2 3 show ?thesis
    by (simp add: stored_messages_empty slice_last_def MAX_HISTORY_def)
qed

section \<open>Properties of the chunker\<close>

lemma chunk_loop_windows:
  "chunk_loop normalized cs ov index chunks =
     chunks @ filter (\<lambda>c. c \<noteq> [])
                (map (\<lambda>w. trim (slice normalized w (w + cs)))
                     (chunk_windows normalized cs ov index (length chunks)))"
proof (induction normalized cs ov index chunks rule: chunk_loop.induct)
  case (1 normalized cs ov index chunks)
  note L = chunk_loop.simps[of normalized cs ov index chunks]
  note W = chunk_windows.simps[of normalized cs ov index "length chunks"]
  show ?case
  proof (cases "index < length normalized \<and> length chunks < MAX_DOC_CHUNKS")
    case False
    then show ?thesis
      unfolding L W by auto
  next
    case True
    note t = this
    show ?thesis
    proof (cases "index + cs \<ge> length normalized")
      case True
      with t show ?thesis
        unfolding L W by (auto simp: push_slice_def)
    next
      case False
      have len: "length (push_slice normalized cs index chunks)
                 = (if length (trim (slice normalized index (index + cs))) > 0
                    then Suc (length chunks) else length chunks)"
        by (simp add: push_slice_def)
      have "chunk_loop normalized cs ov index chunks
            = chunk_loop normalized cs ov (index + max 1 (cs - ov)) (push_slice normalized cs index chunks)"
        using t False unfolding L by simp
      also have "\<dots> = push_slice normalized cs index chunks @ filter (\<lambda>c. c \<noteq> [])
                (map (\<lambda>w. trim (slice normalized w (w + cs)))
                     (chunk_windows normalized cs ov (index + max 1 (cs - ov))
                        (length (push_slice normalized cs index chunks))))"
        by (rule "1.IH"[OF t False])
      also have "\<dots> = chunks @ filter (\<lambda>c. c \<noteq> [])
                (map (\<lambda>w. trim (slice normalized w (w + cs)))
                     (chunk_windows normalized cs ov index (length chunks)))"
        using t False unfolding W len by (auto simp: push_slice_def)
      finally show ?thesis .
    qed
  qed
qed

lemma chunk_windows_cover:
  "0 < cs \<Longrightarrow> index \<le> p \<Longrightarrow> p < length normalized \<Longrightarrow> n < MAX_DOC_CHUNKS \<Longrightarrow>
   p < index + (MAX_DOC_CHUNKS - 1 - n) * max 1 (cs - ov) + cs \<Longrightarrow>
   \<exists>w\<in>set (chunk_windows normalized cs ov index n). w \<le> p \<and> p < w + cs"
proof (induction normalized cs ov index n rule: chunk_windows.induct)
  case (1 normalized cs ov index n)
  let ?step = "max 1 (cs - ov)"
  let ?n' = "if length (trim (slice normalized index (index + cs))) > 0 then Suc n else n"
  from "1.prems" have guard: "index < length normalized \<and> n < MAX_DOC_CHUNKS" by simp
  show ?case
  proof (cases "p < index + cs")
    case True
    with guard "1.prems"(2) show ?thesis
      by (subst chunk_windows.simps) simp
  next
    case False
    with "1.prems"(3) have nb: "\<not> index + cs \<ge> length normalized" by simp
    have step_le: "?step \<le> cs" using "1.prems"(1) by simp
    from False "1.prems"(5) have more: "0 < MAX_DOC_CHUNKS - 1 - n"
      by (cases "MAX_DOC_CHUNKS - 1 - n") simp_all
    then have n'lt: "?n' < MAX_DOC_CHUNKS" by simp
    have ip: "index + ?step \<le> p" using False step_le by simp
    have "(MAX_DOC_CHUNKS - 1 - n) * ?step = ?step + (MAX_DOC_CHUNKS - 1 - Suc n) * ?step"
      using more by (cases "MAX_DOC_CHUNKS - 1 - n") simp_all
    moreover have "(MAX_DOC_CHUNKS - 1 - Suc n) * ?step \<le> (MAX_DOC_CHUNKS - 1 - ?n') * ?step"
      by (rule mult_le_mono1, rule diff_le_mono2) simp
    ultimately have bound: "p < index + ?step + (MAX_DOC_CHUNKS - 1 - ?n') * ?step + cs"
      using "1.prems"(5) by linarith
    from "1.IH"[OF guard nb "1.prems"(1) ip "1.prems"(3) n'lt bound]
    obtain w where "w \<in> set (chunk_windows normalized cs ov (index + ?step) ?n')" "w \<le> p" "p < w + cs"
      by blast
    with guard nb show ?thesis
      by (subst chunk_windows.simps) auto
  qed
qed

lemma chunk_windows_bound:
  "\<forall>i<length normalized. trim (slice normalized i (i + cs)) \<noteq> [] \<Longrightarrow> n < MAX_DOC_CHUNKS \<Longrightarrow>
   \<forall>w\<in>set (chunk_windows normalized cs ov index n). w \<le> index + (MAX_DOC_CHUNKS - 1 - n) * max 1 (cs - ov)"
proof (induction normalized cs ov index n rule: chunk_windows.induct)
  case (1 normalized cs ov index n)
  let ?step = "max 1 (cs - ov)"
  note W = chunk_windows.simps[of normalized cs ov index n]
  show ?case
  proof (cases "index < length normalized \<and> n < MAX_DOC_CHUNKS")
    case False
    then show ?thesis unfolding W by auto
  next
    case True
    note t = this
    show ?thesis
    proof (cases "index + cs \<ge> length normalized")
      case True
      with t show ?thesis unfolding W by auto
    next
      case False
      from t "1.prems"(1) have ne: "length (trim (slice normalized index (index + cs))) > 0" by simp
      show ?thesis
      proof (cases "Suc n < MAX_DOC_CHUNKS")
        case False
        then have "chunk_windows normalized cs ov (index + ?step) (Suc n) = []"
          by (subst chunk_windows.simps) simp
        with t \<open>\<not> index + cs \<ge> length normalized\<close> ne show ?thesis unfolding W by auto
      next
        case True
        from "1.IH"[OF t \<open>\<not> index + cs \<ge> length normalized\<close> "1.prems"(1)] ne True
        have ih: "\<forall>w\<in>set (chunk_windows normalized cs ov (index + ?step) (Suc n)).
                   w \<le> index + ?step + (MAX_DOC_CHUNKS - 1 - Suc n) * ?step"
          by simp
        have "?step + (MAX_DOC_CHUNKS - 1 - Suc n) * ?step = (MAX_DOC_CHUNKS - 1 - n) * ?step"
          using True by (cases "MAX_DOC_CHUNKS - 1 - n") simp_all
        with ih have "\<forall>w\<in>set (chunk_windows normalized cs ov (index + ?step) (Suc n)).
                   w \<le> index + (MAX_DOC_CHUNKS - 1 - n) * ?step"
          by (simp add: add.assoc)
        with t \<open>\<not> index + cs \<ge> length normalized\<close> ne show ?thesis unfolding W by auto
      qed
    qed
  qed
qed

lemma trim_no_space: "\<forall>c\<in>set s. \<not> is_space c \<Longrightarrow> trim s = s"
proof -
  assume a: "\<forall>c\<in>set s. \<not> is_space c"
  then have 1: "dropWhile is_space s = s"
    by (cases s) simp_all
  from a have "\<forall>c\<in>set (rev s). \<not> is_space c" by simp
  then have 2: "dropWhile is_space (rev s) = rev s"
    by (cases "rev s") simp_all
  show ?thesis by (simp add: trim_def 1 2)
qed

lemma set_trim: "set (trim s) \<subseteq> set s"
proof -
  have "set (trim s) = set (dropWhile is_space (rev (dropWhile is_space s)))"
    by (simp add: trim_def)
  also have "\<dots> \<subseteq> set (rev (dropWhile is_space s))" by (auto dest: set_dropWhileD)
  also have "\<dots> \<subseteq> set s" by (auto dest: set_dropWhileD)
  finally show ?thesis .
qed

lemma collapse_no_newline: "newline \<notin> set s \<Longrightarrow> collapse_newlines k s = s"
  by (induction s arbitrary: k) auto

lemma set_slice: "set (slice s a b) \<subseteq> set (take b s)"
proof -
  have "slice s a b = drop a (take b s)" by (simp add: slice_def drop_take)
  then show ?thesis by (simp add: set_drop_subset)
qed

lemma chunkText_windows:
  "chunkText t CHUNK_SIZE CHUNK_OVERLAP
     = filter (\<lambda>c. c \<noteq> []) (map (\<lambda>w. trim (slice (normalize t) w (w + CHUNK_SIZE))) (text_windows t))"
proof (cases "normalize t = []")
  case True
  then show ?thesis
    by (simp add: chunkText_def text_windows_def chunk_windows.simps[of "[]"])
next
  case False
  then show ?thesis
    by (simp add: chunkText_def text_windows_def chunk_loop_windows[of _ _ _ 0 "[]", simplified])
qed

text \<open>
  C4. The chunks of \<open>chunkText\<close> are the non-empty trimmed windows
  \<open>[w, w + CHUNK_SIZE)\<close> the loop visits, and every position of the normalized text below
  \<open>(MAX_DOC_CHUNKS - 1) * (CHUNK_SIZE - CHUNK_OVERLAP) + CHUNK_SIZE = 39150\<close> lies in one of
  these windows.
\<close>
theorem chunk_cover_below_cap:
  "chunkText t CHUNK_SIZE CHUNK_OVERLAP
     = filter (\<lambda>c. c \<noteq> []) (map (\<lambda>w. trim (slice (normalize t) w (w + CHUNK_SIZE))) (text_windows t))
   \<and> (MAX_DOC_CHUNKS - 1) * (CHUNK_SIZE - CHUNK_OVERLAP) + CHUNK_SIZE = 39150
   \<and> (\<forall>p. p < length (normalize t) \<and> p < 39150
          \<longrightarrow> (\<exists>w\<in>set (text_windows t). w \<le> p \<and> p < w + CHUNK_SIZE))"
proof -
  note link = chunkText_windows[of t]
  have num: "(MAX_DOC_CHUNKS - 1) * (CHUNK_SIZE - CHUNK_OVERLAP) + CHUNK_SIZE = 39150"
    by (simp add: MAX_DOC_CHUNKS_def CHUNK_SIZE_def CHUNK_OVERLAP_def)
  have cover: "\<exists>w\<in>set (text_windows t). w \<le> p \<and> p < w + CHUNK_SIZE"
    if "p < length (normalize t)" "p < 39150" for p
    unfolding text_windows_def
  proof (rule chunk_windows_cover)
    show "0 < CHUNK_SIZE" by (simp add: CHUNK_SIZE_def)
    show "0 \<le> p" by simp
    show "p < length (normalize t)" by (rule that)
    show "0 < MAX_DOC_CHUNKS" by (simp add: MAX_DOC_CHUNKS_def)
    show "p < 0 + (MAX_DOC_CHUNKS - 1 - 0) * max 1 (CHUNK_SIZE - CHUNK_OVERLAP) + CHUNK_SIZE"
      using that(2) by (simp add: MAX_DOC_CHUNKS_def CHUNK_SIZE_def CHUNK_OVERLAP_def)
  qed
  from link num cover show ?thesis by blast
qed

lemma normalize_no_space:
  assumes "\<forall>c\<in>set s. \<not> is_space c"
  shows "normalize s = s"
proof -
  have "is_space newline" by (simp add: is_space_def newline_def)
  with assms have "newline \<notin> set s" by auto
  then show ?thesis by (simp add: normalize_def collapse_no_newline trim_no_space assms)
qed

lemma windows_no_space:
  assumes "\<forall>c\<in>set s. \<not> is_space c"
  shows "\<forall>w\<in>set (text_windows s). w + CHUNK_SIZE \<le> 39150"
proof -
  have ne: "\<forall>i<length s. trim (slice s i (i + CHUNK_SIZE)) \<noteq> []"
  proof (intro allI impI)
    fix i assume i: "i < length s"
    have "set (slice s i (i + CHUNK_SIZE)) \<subseteq> set s"
      using set_slice[of s i "i + CHUNK_SIZE"] set_take_subset[of "i + CHUNK_SIZE" s] by blast
    with assms have "trim (slice s i (i + CHUNK_SIZE)) = slice s i (i + CHUNK_SIZE)"
      by (intro trim_no_space) blast
    moreover have "length (slice s i (i + CHUNK_SIZE)) > 0"
      using i by (simp add: slice_def CHUNK_SIZE_def)
    ultimately show "trim (slice s i (i + CHUNK_SIZE)) \<noteq> []" by auto
  qed
  have "\<forall>w\<in>set (chunk_windows s CHUNK_SIZE CHUNK_OVERLAP 0 0).
          w \<le> 0 + (MAX_DOC_CHUNKS - 1 - 0) * max 1 (CHUNK_SIZE - CHUNK_OVERLAP)"
    by (rule chunk_windows_bound[OF ne]) (simp add: MAX_DOC_CHUNKS_def)
  then show ?thesis
    by (simp add: text_windows_def normalize_no_space[OF assms]
                  MAX_DOC_CHUNKS_def CHUNK_SIZE_def CHUNK_OVERLAP_def)
qed

lemma chunks_no_space:
  assumes "\<forall>c\<in>set s. \<not> is_space c"
  shows "set (concat (chunkText s CHUNK_SIZE CHUNK_OVERLAP)) \<subseteq> set (take 39150 s)"
proof
  fix x assume "x \<in> set (concat (chunkText s CHUNK_SIZE CHUNK_OVERLAP))"
  then obtain c where c: "c \<in> set (chunkText s CHUNK_SIZE CHUNK_OVERLAP)" and x: "x \<in> set c"
    by auto
  from c obtain w where w: "w \<in> set (text_windows s)" and cw: "c = trim (slice s w (w + CHUNK_SIZE))"
    using chunkText_windows[of s] by (auto simp: normalize_no_space[OF assms])
  from w windows_no_space[OF assms] have le: "w + CHUNK_SIZE \<le> 39150" by blast
  from x cw have "x \<in> set (slice s w (w + CHUNK_SIZE))"
    using set_trim[of "slice s w (w + CHUNK_SIZE)"] by auto
  then have "x \<in> set (take (w + CHUNK_SIZE) s)"
    using set_slice[of s w "w + CHUNK_SIZE"] by auto
  with le show "x \<in> set (take 39150 s)"
    using set_take_subset_set_take[of "w + CHUNK_SIZE" 39150 s] by blast
qed

theorem chunk_cover_counterexample:
  "length (replicate 39999 CHR ''a'' @ ''b'') \<le> DOCUMENT_MAX_CHARS
   \<and> 39999 < length (normalize (replicate 39999 CHR ''a'' @ ''b''))
   \<and> normalize (replicate 39999 CHR ''a'' @ ''b'') ! 39999 = CHR ''b''
   \<and> \<not> (\<exists>w\<in>set (text_windows (replicate 39999 CHR ''a'' @ ''b'')). w \<le> 39999 \<and> 39999 < w + CHUNK_SIZE)
   \<and> CHR ''b'' \<notin> set (concat (chunkText (replicate 39999 CHR ''a'' @ ''b'') CHUNK_SIZE CHUNK_OVERLAP))"
proof -
  let ?T = "replicate 39999 CHR ''a'' @ ''b''"
  have ns: "\<forall>c\<in>set ?T. \<not> is_space c"
    by (auto simp: is_space_def)
  have n: "normalize ?T = ?T" by (rule normalize_no_space[OF ns])
  have 1: "length ?T \<le> DOCUMENT_MAX_CHARS" by (simp add: DOCUMENT_MAX_CHARS_def)
  have 2: "39999 < length (normalize ?T)" unfolding n by simp
  have 3: "normalize ?T ! 39999 = CHR ''b''" unfolding n by (simp add: nth_append)
  have 4: "\<not> (\<exists>w\<in>set (text_windows ?T). w \<le> 39999 \<and> 39999 < w + CHUNK_SIZE)"
    using windows_no_space[OF ns] by fastforce
  have "take 39150 ?T = replicate 39150 CHR ''a''" by simp
  then have "CHR ''b'' \<notin> set (take 39150 ?T)" by simp
  with chunks_no_space[OF ns] have 5: "CHR ''b'' \<notin> set (concat (chunkText ?T CHUNK_SIZE CHUNK_OVERLAP))"
    by blast
  from 1 2 3 4 5 show ?thesis by blast
qed

theorem chunk_cover_below_cap_witness:
  "10 < length (normalize ''hello world'') \<and> (10::nat) < 39150
   \<and> (\<exists>w\<in>set (text_windows ''hello world''). w \<le> 10 \<and> 10 < w + CHUNK_SIZE)"
proof -
  have n: "normalize ''hello world'' = ''hello world''"
    by (simp add: normalize_def newline_def trim_def is_space_def)
  have h: "10 < length (normalize ''hello world'') \<and> (10::nat) < 39150"
    unfolding n by simp
  with chunk_cover_below_cap[of "''hello world''"] show ?thesis by blast
qed

section \<open>Properties of the ingestion\<close>

lemma push_upserts_Cons:
  "push_upserts e d docId md k (c # cs) =
     (if usable d k then [upsert_record e d docId md k c] else [])
     @ push_upserts e d docId md (Suc k) cs"
  by (simp add: usable_def upsert_record_def split: option.splits)

lemma push_upserts_indices:
  "upsert_indices (push_upserts e d docId md k cs) = filter (usable d) [k..<k + length cs]"
proof (induction cs arbitrary: k)
  case Nil
  then show ?case by (simp add: upsert_indices_def)
next
  case (Cons c cs)
  have u: "[k..<k + length (c # cs)] = k # [Suc k..<Suc k + length cs]"
    by (subst upt_rec) simp
  have i: "upsert_indices [upsert_record e d docId md k c] = [k]"
    by (simp add: upsert_indices_def upsert_record_def)
  have a: "upsert_indices (xs @ ys) = upsert_indices xs @ upsert_indices ys" for xs ys
    by (simp add: upsert_indices_def)
  show ?case
    unfolding u push_upserts_Cons a Cons.IH[of "Suc k"]
    by (simp add: i) (simp add: upsert_indices_def)
qed

lemma push_upserts_records:
  "u \<in> set (push_upserts e d docId md k cs) \<Longrightarrow>
   k \<le> chunkIndex (metadata u) \<and> chunkIndex (metadata u) < k + length cs
   \<and> u = upsert_record e d docId md (chunkIndex (metadata u)) (cs ! (chunkIndex (metadata u) - k))
   \<and> usable d (chunkIndex (metadata u))"
proof (induction cs arbitrary: k)
  case Nil
  then show ?case by simp
next
  case (Cons c cs)
  from Cons.prems consider
      (here) "usable d k" "u = upsert_record e d docId md k c"
    | (later) "u \<in> set (push_upserts e d docId md (Suc k) cs)"
    unfolding push_upserts_Cons by (auto split: if_splits)
  then show ?case
  proof cases
    case here
    have "chunkIndex (metadata u) = k" unfolding here(2) by (simp add: upsert_record_def)
    with here show ?thesis by simp
  next
    case later
    from Cons.IH[OF later] show ?thesis
      by (auto simp: Suc_diff_le)
  qed
qed

lemma generate_ok:
  "generateEmbeddingsForChunks e chunks n docId md = Inr ups \<Longrightarrow>
   length (embedding_data e n chunks) = length chunks
   \<and> ups = push_upserts e (embedding_data e n chunks) docId md 0 (map (truncate_chunk n) chunks)"
  by (auto simp: generateEmbeddingsForChunks_def embedding_data_def Let_def split: sum.splits if_splits)

lemma generate_indices:
  assumes "generateEmbeddingsForChunks e chunks n docId md = Inr ups"
  shows "upsert_indices ups = filter (usable (embedding_data e n chunks)) [0..<length chunks]"
  using generate_ok[OF assms] push_upserts_indices[of e "embedding_data e n chunks" docId md 0 "map (truncate_chunk n) chunks"]
  by simp

lemma generate_records:
  assumes "generateEmbeddingsForChunks e chunks n docId md = Inr ups" and "u \<in> set ups"
  shows "chunkIndex (metadata u) < length chunks
       \<and> md_text (metadata u) = truncate_chunk n (chunks ! chunkIndex (metadata u))
       \<and> md_docId (metadata u) = docId
       \<and> vec_id u = docId @ ''#'' @ show_nat (chunkIndex (metadata u))"
proof -
  from generate_ok[OF assms(1)] assms(2)
  have "u \<in> set (push_upserts e (embedding_data e n chunks) docId md 0 (map (truncate_chunk n) chunks))"
    by simp
  note r = push_upserts_records[OF this]
  from r have lt: "chunkIndex (metadata u) < length chunks" by simp
  from r have u: "u = upsert_record e (embedding_data e n chunks) docId md (chunkIndex (metadata u))
                  (map (truncate_chunk n) chunks ! (chunkIndex (metadata u) - 0))"
    by (rule conjunct1[OF conjunct2[OF conjunct2]])
  have "md_text (metadata u) = map (truncate_chunk n) chunks ! (chunkIndex (metadata u))"
    by (subst u) (simp add: upsert_record_def)
  moreover have "md_docId (metadata u) = docId"
    by (subst u) (simp add: upsert_record_def)
  moreover have "vec_id u = docId @ ''#'' @ show_nat (chunkIndex (metadata u))"
    by (subst u) (simp add: upsert_record_def)
  ultimately show ?thesis using lt by simp
qed

lemma upload_calls:
  assumes "ups \<in> set (snd (handleDocumentUpload e x docId request))"
  shows "\<exists>chunks md. generateEmbeddingsForChunks e chunks EMBEDDING_MAX_CHARS docId md = Inr ups"
proof -
  have h: "snd (handleDocumentUpload e x docId request) = snd (upload_try e x docId request)"
    by (simp add: handleDocumentUpload_def split: prod.splits sum.splits)
  from assms show ?thesis
    unfolding h upload_try_def Let_def
    by (auto split: outcome.splits sum.splits if_splits)
qed

text \<open>
  C5. When \<open>generateEmbeddingsForChunks\<close> returns, the chunk indices of its records are
  the positions of the chunks whose embedding is a non-empty array, in increasing order;
  every record holds the text of the chunk at its index, the document id and the id
  \<open>docId#index\<close>. The indices are \<open>0, ..., count - 1\<close> when no chunk is skipped. Every list
  that \<open>handleDocumentUpload\<close> hands to \<open>VECTORIZE.upsert\<close> has strictly increasing chunk
  indices and the document id of the upload.
\<close>
theorem upsert_indices_follow_chunks:
  "(generateEmbeddingsForChunks e chunks n docId md = Inr ups \<longrightarrow>
       upsert_indices ups = filter (usable (embedding_data e n chunks)) [0..<length chunks]
     \<and> sorted_wrt (<) (upsert_indices ups)
     \<and> (\<forall>u\<in>set ups. chunkIndex (metadata u) < length chunks
          \<and> md_text (metadata u) = truncate_chunk n (chunks ! chunkIndex (metadata u))
          \<and> md_docId (metadata u) = docId
          \<and> vec_id u = docId @ ''#'' @ show_nat (chunkIndex (metadata u)))
     \<and> ((\<forall>i<length chunks. usable (embedding_data e n chunks) i)
          \<longrightarrow> upsert_indices ups = [0..<length chunks]))
   \<and> (\<forall>called\<in>set (snd (handleDocumentUpload e x docId request)).
         sorted_wrt (<) (upsert_indices called) \<and> (\<forall>u\<in>set called. md_docId (metadata u) = docId))"
proof -
  have sorted: "sorted_wrt (<) (upsert_indices v)"
    if "generateEmbeddingsForChunks e' c n' docId' md' = Inr v" for e' c n' docId' md' v
    unfolding generate_indices[OF that] by (rule sorted_wrt_filter) simp
  have dense: "upsert_indices ups = [0..<length chunks]"
    if "generateEmbeddingsForChunks e chunks n docId md = Inr ups"
       "\<forall>i<length chunks. usable (embedding_data e n chunks) i"
    unfolding generate_indices[OF that(1)] using that(2) by (simp add: filter_id_conv)
  have handler: "sorted_wrt (<) (upsert_indices called) \<and> (\<forall>u\<in>set called. md_docId (metadata u) = docId)"
    if "called \<in> set (snd (handleDocumentUpload e x docId request))" for called
  proof -
    from upload_calls[OF that] obtain c m
      where g: "generateEmbeddingsForChunks e c EMBEDDING_MAX_CHARS docId m = Inr called" by blast
    from sorted[OF g] generate_records[OF g] show ?thesis by blast
  qed
  show ?thesis
  proof (intro conjI impI ballI)
    assume g: "generateEmbeddingsForChunks e chunks n docId md = Inr ups"
    show "upsert_indices ups = filter (usable (embedding_data e n chunks)) [0..<length chunks]"
      by (rule generate_indices[OF g])
    show "sorted_wrt (<) (upsert_indices ups)" by (rule sorted[OF g])
    { fix u assume u: "u \<in> set ups"
      note r = generate_records[OF g u]
      show "chunkIndex (metadata u) < length chunks" using r by simp
      show "md_text (metadata u) = truncate_chunk n (chunks ! chunkIndex (metadata u))" using r by simp
      show "md_docId (metadata u) = docId" using r by simp
      show "vec_id u = docId @ ''#'' @ show_nat (chunkIndex (metadata u))" using r by simp }
    { assume "\<forall>i<length chunks. usable (embedding_data e n chunks) i"
      with g show "upsert_indices ups = [0..<length chunks]" by (rule dense) }
  next
    fix called assume c: "called \<in> set (snd (handleDocumentUpload e x docId request))"
    show "sorted_wrt (<) (upsert_indices called)" using handler[OF c] by simp
    fix u assume "u \<in> set called"
    then show "md_docId (metadata u) = docId" using handler[OF c] by simp
  qed
qed

lemma show_nat_small:
  "show_nat 0 = ''0''" "show_nat 1 = ''1''" "show_nat (Suc 0) = ''1''" "show_nat 2 = ''2''"
  "show_nat (Suc (Suc 0)) = ''2''"
  by (simp_all add: show_nat.simps char_of_def bit_Suc_0_iff)

theorem upsert_indices_counterexample:
  "generateEmbeddingsForChunks
     \<lparr>ai_embed = (\<lambda>texts. Inr (Some \<lparr>data = Some [None, Some [1]]\<rparr>)),
      ai_chat = (\<lambda>m ms. Inl NonError),
      vectorize_query = (\<lambda>v k. Inl NonError),
      vectorize_upsert = (\<lambda>records. Inr ()),
      date_at = (\<lambda>i. ''2024-01-01T00:00:00.000Z''),
      show_number = (\<lambda>r. []), show_plus = (\<lambda>a b. [])\<rparr>
     [''alpha'', ''beta''] EMBEDDING_MAX_CHARS ''doc''
     \<lparr>doc_title = ''t'', doc_sourceType = ''manual'', doc_originalFileName = None\<rparr>
   = Inr [\<lparr>vec_id = ''doc#1'', vector = [1],
           metadata = \<lparr>md_text = ''beta'', md_title = ''t'', md_docId = ''doc'', chunkIndex = 1,
                        uploadedAt = ''2024-01-01T00:00:00.000Z'', sourceType = ''manual'',
                        originalFileName = None\<rparr>\<rparr>]
   \<and> upsert_indices
        [\<lparr>vec_id = ''doc#1'', vector = [1],
          metadata = \<lparr>md_text = ''beta'', md_title = ''t'', md_docId = ''doc'', chunkIndex = 1,
                       uploadedAt = ''2024-01-01T00:00:00.000Z'', sourceType = ''manual'',
                       originalFileName = None\<rparr>\<rparr>] \<noteq> [0..<1]"
  by (simp add: generateEmbeddingsForChunks_def Let_def truncate_chunk_def EMBEDDING_MAX_CHARS_def
                response_data_def at_index_def show_nat_small upsert_indices_def)

theorem upsert_indices_follow_chunks_witness:
  "generateEmbeddingsForChunks
     \<lparr>ai_embed = (\<lambda>texts. Inr (Some \<lparr>data = Some [Some [1], Some [2]]\<rparr>)),
      ai_chat = (\<lambda>m ms. Inl NonError),
      vectorize_query = (\<lambda>v k. Inl NonError),
      vectorize_upsert = (\<lambda>records. Inr ()),
      date_at = (\<lambda>i. ''2024-01-01T00:00:00.000Z''),
      show_number = (\<lambda>r. []), show_plus = (\<lambda>a b. [])\<rparr>
     [''alpha'', ''beta''] EMBEDDING_MAX_CHARS ''doc''
     \<lparr>doc_title = ''t'', doc_sourceType = ''manual'', doc_originalFileName = None\<rparr>
   = Inr [\<lparr>vec_id = ''doc#0'', vector = [1],
           metadata = \<lparr>md_text = ''alpha'', md_title = ''t'', md_docId = ''doc'', chunkIndex = 0,
                        uploadedAt = ''2024-01-01T00:00:00.000Z'', sourceType = ''manual'',
                        originalFileName = None\<rparr>\<rparr>,
          \<lparr>vec_id = ''doc#1'', vector = [2],
           metadata = \<lparr>md_text = ''beta'', md_title = ''t'', md_docId = ''doc'', chunkIndex = 1,
                        uploadedAt = ''2024-01-01T00:00:00.000Z'', sourceType = ''manual'',
                        originalFileName = None\<rparr>\<rparr>]
   \<and> sorted_wrt (<) (upsert_indices
         [\<lparr>vec_id = ''doc#0'', vector = [1],
           metadata = \<lparr>md_text = ''alpha'', md_title = ''t'', md_docId = ''doc'', chunkIndex = 0,
                        uploadedAt = ''2024-01-01T00:00:00.000Z'', sourceType = ''manual'',
                        originalFileName = None\<rparr>\<rparr>,
          \<lparr>vec_id = ''doc#1'', vector = [2],
           metadata = \<lparr>md_text = ''beta'', md_title = ''t'', md_docId = ''doc'', chunkIndex = 1,
                        uploadedAt = ''2024-01-01T00:00:00.000Z'', sourceType = ''manual'',
                        originalFileName = None\<rparr>\<rparr>])"
proof -
  let ?E = "\<lparr>ai_embed = (\<lambda>texts. Inr (Some \<lparr>data = Some [Some [1], Some [2]]\<rparr>)),
      ai_chat = (\<lambda>m ms. Inl NonError),
      vectorize_query = (\<lambda>v k. Inl NonError),
      vectorize_upsert = (\<lambda>records. Inr ()),
      date_at = (\<lambda>i. ''2024-01-01T00:00:00.000Z''),
      show_number = (\<lambda>r. []), show_plus = (\<lambda>a b. [])\<rparr>"
  let ?U = "[\<lparr>vec_id = ''doc#0'', vector = [1],
           metadata = \<lparr>md_text = ''alpha'', md_title = ''t'', md_docId = ''doc'', chunkIndex = 0,
                        uploadedAt = ''2024-01-01T00:00:00.000Z'', sourceType = ''manual'',
                        originalFileName = None\<rparr>\<rparr>,
          \<lparr>vec_id = ''doc#1'', vector = [2],
           metadata = \<lparr>md_text = ''beta'', md_title = ''t'', md_docId = ''doc'', chunkIndex = 1,
                        uploadedAt = ''2024-01-01T00:00:00.000Z'', sourceType = ''manual'',
                        originalFileName = None\<rparr>\<rparr>]"
  have g: "generateEmbeddingsForChunks ?E [''alpha'', ''beta''] EMBEDDING_MAX_CHARS ''doc''
     \<lparr>doc_title = ''t'', doc_sourceType = ''manual'', doc_originalFileName = None\<rparr> = Inr ?U"
    by (simp add: generateEmbeddingsForChunks_def Let_def truncate_chunk_def EMBEDDING_MAX_CHARS_def
                response_data_def at_index_def show_nat_small)
  from upsert_indices_follow_chunks[of ?E "[''alpha'', ''beta'']" EMBEDDING_MAX_CHARS "''doc''"
      "\<lparr>doc_title = ''t'', doc_sourceType = ''manual'', doc_originalFileName = None\<rparr>" ?U] g
  have "sorted_wrt (<) (upsert_indices ?U)" by blast
  with g show ?thesis by blast
qed


lemma generate_mismatch:
  "ai_embed e (map (truncate_chunk n) chunks) = Inr r \<Longrightarrow> length (response_data r) \<noteq> length chunks \<Longrightarrow>
   generateEmbeddingsForChunks e chunks n docId md
     = Inl (Error (''Embedding response length '' @ show_nat (length (response_data r))
                   @ '' did not match chunk count '' @ show_nat (length chunks)))"
  by (simp add: generateEmbeddingsForChunks_def Let_def)

lemma handler_throw:
  "upload_try e x docId request = (Inl (Error m), calls) \<Longrightarrow> m \<noteq> [] \<Longrightarrow>
   handleDocumentUpload e x docId request = (jsonResponse (error_body m) 500, calls)"
  by (simp add: handleDocumentUpload_def)

text \<open>
  C6. When the embedding model answers with a number of entries other than the number of
  chunks, \<open>generateEmbeddingsForChunks\<close> throws the error that names both numbers; when it
  returns, the two numbers are equal. \<open>handleDocumentUpload\<close> then answers 500 with the
  message of that error and makes no call to \<open>VECTORIZE.upsert\<close>.
\<close>
theorem embedding_count_mismatch:
  "(ai_embed e (map (truncate_chunk n) chunks) = Inr r \<and> length (response_data r) \<noteq> length chunks
      \<longrightarrow> generateEmbeddingsForChunks e chunks n docId md
           = Inl (Error (''Embedding response length '' @ show_nat (length (response_data r))
                         @ '' did not match chunk count '' @ show_nat (length chunks))))
   \<and> (generateEmbeddingsForChunks e chunks n docId md = Inr ups
      \<longrightarrow> length (embedding_data e n chunks) = length chunks)
   \<and> (read_upload x request = Continue u
       \<and> cleaned_text (up_rawText u) \<noteq> []
       \<and> document_chunks (limited_text (cleaned_text (up_rawText u))) \<noteq> []
       \<and> ai_embed e (map (truncate_chunk EMBEDDING_MAX_CHARS)
                         (document_chunks (limited_text (cleaned_text (up_rawText u))))) = Inr r'
       \<and> length (response_data r') \<noteq> length (document_chunks (limited_text (cleaned_text (up_rawText u))))
      \<longrightarrow> handleDocumentUpload e x docId request
           = (jsonResponse
                (error_body (''Embedding response length '' @ show_nat (length (response_data r'))
                             @ '' did not match chunk count ''
                             @ show_nat (length (document_chunks (limited_text (cleaned_text (up_rawText u)))))))
                500, []))"
proof (intro conjI impI)
  assume "ai_embed e (map (truncate_chunk n) chunks) = Inr r \<and> length (response_data r) \<noteq> length chunks"
  then show "generateEmbeddingsForChunks e chunks n docId md
           = Inl (Error (''Embedding response length '' @ show_nat (length (response_data r))
                         @ '' did not match chunk count '' @ show_nat (length chunks)))"
    by (simp add: generate_mismatch)
next
  assume "generateEmbeddingsForChunks e chunks n docId md = Inr ups"
  from generate_ok[OF this] show "length (embedding_data e n chunks) = length chunks" by simp
next
  let ?cs = "document_chunks (limited_text (cleaned_text (up_rawText u)))"
  let ?m = "''Embedding response length '' @ show_nat (length (response_data r'))
            @ '' did not match chunk count '' @ show_nat (length ?cs)"
  assume a: "read_upload x request = Continue u
       \<and> cleaned_text (up_rawText u) \<noteq> []
       \<and> ?cs \<noteq> []
       \<and> ai_embed e (map (truncate_chunk EMBEDDING_MAX_CHARS) ?cs) = Inr r'
       \<and> length (response_data r') \<noteq> length ?cs"
  then have g: "generateEmbeddingsForChunks e ?cs EMBEDDING_MAX_CHARS docId md' = Inl (Error ?m)" for md'
    by (simp add: generate_mismatch)
  from a have "upload_try e x docId request = (Inl (Error ?m), [])"
    by (simp add: upload_try_def Let_def g)
  then show "handleDocumentUpload e x docId request = (jsonResponse (error_body ?m) 500, [])"
    by (rule handler_throw) simp
qed

lemma extract_unsupported:
  "unclassified f \<Longrightarrow>
   extractTextFromUpload x f
     = Inl (Error (''Unsupported file type '' @ [dquote]
                   @ (if toLowerCase (file_type f) \<noteq> [] then toLowerCase (file_type f)
                      else toLowerCase (file_name f)) @ [dquote]))"
  unfolding unclassified_def extractTextFromUpload_def Let_def by simp

text \<open>
  C3. A multipart upload whose file is neither text-like, nor a PDF, nor an image is
  answered with status 500 and the message \<open>Unsupported file type "..."\<close>, which names the
  lower-cased MIME type, or the lower-cased file name when the type is empty; nothing is
  handed to \<open>VECTORIZE.upsert\<close>.
\<close>
theorem unsupported_upload_rejected:
  "sublist ''multipart/form-data'' (contentType request) \<and> formData request = Inr fd
   \<and> fileField fd = FieldFile f \<and> unclassified f
   \<longrightarrow> handleDocumentUpload e x docId request
       = (jsonResponse
            (error_body (''Unsupported file type '' @ [dquote]
                         @ (if toLowerCase (file_type f) \<noteq> [] then toLowerCase (file_type f)
                            else toLowerCase (file_name f)) @ [dquote])) 500, [])"
proof
  let ?m = "''Unsupported file type '' @ [dquote]
                         @ (if toLowerCase (file_type f) \<noteq> [] then toLowerCase (file_type f)
                            else toLowerCase (file_name f)) @ [dquote]"
  assume a: "sublist ''multipart/form-data'' (contentType request) \<and> formData request = Inr fd
   \<and> fileField fd = FieldFile f \<and> unclassified f"
  then have "read_upload x request = Throw (Error ?m)"
    by (simp add: read_upload_def Let_def extract_unsupported)
  then have "upload_try e x docId request = (Inl (Error ?m), [])"
    by (simp add: upload_try_def)
  then show "handleDocumentUpload e x docId request = (jsonResponse (error_body ?m) 500, [])"
    by (rule handler_throw) simp
qed


lemma exe_unclassified:
  "unclassified \<lparr>file_name = ''malware.exe'', file_type = ''application/x-msdownload'', file_text = []\<rparr>"
  by (simp add: unclassified_def toLowerCase_def to_lower_def suffix_to_prefix)

lemma exe_lower:
  "toLowerCase ''application/x-msdownload'' = ''application/x-msdownload''"
  by (simp add: toLowerCase_def to_lower_def)

lemma multipart_header: "sublist ''multipart/form-data'' ''multipart/form-data; boundary=x''"
  by (simp add: sublist_Cons_right)

theorem unsupported_upload_counterexample:
  "unclassified \<lparr>file_name = ''malware.exe'', file_type = ''application/x-msdownload'', file_text = []\<rparr>
   \<and> status (fst (handleDocumentUpload
        \<lparr>ai_embed = (\<lambda>texts. Inl NonError), ai_chat = (\<lambda>m ms. Inl NonError),
         vectorize_query = (\<lambda>v k. Inl NonError), vectorize_upsert = (\<lambda>records. Inr ()),
         date_at = (\<lambda>i. []), show_number = (\<lambda>r. []), show_plus = (\<lambda>a b. [])\<rparr>
        \<lparr>extractTextFromPdf = (\<lambda>f. Inl NonError), extractTextFromImage = (\<lambda>f. Inl NonError)\<rparr>
        ''doc''
        \<lparr>contentType = ''multipart/form-data; boundary=x'', xSourceType = None,
         formData = Inr \<lparr>titleField = FieldAbsent, textField = FieldAbsent,
                          fileField = FieldFile \<lparr>file_name = ''malware.exe'',
                                                 file_type = ''application/x-msdownload'', file_text = []\<rparr>\<rparr>,
         jsonBody = None\<rparr>)) = 500"
  by (simp add: exe_unclassified handleDocumentUpload_def upload_try_def read_upload_def Let_def
                multipart_header extract_unsupported[OF exe_unclassified] jsonResponse_def)

theorem unsupported_upload_rejected_witness:
  "handleDocumentUpload
        \<lparr>ai_embed = (\<lambda>texts. Inl NonError), ai_chat = (\<lambda>m ms. Inl NonError),
         vectorize_query = (\<lambda>v k. Inl NonError), vectorize_upsert = (\<lambda>records. Inr ()),
         date_at = (\<lambda>i. []), show_number = (\<lambda>r. []), show_plus = (\<lambda>a b. [])\<rparr>
        \<lparr>extractTextFromPdf = (\<lambda>f. Inl NonError), extractTextFromImage = (\<lambda>f. Inl NonError)\<rparr>
        ''doc''
        \<lparr>contentType = ''multipart/form-data; boundary=x'', xSourceType = None,
         formData = Inr \<lparr>titleField = FieldAbsent, textField = FieldAbsent,
                          fileField = FieldFile \<lparr>file_name = ''malware.exe'',
                                                 file_type = ''application/x-msdownload'', file_text = []\<rparr>\<rparr>,
         jsonBody = None\<rparr>
   = (jsonResponse (error_body (''Unsupported file type '' @ [dquote] @ ''application/x-msdownload'' @ [dquote])) 500,
      [])"
  using unsupported_upload_rejected[of
        "\<lparr>contentType = ''multipart/form-data; boundary=x'', xSourceType = None,
         formData = Inr \<lparr>titleField = FieldAbsent, textField = FieldAbsent,
                          fileField = FieldFile \<lparr>file_name = ''malware.exe'',
                                                 file_type = ''application/x-msdownload'', file_text = []\<rparr>\<rparr>,
         jsonBody = None\<rparr>"
        "\<lparr>titleField = FieldAbsent, textField = FieldAbsent,
                          fileField = FieldFile \<lparr>file_name = ''malware.exe'',
                                                 file_type = ''application/x-msdownload'', file_text = []\<rparr>\<rparr>"
        "\<lparr>file_name = ''malware.exe'', file_type = ''application/x-msdownload'', file_text = []\<rparr>"]
  by (simp add: exe_unclassified multipart_header exe_lower)

lemma hello_chunks:
  "cleaned_text ''hello world'' = ''hello world''"
  "limited_text ''hello world'' = ''hello world''"
  "document_chunks ''hello world'' = [''hello world'']"
proof -
  have t: "trim ''hello world'' = ''hello world''" by (simp add: trim_def is_space_def)
  show "cleaned_text ''hello world'' = ''hello world''"
    by (simp add: cleaned_text_def t newline_def)
  show "limited_text ''hello world'' = ''hello world''"
    by (simp add: limited_text_def DOCUMENT_MAX_CHARS_def)
  have n: "normalize ''hello world'' = ''hello world''"
    by (simp add: normalize_def newline_def t)
  have "chunkText ''hello world'' CHUNK_SIZE CHUNK_OVERLAP = [''hello world'']"
    unfolding chunkText_def n
    by (simp add: chunk_loop.simps[of _ _ _ 0 "[]"] push_slice_def slice_def t
                  MAX_DOC_CHUNKS_def CHUNK_SIZE_def)
  then show "document_chunks ''hello world'' = [''hello world'']"
    by (simp add: document_chunks_def t)
qed

theorem embedding_count_mismatch_witness:
  "generateEmbeddingsForChunks
     \<lparr>ai_embed = (\<lambda>texts. Inr (Some \<lparr>data = Some [Some [1]]\<rparr>)), ai_chat = (\<lambda>m ms. Inl NonError),
      vectorize_query = (\<lambda>v k. Inl NonError), vectorize_upsert = (\<lambda>records. Inr ()),
      date_at = (\<lambda>i. []), show_number = (\<lambda>r. []), show_plus = (\<lambda>a b. [])\<rparr>
     [''alpha'', ''beta''] EMBEDDING_MAX_CHARS ''doc''
     \<lparr>doc_title = ''t'', doc_sourceType = ''manual'', doc_originalFileName = None\<rparr>
     = Inl (Error ''Embedding response length 1 did not match chunk count 2'')
   \<and> handleDocumentUpload
        \<lparr>ai_embed = (\<lambda>texts. Inr (Some \<lparr>data = Some []\<rparr>)), ai_chat = (\<lambda>m ms. Inl NonError),
         vectorize_query = (\<lambda>v k. Inl NonError), vectorize_upsert = (\<lambda>records. Inr ()),
         date_at = (\<lambda>i. []), show_number = (\<lambda>r. []), show_plus = (\<lambda>a b. [])\<rparr>
        \<lparr>extractTextFromPdf = (\<lambda>f. Inl NonError), extractTextFromImage = (\<lambda>f. Inl NonError)\<rparr>
        ''doc''
        \<lparr>contentType = ''application/json'', xSourceType = None,
         formData = Inl NonError, jsonBody = Some (JObj [(''text'', JStr ''hello world'')])\<rparr>
     = (jsonResponse (error_body ''Embedding response length 0 did not match chunk count 1'') 500, [])"
proof -
  let ?E1 = "\<lparr>ai_embed = (\<lambda>texts. Inr (Some \<lparr>data = Some [Some [1]]\<rparr>)), ai_chat = (\<lambda>m ms. Inl NonError),
      vectorize_query = (\<lambda>v k. Inl NonError), vectorize_upsert = (\<lambda>records. Inr ()),
      date_at = (\<lambda>i. []), show_number = (\<lambda>r. []), show_plus = (\<lambda>a b. [])\<rparr>"
  let ?E0 = "\<lparr>ai_embed = (\<lambda>texts. Inr (Some \<lparr>data = Some []\<rparr>)), ai_chat = (\<lambda>m ms. Inl NonError),
         vectorize_query = (\<lambda>v k. Inl NonError), vectorize_upsert = (\<lambda>records. Inr ()),
         date_at = (\<lambda>i. []), show_number = (\<lambda>r. []), show_plus = (\<lambda>a b. [])\<rparr>"
  let ?X = "\<lparr>extractTextFromPdf = (\<lambda>f. Inl NonError), extractTextFromImage = (\<lambda>f. Inl NonError)\<rparr>"
  let ?R = "\<lparr>contentType = ''application/json'', xSourceType = None,
         formData = Inl NonError, jsonBody = Some (JObj [(''text'', JStr ''hello world'')])\<rparr>"
  let ?u = "\<lparr>up_title = ''Untitled document'', up_rawText = ''hello world'',
             up_sourceType = ''manual'', up_originalFileName = None\<rparr>"
  have t: "trim ''hello world'' = ''hello world''" by (simp add: trim_def is_space_def)
  have ru: "read_upload ?X ?R = Continue ?u"
    by (simp add: read_upload_def sublist_Cons_right t)
  note w1 = embedding_count_mismatch[where e = ?E1 and n = EMBEDDING_MAX_CHARS
      and chunks = "[''alpha'', ''beta'']" and r = "Some \<lparr>data = Some [Some [1]]\<rparr>" and docId = "''doc''"
      and md = "\<lparr>doc_title = ''t'', doc_sourceType = ''manual'', doc_originalFileName = None\<rparr>"]
  have 1: "generateEmbeddingsForChunks ?E1 [''alpha'', ''beta''] EMBEDDING_MAX_CHARS ''doc''
     \<lparr>doc_title = ''t'', doc_sourceType = ''manual'', doc_originalFileName = None\<rparr>
     = Inl (Error ''Embedding response length 1 did not match chunk count 2'')"
    using w1 by (simp add: response_data_def show_nat_small)
  note w2 = embedding_count_mismatch[where e = ?E0 and x = ?X and request = ?R and u = ?u
      and docId = "''doc''" and r' = "Some \<lparr>data = Some []\<rparr>"]
  have 2: "handleDocumentUpload ?E0 ?X ''doc'' ?R
     = (jsonResponse (error_body ''Embedding response length 0 did not match chunk count 1'') 500, [])"
    using w2 by (simp add: ru hello_chunks response_data_def show_nat_small)
  from 1 2 show ?thesis by (rule conjI)
qed

section \<open>Properties of retrieval and of the chat handler\<close>

lemma collect_contexts_none:
  "\<forall>m\<in>set ms. \<not> has_text m \<Longrightarrow> collect_contexts ms acc = acc"
proof (induction ms arbitrary: acc)
  case Nil
  then show ?case by simp
next
  case (Cons m ms)
  from Cons.prems have nt: "\<not> has_text m" and rest: "\<forall>m\<in>set ms. \<not> has_text m" by simp_all
  have "collect_contexts (m # ms) acc = collect_contexts ms acc"
  proof (cases "truthy (Some m)")
    case False
    then show ?thesis by simp
  next
    case True
    with nt have "(case opt_prop (get_prop m ''metadata'') ''text'' of Some (JStr t) \<Rightarrow> trim t | _ \<Rightarrow> []) = []"
      by (auto simp: has_text_def split: option.splits json.splits)
    with True show ?thesis by (simp add: Let_def)
  qed
  with Cons.IH[OF rest] show ?case by simp
qed

lemma build_total: "\<exists>r. buildRetrievalContext e q = Inr r"
  by (simp add: buildRetrievalContext_def split: sum.splits)

lemma build_embed_none:
  "embedText e (trim q) = None \<Longrightarrow> buildRetrievalContext e q = Inr no_context"
  by (simp add: buildRetrievalContext_def retrieval_try_def split: sum.splits)

lemma embed_throws:
  "ai_embed e [if length t > EMBEDDING_MAX_CHARS then slice t 0 EMBEDDING_MAX_CHARS else t] = Inl err \<Longrightarrow>
   embedText e t = None"
  by (simp add: embedText_def Let_def)

lemma embed_null:
  "ai_embed e [if length t > EMBEDDING_MAX_CHARS then slice t 0 EMBEDDING_MAX_CHARS else t] = Inr r \<Longrightarrow>
   response_data r = [] \<or> (\<exists>rest. response_data r = None # rest) \<Longrightarrow>
   embedText e t = None"
  by (auto simp: embedText_def Let_def response_data_def at_index_def split: option.splits)

lemma build_query_throws:
  "embedText e (trim q) = Some v \<Longrightarrow> vectorize_query e v MAX_CONTEXT_CHUNKS = Inl err \<Longrightarrow>
   buildRetrievalContext e q = Inr no_context"
  by (simp add: buildRetrievalContext_def retrieval_try_def)

lemma build_query_null:
  "embedText e (trim q) = Some v \<Longrightarrow> vectorize_query e v MAX_CONTEXT_CHUNKS = Inr None \<Longrightarrow>
   buildRetrievalContext e q = Inr no_context"
  by (simp add: buildRetrievalContext_def retrieval_try_def)

lemma build_query_no_matches:
  "embedText e (trim q) = Some v \<Longrightarrow> vectorize_query e v MAX_CONTEXT_CHUNKS = Inr (Some qr) \<Longrightarrow>
   opt_prop (Some qr) ''matches'' = None \<Longrightarrow>
   buildRetrievalContext e q = Inr no_context"
  by (simp add: buildRetrievalContext_def retrieval_try_def)

lemma build_query_malformed:
  "embedText e (trim q) = Some v \<Longrightarrow> vectorize_query e v MAX_CONTEXT_CHUNKS = Inr (Some qr) \<Longrightarrow>
   opt_prop (Some qr) ''matches'' = Some (JArr ms) \<Longrightarrow> \<forall>m\<in>set ms. \<not> has_text m \<Longrightarrow>
   buildRetrievalContext e q = Inr no_context"
  by (simp add: buildRetrievalContext_def retrieval_try_def collect_contexts_none)

lemma opt_prop_Some_truthy: "opt_prop b k = Some v \<Longrightarrow> truthy b"
proof (cases b)
  case None
  then show "opt_prop b k = Some v \<Longrightarrow> truthy b" by simp
next
  case (Some j)
  then show "opt_prop b k = Some v \<Longrightarrow> truthy b" by (cases j) simp_all
qed

lemma valid_user_message: "valid_message (Some (message_json \<lparr>role = User, content = c\<rparr>))"
  by (simp add: valid_message_def message_json_def)

lemma appendMessage_user:
  "appendMessage clk (message_json \<lparr>role = User, content = c\<rparr>) model st =
     (Inr (), persistMessage clk (message_json \<lparr>role = User, content = c\<rparr>)
                (if trim model \<noteq> [] then Some (trim model) else None) st)"
  by (simp add: appendMessage_def do_fetch_post valid_user_message ok_def)

lemma handleChatRequest_valid:
  assumes "truthy b" "chat_session b \<noteq> []" "chat_message b \<noteq> []"
  shows "fst (handleChatRequest e clk1 clk2 b ss) =
     (case ai_chat e (chat_model clk1 b ss) (chat_prompt e b ss) of
        Inl err \<Rightarrow> (jsonResponse (error_body ''Failed to process request'') 500, None)
      | Inr resp \<Rightarrow>
          (case ai_body resp of
             None \<Rightarrow> (jsonResponse (error_body ''Model returned empty response'') 500, None)
           | Some s \<Rightarrow>
               (\<lparr>status = ai_status resp,
                 body = StreamBody (prependContextStream e s (chat_snippets e b))\<rparr>,
                Some \<lparr>cap_stream = s, cap_session = chat_session b,
                      cap_modelId = chat_model clk1 b ss\<rparr>)))"
proof -
  let ?sid = "chat_session b" and ?msg = "chat_message b"
  obtain r where r: "buildRetrievalContext e ?msg = Inr r" using build_total by blast
  let ?h = "\<lparr>messages = slice_last MAX_HISTORY (messages (fst (getSessionRecord clk1 (ss ?sid)))),
            modelId = modelId (fst (getSessionRecord clk1 (ss ?sid))),
            createdAt = createdAt (fst (getSessionRecord clk1 (ss ?sid))),
            updatedAt = updatedAt (fst (getSessionRecord clk1 (ss ?sid)))\<rparr>"
  have h: "fetchSessionHistory clk1 (ss ?sid) = (Inr ?h, snd (getSessionRecord clk1 (ss ?sid)))"
    by (rule fetchSessionHistory_eq)
  show ?thesis
    unfolding handleChatRequest_def chat_try_def Let_def
      chat_session_def[symmetric] chat_message_def[symmetric]
    using assms
    by (simp add: h r appendMessage_user chat_model_def chat_prompt_def chat_snippets_def
                  messages_getSessionRecord tee_def split: sum.splits option.splits)
qed

lemma handleChatRequest_invalid:
  assumes "\<not> (truthy b \<and> chat_session b \<noteq> [] \<and> chat_message b \<noteq> [])"
  shows "snd (fst (handleChatRequest e clk1 clk2 b ss)) = None"
  using assms
  unfolding handleChatRequest_def chat_try_def Let_def
      chat_session_def[symmetric] chat_message_def[symmetric]
  by auto

lemma handleChatRequest_store:
  assumes "truthy b" "chat_session b \<noteq> []" "chat_message b \<noteq> []"
  shows "snd (handleChatRequest e clk1 clk2 b ss) =
     ss(chat_session b :=
          persistMessage clk2 (message_json \<lparr>role = User, content = chat_message b\<rparr>)
            (if trim (chat_model clk1 b ss) \<noteq> [] then Some (trim (chat_model clk1 b ss)) else None)
            (snd (getSessionRecord clk1 (ss (chat_session b)))))"
proof -
  let ?sid = "chat_session b" and ?msg = "chat_message b"
  obtain r where r: "buildRetrievalContext e ?msg = Inr r" using build_total by blast
  let ?h = "\<lparr>messages = slice_last MAX_HISTORY (messages (fst (getSessionRecord clk1 (ss ?sid)))),
            modelId = modelId (fst (getSessionRecord clk1 (ss ?sid))),
            createdAt = createdAt (fst (getSessionRecord clk1 (ss ?sid))),
            updatedAt = updatedAt (fst (getSessionRecord clk1 (ss ?sid)))\<rparr>"
  have h: "fetchSessionHistory clk1 (ss ?sid) = (Inr ?h, snd (getSessionRecord clk1 (ss ?sid)))"
    by (rule fetchSessionHistory_eq)
  show ?thesis
    unfolding handleChatRequest_def chat_try_def Let_def
      chat_session_def[symmetric] chat_message_def[symmetric]
    using assms
    by (simp add: h r appendMessage_user chat_model_def tee_def split: sum.splits option.splits)
qed

lemma chat_capture:
  assumes "snd (fst (handleChatRequest e clk1 clk2 b ss)) = Some cap"
  shows "cap_modelId cap = chat_model clk1 b ss \<and> cap_session cap = chat_session b
       \<and> (\<exists>resp. ai_chat e (chat_model clk1 b ss) (chat_prompt e b ss) = Inr resp)"
proof -
  have v: "truthy b \<and> chat_session b \<noteq> [] \<and> chat_message b \<noteq> []"
    using assms handleChatRequest_invalid[of b e clk1 clk2 ss] by auto
  then have h: "fst (handleChatRequest e clk1 clk2 b ss) =
     (case ai_chat e (chat_model clk1 b ss) (chat_prompt e b ss) of
        Inl err \<Rightarrow> (jsonResponse (error_body ''Failed to process request'') 500, None)
      | Inr resp \<Rightarrow>
          (case ai_body resp of
             None \<Rightarrow> (jsonResponse (error_body ''Model returned empty response'') 500, None)
           | Some s \<Rightarrow>
               (\<lparr>status = ai_status resp,
                 body = StreamBody (prependContextStream e s (chat_snippets e b))\<rparr>,
                Some \<lparr>cap_stream = s, cap_session = chat_session b,
                      cap_modelId = chat_model clk1 b ss\<rparr>)))"
    by (simp add: handleChatRequest_valid)
  show ?thesis
  proof (cases "ai_chat e (chat_model clk1 b ss) (chat_prompt e b ss)")
    case (Inl err)
    with h assms show ?thesis by simp
  next
    case (Inr resp)
    show ?thesis
    proof (cases "ai_body resp")
      case None
      with h Inr assms show ?thesis by simp
    next
      case (Some s)
      with h Inr assms have "cap = \<lparr>cap_stream = s, cap_session = chat_session b,
                      cap_modelId = chat_model clk1 b ss\<rparr>" by auto
      with Inr show ?thesis by simp
    qed
  qed
qed

lemma chat_turn_messages:
  assumes "truthy b" "chat_session b \<noteq> []" "chat_message b \<noteq> []"
  shows "stored_messages (snd (handleChatRequest e clk1 clk2 b ss) (chat_session b))
           = slice_last MAX_HISTORY
               (stored_messages (snd (getSessionRecord clk1 (ss (chat_session b))))
                @ [message_json \<lparr>role = User, content = chat_message b\<rparr>])"
  by (simp add: handleChatRequest_store[OF assms] stored_messages_persist)

lemma chat_turn_capped:
  assumes "truthy b" "chat_session b \<noteq> []" "chat_message b \<noteq> []"
      and "truthy (ss (chat_session b) SESSION_STORAGE_KEY) \<or> \<not> truthy (ss (chat_session b) ''messages'')"
  shows "stored_messages (snd (handleChatRequest e clk1 clk2 b ss) (chat_session b))
           = slice_last MAX_HISTORY
               (stored_messages (ss (chat_session b))
                @ [message_json \<lparr>role = User, content = chat_message b\<rparr>])"
  by (simp add: chat_turn_messages[OF assms(1,2,3)] getSessionRecord_no_migration[OF assms(4)])

lemma valid_assistant_message: "valid_message (Some (message_json \<lparr>role = Assistant, content = c\<rparr>))"
  by (simp add: valid_message_def message_json_def)

lemma appendMessage_messages:
  "valid_message (Some m) \<Longrightarrow>
   stored_messages (snd (appendMessage clk m model st)) = slice_last MAX_HISTORY (stored_messages st @ [m])"
  by (simp add: appendMessage_def do_fetch_post ok_def stored_messages_persist)

text \<open>
  C7. \<open>buildRetrievalContext\<close> always returns. It returns the empty context when the
  embedding call throws or gives no embedding, and when the vector query throws, returns
  \<open>null\<close>, has no matches or only matches without a usable text. A chat turn whose model
  call answers with a stream has the status of that answer, and its body is the model's
  stream itself when the context is empty.
\<close>
theorem retrieval_never_fails:
  "(\<exists>r. buildRetrievalContext e q = Inr r)
   \<and> (embedText e (trim q) = None \<longrightarrow> buildRetrievalContext e q = Inr no_context)
   \<and> ((\<exists>err. ai_embed e [if length (trim q) > EMBEDDING_MAX_CHARS
                             then slice (trim q) 0 EMBEDDING_MAX_CHARS else trim q] = Inl err)
        \<longrightarrow> buildRetrievalContext e q = Inr no_context)
   \<and> ((\<exists>r. ai_embed e [if length (trim q) > EMBEDDING_MAX_CHARS
                           then slice (trim q) 0 EMBEDDING_MAX_CHARS else trim q] = Inr r
             \<and> (response_data r = [] \<or> (\<exists>rest. response_data r = None # rest)))
        \<longrightarrow> buildRetrievalContext e q = Inr no_context)
   \<and> (embedText e (trim q) = Some v \<and> (\<exists>err. vectorize_query e v MAX_CONTEXT_CHUNKS = Inl err)
        \<longrightarrow> buildRetrievalContext e q = Inr no_context)
   \<and> (embedText e (trim q) = Some v \<and> vectorize_query e v MAX_CONTEXT_CHUNKS = Inr None
        \<longrightarrow> buildRetrievalContext e q = Inr no_context)
   \<and> (embedText e (trim q) = Some v \<and> vectorize_query e v MAX_CONTEXT_CHUNKS = Inr (Some qr)
        \<and> opt_prop (Some qr) ''matches'' = None
        \<longrightarrow> buildRetrievalContext e q = Inr no_context)
   \<and> (embedText e (trim q) = Some v \<and> vectorize_query e v MAX_CONTEXT_CHUNKS = Inr (Some qr)
        \<and> opt_prop (Some qr) ''matches'' = Some (JArr ms) \<and> (\<forall>m\<in>set ms. \<not> has_text m)
        \<longrightarrow> buildRetrievalContext e q = Inr no_context)
   \<and> (truthy b \<and> chat_session b \<noteq> [] \<and> chat_message b \<noteq> []
        \<and> ai_chat e (chat_model clk1 b ss) (chat_prompt e b ss) = Inr resp \<and> ai_body resp = Some s
        \<longrightarrow> status (fst (fst (handleChatRequest e clk1 clk2 b ss))) = ai_status resp
          \<and> (buildRetrievalContext e (chat_message b) = Inr no_context
               \<longrightarrow> body (fst (fst (handleChatRequest e clk1 clk2 b ss))) = StreamBody s))"
proof -
  have 1: "\<exists>r. buildRetrievalContext e q = Inr r" by (rule build_total)
  have 2: "buildRetrievalContext e q = Inr no_context" if "embedText e (trim q) = None"
    using that by (rule build_embed_none)
  have 3: "buildRetrievalContext e q = Inr no_context"
    if "\<exists>err. ai_embed e [if length (trim q) > EMBEDDING_MAX_CHARS
                             then slice (trim q) 0 EMBEDDING_MAX_CHARS else trim q] = Inl err"
  proof -
    from that obtain err where "ai_embed e [if length (trim q) > EMBEDDING_MAX_CHARS
                             then slice (trim q) 0 EMBEDDING_MAX_CHARS else trim q] = Inl err" ..
    then have "embedText e (trim q) = None" by (rule embed_throws)
    then show ?thesis by (rule 2)
  qed
  have 4: "buildRetrievalContext e q = Inr no_context"
    if "\<exists>r. ai_embed e [if length (trim q) > EMBEDDING_MAX_CHARS
                           then slice (trim q) 0 EMBEDDING_MAX_CHARS else trim q] = Inr r
             \<and> (response_data r = [] \<or> (\<exists>rest. response_data r = None # rest))"
  proof -
    from that obtain r where "ai_embed e [if length (trim q) > EMBEDDING_MAX_CHARS
                           then slice (trim q) 0 EMBEDDING_MAX_CHARS else trim q] = Inr r
             \<and> (response_data r = [] \<or> (\<exists>rest. response_data r = None # rest))" ..
    then have "embedText e (trim q) = None" by (simp add: embed_null)
    then show ?thesis by (rule 2)
  qed
  have 5: "buildRetrievalContext e q = Inr no_context"
    if "embedText e (trim q) = Some v \<and> (\<exists>err. vectorize_query e v MAX_CONTEXT_CHUNKS = Inl err)"
  proof -
    from that obtain err where "vectorize_query e v MAX_CONTEXT_CHUNKS = Inl err" by auto
    with that show ?thesis by (simp add: build_query_throws)
  qed
  have 6: "buildRetrievalContext e q = Inr no_context"
    if "embedText e (trim q) = Some v \<and> vectorize_query e v MAX_CONTEXT_CHUNKS = Inr None"
    using that by (simp add: build_query_null)
  have 7: "buildRetrievalContext e q = Inr no_context"
    if "embedText e (trim q) = Some v \<and> vectorize_query e v MAX_CONTEXT_CHUNKS = Inr (Some qr)
        \<and> opt_prop (Some qr) ''matches'' = None"
    using that build_query_no_matches[of e q v qr] by simp
  have 8: "buildRetrievalContext e q = Inr no_context"
    if "embedText e (trim q) = Some v \<and> vectorize_query e v MAX_CONTEXT_CHUNKS = Inr (Some qr)
        \<and> opt_prop (Some qr) ''matches'' = Some (JArr ms) \<and> (\<forall>m\<in>set ms. \<not> has_text m)"
    using that build_query_malformed[of e q v qr ms] by simp
  have 9: "status (fst (fst (handleChatRequest e clk1 clk2 b ss))) = ai_status resp
          \<and> (buildRetrievalContext e (chat_message b) = Inr no_context
               \<longrightarrow> body (fst (fst (handleChatRequest e clk1 clk2 b ss))) = StreamBody s)"
    if "truthy b \<and> chat_session b \<noteq> [] \<and> chat_message b \<noteq> []
        \<and> ai_chat e (chat_model clk1 b ss) (chat_prompt e b ss) = Inr resp \<and> ai_body resp = Some s"
  proof -
    from that have "fst (handleChatRequest e clk1 clk2 b ss)
        = (\<lparr>status = ai_status resp,
            body = StreamBody (prependContextStream e s (chat_snippets e b))\<rparr>,
           Some \<lparr>cap_stream = s, cap_session = chat_session b, cap_modelId = chat_model clk1 b ss\<rparr>)"
      by (simp add: handleChatRequest_valid)
    then show ?thesis
      by (simp add: chat_snippets_def no_context_def prependContextStream_def)
  qed
  show ?thesis
    apply (intro conjI)
            apply (rule 1)
           apply (rule impI, erule 2)
          apply (rule impI, erule 3)
         apply (rule impI, erule 4)
        apply (rule impI, erule 5)
       apply (rule impI, erule 6)
      apply (rule impI, erule 7)
     apply (rule impI, erule 8)
    apply (rule impI, erule 9)
    done
qed

theorem retrieval_never_fails_witness:
  "buildRetrievalContext
     \<lparr>ai_embed = (\<lambda>texts. Inl (Error ''embedding model unavailable'')),
      ai_chat = (\<lambda>m ms. Inr \<lparr>ai_status = 200,
                                 ai_body = Some \<lparr>stream_chunks = [''data''], stream_errored = False\<rparr>\<rparr>),
      vectorize_query = (\<lambda>v k. Inl NonError), vectorize_upsert = (\<lambda>records. Inr ()),
      date_at = (\<lambda>i. []), show_number = (\<lambda>r. []), show_plus = (\<lambda>a b. [])\<rparr> ''hi'' = Inr no_context
   \<and> buildRetrievalContext
     \<lparr>ai_embed = (\<lambda>texts. Inr (Some \<lparr>data = Some [Some [1]]\<rparr>)),
      ai_chat = (\<lambda>m ms. Inl NonError),
      vectorize_query = (\<lambda>v k. Inr (Some (JObj [(''matches'',
                            JArr [JNull, JObj [(''metadata'', JObj [(''text'', JNum 5)])], JStr ''x''])]))),
      vectorize_upsert = (\<lambda>records. Inr ()),
      date_at = (\<lambda>i. []), show_number = (\<lambda>r. []), show_plus = (\<lambda>a b. [])\<rparr> ''hi'' = Inr no_context
   \<and> fst (fst (handleChatRequest
     \<lparr>ai_embed = (\<lambda>texts. Inl (Error ''embedding model unavailable'')),
      ai_chat = (\<lambda>m ms. Inr \<lparr>ai_status = 200,
                                 ai_body = Some \<lparr>stream_chunks = [''data''], stream_errored = False\<rparr>\<rparr>),
      vectorize_query = (\<lambda>v k. Inl NonError), vectorize_upsert = (\<lambda>records. Inr ()),
      date_at = (\<lambda>i. []), show_number = (\<lambda>r. []), show_plus = (\<lambda>a b. [])\<rparr>
     \<lparr>t_created = ''t'', t_updated = ''t'', t_now = ''t''\<rparr>
     \<lparr>t_created = ''t'', t_updated = ''t'', t_now = ''t''\<rparr>
     (Some (JObj [(''sessionId'', JStr ''s1''), (''message'', JStr ''hi'')]))
     (\<lambda>sid k. None)))
     = \<lparr>status = 200, body = StreamBody \<lparr>stream_chunks = [''data''], stream_errored = False\<rparr>\<rparr>"
proof -
  let ?S = "\<lparr>stream_chunks = [''data''], stream_errored = False\<rparr>"
  let ?R = "\<lparr>ai_status = 200, ai_body = Some ?S\<rparr>"
  let ?E1 = "\<lparr>ai_embed = (\<lambda>texts. Inl (Error ''embedding model unavailable'')),
      ai_chat = (\<lambda>m ms. Inr ?R),
      vectorize_query = (\<lambda>v k. Inl NonError), vectorize_upsert = (\<lambda>records. Inr ()),
      date_at = (\<lambda>i. []), show_number = (\<lambda>r. []), show_plus = (\<lambda>a b. [])\<rparr>"
  let ?Q = "JObj [(''matches'', JArr [JNull, JObj [(''metadata'', JObj [(''text'', JNum 5)])], JStr ''x''])]"
  let ?E2 = "\<lparr>ai_embed = (\<lambda>texts. Inr (Some \<lparr>data = Some [Some [1]]\<rparr>)),
      ai_chat = (\<lambda>m ms. Inl NonError),
      vectorize_query = (\<lambda>v k. Inr (Some ?Q)),
      vectorize_upsert = (\<lambda>records. Inr ()),
      date_at = (\<lambda>i. []), show_number = (\<lambda>r. []), show_plus = (\<lambda>a b. [])\<rparr>"
  let ?B = "Some (JObj [(''sessionId'', JStr ''s1''), (''message'', JStr ''hi'')])"
  let ?c = "\<lparr>t_created = ''t'', t_updated = ''t'', t_now = ''t''\<rparr>"
  have t: "trim ''hi'' = ''hi''" "trim ''s1'' = ''s1''" by (simp_all add: trim_def is_space_def)
  have 1: "buildRetrievalContext ?E1 ''hi'' = Inr no_context"
    using retrieval_never_fails[where e = ?E1 and q = "''hi''"] by simp
  have em: "embedText ?E2 (trim ''hi'') = Some [1]"
    by (simp add: embedText_def t EMBEDDING_MAX_CHARS_def at_index_def)
  have nt: "\<forall>m\<in>set [JNull, JObj [(''metadata'', JObj [(''text'', JNum 5)])], JStr ''x'']. \<not> has_text m"
    by (simp add: has_text_def)
  have 2: "buildRetrievalContext ?E2 ''hi'' = Inr no_context"
    using retrieval_never_fails[where e = ?E2 and q = "''hi''" and v = "[1]" and qr = ?Q
        and ms = "[JNull, JObj [(''metadata'', JObj [(''text'', JNum 5)])], JStr ''x'']"] em nt
    by simp
  have v: "truthy ?B \<and> chat_session ?B \<noteq> [] \<and> chat_message ?B \<noteq> []
           \<and> ai_chat ?E1 (chat_model ?c ?B (\<lambda>sid k. None)) (chat_prompt ?E1 ?B (\<lambda>sid k. None)) = Inr ?R
           \<and> ai_body ?R = Some ?S"
    by (simp add: chat_session_def chat_message_def t)
  have f: "buildRetrievalContext ?E1 (chat_message ?B) = Inr no_context"
    using 1 by (simp add: chat_message_def t)
  from retrieval_never_fails[of ?E1 _ _ _ _ ?B ?c "\<lambda>sid k. None" ?R ?S ?c] v f
  have 3: "status (fst (fst (handleChatRequest ?E1 ?c ?c ?B (\<lambda>sid k. None)))) = 200
         \<and> body (fst (fst (handleChatRequest ?E1 ?c ?c ?B (\<lambda>sid k. None)))) = StreamBody ?S"
    by simp
  then have "fst (fst (handleChatRequest ?E1 ?c ?c ?B (\<lambda>sid k. None))) = \<lparr>status = 200, body = StreamBody ?S\<rparr>"
    by (cases "fst (fst (handleChatRequest ?E1 ?c ?c ?B (\<lambda>sid k. None)))") simp
  with 1 2 show ?thesis by simp
qed

text \<open>
  C2. A store that holds 25 messages under the key \<open>messages\<close> and nothing under the
  session key. An append through \<open>POST /messages\<close> keeps the 19 newest of them before
  the new message. A chat turn reads the history first: that read deletes the key
  \<open>messages\<close> and writes nothing, so the append of the turn stores the user message
  alone, and the assistant message that follows makes two.
\<close>
theorem chat_turn_drops_legacy_history:
  "stored_messages
     ((\<lambda>k. None)(''messages'' \<mapsto>
        JArr (map (\<lambda>i. JObj [(''role'', JStr ''user''), (''content'', JStr (replicate i CHR ''x''))])
                  [0..<25])))
     = map (\<lambda>i. JObj [(''role'', JStr ''user''), (''content'', JStr (replicate i CHR ''x''))]) [0..<25]
   \<and> stored_messages
       (snd (appendMessage \<lparr>t_created = ''t1'', t_updated = ''t1'', t_now = ''t2''\<rparr>
               (JObj [(''role'', JStr ''user''), (''content'', JStr ''hi'')]) DEFAULT_MODEL_ID
               ((\<lambda>k. None)(''messages'' \<mapsto>
                  JArr (map (\<lambda>i. JObj [(''role'', JStr ''user''), (''content'', JStr (replicate i CHR ''x''))])
                            [0..<25])))))
     = map (\<lambda>i. JObj [(''role'', JStr ''user''), (''content'', JStr (replicate i CHR ''x''))]) [6..<25]
       @ [JObj [(''role'', JStr ''user''), (''content'', JStr ''hi'')]]
   \<and> stored_messages
       (snd (handleChatRequest
          \<lparr>ai_embed = (\<lambda>texts. Inl NonError),
           ai_chat = (\<lambda>m ms. Inr \<lparr>ai_status = 200,
                                      ai_body = Some \<lparr>stream_chunks = [''data''], stream_errored = False\<rparr>\<rparr>),
           vectorize_query = (\<lambda>v k. Inl NonError), vectorize_upsert = (\<lambda>records. Inr ()),
           date_at = (\<lambda>i. []), show_number = (\<lambda>r. []), show_plus = (\<lambda>a b. [])\<rparr>
          \<lparr>t_created = ''t1'', t_updated = ''t1'', t_now = ''t2''\<rparr>
          \<lparr>t_created = ''t1'', t_updated = ''t1'', t_now = ''t2''\<rparr>
          (Some (JObj [(''sessionId'', JStr ''s1''), (''message'', JStr ''hi'')]))
          (\<lambda>sid. (\<lambda>k. None)(''messages'' \<mapsto>
              JArr (map (\<lambda>i. JObj [(''role'', JStr ''user''), (''content'', JStr (replicate i CHR ''x''))])
                        [0..<25]))))
        ''s1'')
     = [JObj [(''role'', JStr ''user''), (''content'', JStr ''hi'')]]
   \<and> stored_messages
       (snd (appendMessage \<lparr>t_created = ''t3'', t_updated = ''t3'', t_now = ''t3''\<rparr>
               (JObj [(''role'', JStr ''assistant''), (''content'', JStr ''hello'')]) DEFAULT_MODEL_ID
          (snd (handleChatRequest
             \<lparr>ai_embed = (\<lambda>texts. Inl NonError),
              ai_chat = (\<lambda>m ms. Inr \<lparr>ai_status = 200,
                                         ai_body = Some \<lparr>stream_chunks = [''data''], stream_errored = False\<rparr>\<rparr>),
              vectorize_query = (\<lambda>v k. Inl NonError), vectorize_upsert = (\<lambda>records. Inr ()),
              date_at = (\<lambda>i. []), show_number = (\<lambda>r. []), show_plus = (\<lambda>a b. [])\<rparr>
             \<lparr>t_created = ''t1'', t_updated = ''t1'', t_now = ''t2''\<rparr>
             \<lparr>t_created = ''t1'', t_updated = ''t1'', t_now = ''t2''\<rparr>
             (Some (JObj [(''sessionId'', JStr ''s1''), (''message'', JStr ''hi'')]))
             (\<lambda>sid. (\<lambda>k. None)(''messages'' \<mapsto>
                 JArr (map (\<lambda>i. JObj [(''role'', JStr ''user''), (''content'', JStr (replicate i CHR ''x''))])
                           [0..<25]))))
           ''s1'')))
     = [JObj [(''role'', JStr ''user''), (''content'', JStr ''hi'')],
        JObj [(''role'', JStr ''assistant''), (''content'', JStr ''hello'')]]"
proof -
  let ?msg = "\<lambda>i. JObj [(''role'', JStr ''user''), (''content'', JStr (replicate i CHR ''x''))]"
  let ?usr = "JObj [(''role'', JStr ''user''), (''content'', JStr ''hi'')]"
  let ?ast = "JObj [(''role'', JStr ''assistant''), (''content'', JStr ''hello'')]"
  let ?st = "(\<lambda>k. None)(''messages'' \<mapsto> JArr (map ?msg [0..<25]))"
  let ?c = "\<lparr>t_created = ''t1'', t_updated = ''t1'', t_now = ''t2''\<rparr>"
  let ?c3 = "\<lparr>t_created = ''t3'', t_updated = ''t3'', t_now = ''t3''\<rparr>"
  let ?E = "\<lparr>ai_embed = (\<lambda>texts. Inl NonError),
           ai_chat = (\<lambda>m ms. Inr \<lparr>ai_status = 200,
                                      ai_body = Some \<lparr>stream_chunks = [''data''], stream_errored = False\<rparr>\<rparr>),
           vectorize_query = (\<lambda>v k. Inl NonError), vectorize_upsert = (\<lambda>records. Inr ()),
           date_at = (\<lambda>i. []), show_number = (\<lambda>r. []), show_plus = (\<lambda>a b. [])\<rparr>"
  let ?B = "Some (JObj [(''sessionId'', JStr ''s1''), (''message'', JStr ''hi'')])"
  let ?ss = "\<lambda>sid :: string. ?st"
  have t: "trim ''hi'' = ''hi''" "trim ''s1'' = ''s1''" by (simp_all add: trim_def is_space_def)
  have sid: "chat_session ?B = ''s1''" by (simp add: chat_session_def t)
  have msg: "chat_message ?B = ''hi''" by (simp add: chat_message_def t)
  have v: "truthy ?B" "chat_session ?B \<noteq> []" "chat_message ?B \<noteq> []"
    by (simp_all add: sid msg)
  have um: "message_json \<lparr>role = User, content = ''hi''\<rparr> = ?usr" by (simp add: message_json_def)
  have am: "message_json \<lparr>role = Assistant, content = ''hello''\<rparr> = ?ast" by (simp add: message_json_def)
  have vu: "valid_message (Some ?usr)" using valid_user_message[of "''hi''"] unfolding um .
  have va: "valid_message (Some ?ast)" using valid_assistant_message[of "''hello''"] unfolding am .
  have 1: "stored_messages ?st = map ?msg [0..<25]"
    by (simp add: stored_messages_def getSessionRecord_def Let_def SESSION_STORAGE_KEY_def)
  have d: "drop 6 (map ?msg [0..<25]) = map ?msg [6..<25]"
    by (simp add: drop_map)
  have 2: "stored_messages (snd (appendMessage ?c ?usr DEFAULT_MODEL_ID ?st)) = map ?msg [6..<25] @ [?usr]"
    unfolding appendMessage_messages[OF vu] 1
    by (simp add: slice_last_def MAX_HISTORY_def d del: upt_Suc replicate.simps)
  have after_read: "snd (getSessionRecord ?c ?st) = (\<lambda>k. None)"
    by (simp add: getSessionRecord_def Let_def SESSION_STORAGE_KEY_def fun_eq_iff)
  have 3: "stored_messages (snd (handleChatRequest ?E ?c ?c ?B ?ss) ''s1'') = [?usr]"
    using chat_turn_messages[OF v, of ?E ?c ?c ?ss]
    unfolding sid msg after_read um stored_messages_empty
    by (simp add: slice_last_def MAX_HISTORY_def)
  have 4: "stored_messages (snd (appendMessage ?c3 ?ast DEFAULT_MODEL_ID
              (snd (handleChatRequest ?E ?c ?c ?B ?ss) ''s1''))) = [?usr, ?ast]"
    unfolding appendMessage_messages[OF va] 3
    by (simp add: slice_last_def MAX_HISTORY_def)
  from 1 2 3 4 show ?thesis by (intro conjI)
qed

text \<open>
  C9. \<open>selectModelId\<close> returns the requested id, trimmed, when it is a string that is not
  empty after trimming; otherwise the stored id, trimmed, when that is not empty after
  trimming; otherwise the fallback. The model a chat turn runs and hands to the capture of
  the answer is \<open>selectModelId\<close> of the request's \<open>modelId\<close>, the model id of the
  session record and \<open>DEFAULT_MODEL_ID\<close>.
\<close>
theorem selectModelId_priority:
  "(requested = Some (JStr r) \<and> trim r \<noteq> []
      \<longrightarrow> selectModelId requested stored fallback = trim r)
   \<and> (\<not> (\<exists>q. requested = Some (JStr q) \<and> trim q \<noteq> []) \<and> stored = Some s \<and> trim s \<noteq> []
      \<longrightarrow> selectModelId requested stored fallback = trim s)
   \<and> (\<not> (\<exists>q. requested = Some (JStr q) \<and> trim q \<noteq> []) \<and> \<not> (\<exists>q. stored = Some q \<and> trim q \<noteq> [])
      \<longrightarrow> selectModelId requested stored fallback = fallback)
   \<and> (snd (fst (handleChatRequest e clk1 clk2 b ss)) = Some cap
      \<longrightarrow> cap_modelId cap
            = selectModelId (opt_prop b ''modelId'')
                (modelId (fst (getSessionRecord clk1 (ss (chat_session b))))) DEFAULT_MODEL_ID
          \<and> (\<exists>resp. ai_chat e (cap_modelId cap) (chat_prompt e b ss) = Inr resp))"
proof -
  have a: "(requested = Some (JStr r) \<and> trim r \<noteq> []
      \<longrightarrow> selectModelId requested stored fallback = trim r)
   \<and> (\<not> (\<exists>q. requested = Some (JStr q) \<and> trim q \<noteq> []) \<and> stored = Some s \<and> trim s \<noteq> []
      \<longrightarrow> selectModelId requested stored fallback = trim s)
   \<and> (\<not> (\<exists>q. requested = Some (JStr q) \<and> trim q \<noteq> []) \<and> \<not> (\<exists>q. stored = Some q \<and> trim q \<noteq> [])
      \<longrightarrow> selectModelId requested stored fallback = fallback)"
    by (auto simp: selectModelId.simps split: option.splits json.splits)
  have b: "cap_modelId cap
            = selectModelId (opt_prop b ''modelId'')
                (modelId (fst (getSessionRecord clk1 (ss (chat_session b))))) DEFAULT_MODEL_ID
          \<and> (\<exists>resp. ai_chat e (cap_modelId cap) (chat_prompt e b ss) = Inr resp)"
    if "snd (fst (handleChatRequest e clk1 clk2 b ss)) = Some cap"
  proof -
    note c = chat_capture[OF that]
    from c have m: "cap_modelId cap = chat_model clk1 b ss" by simp
    from c obtain resp where "ai_chat e (chat_model clk1 b ss) (chat_prompt e b ss) = Inr resp" by blast
    then have "\<exists>resp. ai_chat e (cap_modelId cap) (chat_prompt e b ss) = Inr resp"
      unfolding m by (rule exI)
    with m show ?thesis unfolding chat_model_def by (rule conjI)
  qed
  show ?thesis
    apply (rule conjI[OF conjunct1[OF a]])
    apply (rule conjI[OF conjunct1[OF conjunct2[OF a]]])
    apply (rule conjI[OF conjunct2[OF conjunct2[OF a]]])
    apply (rule impI, erule b)
    done
qed

lemma trim_plain: "trim ''m1'' = ''m1''" "trim ''  m2 '' = ''m2''" "trim ''   '' = []"
  by (simp_all add: trim_def is_space_def)

theorem selectModelId_priority_witness:
  "selectModelId (Some (JStr ''  m2 '')) (Some ''m1'') DEFAULT_MODEL_ID = ''m2''
   \<and> selectModelId (Some (JStr ''   '')) (Some ''m1'') DEFAULT_MODEL_ID = ''m1''
   \<and> selectModelId (Some (JNum 3)) None DEFAULT_MODEL_ID = DEFAULT_MODEL_ID
   \<and> map_option cap_modelId
       (snd (fst (handleChatRequest
          \<lparr>ai_embed = (\<lambda>texts. Inl NonError),
           ai_chat = (\<lambda>m ms. Inr \<lparr>ai_status = 200,
                                      ai_body = Some \<lparr>stream_chunks = [''data''], stream_errored = False\<rparr>\<rparr>),
           vectorize_query = (\<lambda>v k. Inl NonError), vectorize_upsert = (\<lambda>records. Inr ()),
           date_at = (\<lambda>i. []), show_number = (\<lambda>r. []), show_plus = (\<lambda>a b. [])\<rparr>
          \<lparr>t_created = ''t'', t_updated = ''t'', t_now = ''t''\<rparr>
          \<lparr>t_created = ''t'', t_updated = ''t'', t_now = ''t''\<rparr>
          (Some (JObj [(''sessionId'', JStr ''s1''), (''message'', JStr ''hi''), (''modelId'', JStr ''   '')]))
          (\<lambda>sid. (\<lambda>k. None)(''session'' \<mapsto> JObj [(''messages'', JArr []), (''modelId'', JStr ''m1'')])))))
     = Some ''m1''"
proof -
  let ?S = "\<lparr>stream_chunks = [''data''], stream_errored = False\<rparr>"
  let ?E = "\<lparr>ai_embed = (\<lambda>texts. Inl NonError),
           ai_chat = (\<lambda>m ms. Inr \<lparr>ai_status = 200, ai_body = Some ?S\<rparr>),
           vectorize_query = (\<lambda>v k. Inl NonError), vectorize_upsert = (\<lambda>records. Inr ()),
           date_at = (\<lambda>i. []), show_number = (\<lambda>r. []), show_plus = (\<lambda>a b. [])\<rparr>"
  let ?c = "\<lparr>t_created = ''t'', t_updated = ''t'', t_now = ''t''\<rparr>"
  let ?B = "Some (JObj [(''sessionId'', JStr ''s1''), (''message'', JStr ''hi''), (''modelId'', JStr ''   '')])"
  let ?ss = "\<lambda>sid :: string. (\<lambda>k. None)(''session'' \<mapsto> JObj [(''messages'', JArr []), (''modelId'', JStr ''m1'')])"
  let ?cap = "\<lparr>cap_stream = ?S, cap_session = chat_session ?B, cap_modelId = chat_model ?c ?B ?ss\<rparr>"
  have t: "trim ''hi'' = ''hi''" "trim ''s1'' = ''s1''" by (simp_all add: trim_def is_space_def)
  have 1: "selectModelId (Some (JStr ''  m2 '')) (Some ''m1'') DEFAULT_MODEL_ID = ''m2''"
    using selectModelId_priority[of "Some (JStr ''  m2 '')" "''  m2 ''" "Some ''m1''" DEFAULT_MODEL_ID "''m1''"]
    by (simp add: trim_plain)
  have 2: "selectModelId (Some (JStr ''   '')) (Some ''m1'') DEFAULT_MODEL_ID = ''m1''"
    using selectModelId_priority[of "Some (JStr ''   '')" "''   ''" "Some ''m1''" DEFAULT_MODEL_ID "''m1''"]
    by (simp add: trim_plain)
  have 3: "selectModelId (Some (JNum 3)) None DEFAULT_MODEL_ID = DEFAULT_MODEL_ID"
    using selectModelId_priority[of "Some (JNum 3)" "[]" None DEFAULT_MODEL_ID "[]"]
    by simp
  have v: "truthy ?B" "chat_session ?B \<noteq> []" "chat_message ?B \<noteq> []"
    by (simp_all add: chat_session_def chat_message_def t)
  have cap: "snd (fst (handleChatRequest ?E ?c ?c ?B ?ss)) = Some ?cap"
    by (simp add: handleChatRequest_valid[OF v])
  have st: "modelId (fst (getSessionRecord ?c (?ss (chat_session ?B)))) = Some ''m1''"
    by (simp add: getSessionRecord_def Let_def SESSION_STORAGE_KEY_def trim_plain)
  have rq: "opt_prop ?B ''modelId'' = Some (JStr ''   '')" by simp
  from selectModelId_priority[of _ _ _ _ _ ?E ?c ?c ?B ?ss ?cap] cap
  have "cap_modelId ?cap
            = selectModelId (opt_prop ?B ''modelId'')
                (modelId (fst (getSessionRecord ?c (?ss (chat_session ?B))))) DEFAULT_MODEL_ID"
    by blast
  then have "cap_modelId ?cap = ''m1''"
    unfolding st rq 2 .
  with cap have 4: "map_option cap_modelId (snd (fst (handleChatRequest ?E ?c ?c ?B ?ss))) = Some ''m1''"
    by simp
  from 1 2 3 4 show ?thesis by (intro conjI)
qed

section \<open>Properties of the client stream\<close>

lemma of_char_newline: "of_char newline = (10::nat)"
  by (simp add: newline_def)

lemma char_of_not_newline: "(m::nat) mod 256 \<noteq> 10 \<Longrightarrow> char_of m \<noteq> CHR 0x0A"
proof
  assume m: "m mod 256 \<noteq> 10" and e: "char_of m = CHR 0x0A"
  from e have "of_char (char_of m) = (of_char (CHR 0x0A) :: nat)" by simp
  then have "m mod 256 = 10" by simp
  with m show False by simp
qed

lemma hex_digit_not_newline: "n < 16 \<Longrightarrow> hex_digit n \<noteq> CHR 0x0A"
proof (cases "n < 10")
  case True
  then have "(48 + n) mod 256 \<noteq> 10" by simp
  then show ?thesis using True by (simp add: hex_digit_def char_of_not_newline)
next
  case False
  assume "n < 16"
  then have "(87 + n) mod 256 \<noteq> 10" by simp
  then show ?thesis using False by (simp add: hex_digit_def char_of_not_newline)
qed

lemma escape_char_no_newline: "newline \<notin> set (escape_char c)"
proof -
  have a: "hex_digit (of_char c div 16) \<noteq> CHR 0x0A"
    by (rule hex_digit_not_newline) (simp add: less_mult_imp_div_less)
  have b: "hex_digit (of_char c mod 16) \<noteq> CHR 0x0A"
    by (rule hex_digit_not_newline) simp
  show ?thesis
    unfolding escape_char_def newline_def dquote_def
    using a b by auto
qed

lemma quote_no_newline: "newline \<notin> set (quote s)"
proof -
  have "dquote \<noteq> newline" by (simp add: dquote_def newline_def)
  then show ?thesis
    using escape_char_no_newline by (auto simp: quote_def)
qed

lemma set_join: "set (join sep xs) \<subseteq> set sep \<union> (\<Union>x\<in>set xs. set x)"
  by (induction sep xs rule: join.induct) auto

lemma join_no_newline:
  assumes "newline \<notin> set sep" and "\<forall>x\<in>set xs. newline \<notin> set x"
  shows "newline \<notin> set (join sep xs)"
  using set_join[of sep xs] assms by blast

lemma stringify_no_newline:
  assumes "\<forall>n. newline \<notin> set (sn n)"
  shows "newline \<notin> set (stringify sn j)"
proof (induction j)
  case JNull
  show ?case by (simp add: newline_def)
next
  case (JBool b)
  show ?case by (simp add: newline_def)
next
  case (JNum n)
  show ?case using assms by simp
next
  case (JStr s)
  show ?case by (simp add: quote_no_newline)
next
  case (JArr xs)
  have "newline \<notin> set (join '','' (map (stringify sn) xs))"
    by (rule join_no_newline) (use JArr in \<open>auto simp: newline_def\<close>)
  then show ?case by (simp add: newline_def)
next
  case (JObj kvs)
  let ?f = "\<lambda>kv. quote (fst kv) @ '':'' @ stringify sn (snd kv)"
  have each: "newline \<notin> set (?f kv)" if kv: "kv \<in> set kvs" for kv
  proof -
    obtain k v where p: "kv = (k, v)" by (cases kv)
    with kv JObj have "newline \<notin> set (stringify sn v)" by (auto simp: snds.simps)
    moreover have "newline \<notin> set (quote k)" by (rule quote_no_newline)
    moreover have "newline \<notin> set '':''" by (simp add: newline_def)
    ultimately show ?thesis by (simp add: p)
  qed
  have "newline \<notin> set (join '','' (map ?f kvs))"
  proof (rule join_no_newline)
    show "newline \<notin> set '',''" by (simp add: newline_def)
    show "\<forall>x\<in>set (map ?f kvs). newline \<notin> set x" using each by auto
  qed
  then show ?case by (simp add: newline_def)
qed

lemma utf8_no_newline: "c \<noteq> newline \<Longrightarrow> newline \<notin> set (utf8 c)"
proof -
  assume c: "c \<noteq> newline"
  have lt: "(of_char c :: nat) < 256" by simp
  then have "(of_char c :: nat) div 64 < 4" by (simp add: less_mult_imp_div_less)
  then have "(192 + (of_char c :: nat) div 64) mod 256 \<noteq> 10" by simp
  then have a: "char_of (192 + (of_char c :: nat) div 64) \<noteq> CHR 0x0A"
    by (rule char_of_not_newline)
  have "(of_char c :: nat) mod 64 < 64" by simp
  then have "(128 + (of_char c :: nat) mod 64) mod 256 \<noteq> 10" by simp
  then have b: "char_of (128 + (of_char c :: nat) mod 64) \<noteq> CHR 0x0A"
    by (rule char_of_not_newline)
  from a b c show ?thesis by (auto simp: utf8_def Let_def newline_def)
qed

lemma encode_no_newline: "newline \<notin> set s \<Longrightarrow> newline \<notin> set (encode s)"
proof
  assume s: "newline \<notin> set s" and "newline \<in> set (encode s)"
  then obtain c where "c \<in> set s" "newline \<in> set (utf8 c)" by (auto simp: encode_def)
  with s utf8_no_newline[of c] show False by auto
qed

lemma encode_append: "encode (a @ b) = encode a @ encode b"
  by (simp add: encode_def)

lemma encode_newline: "encode [newline] = [newline]"
  by (simp add: encode_def utf8_def Let_def of_char_newline)

lemma payload_one_line:
  "\<forall>n. newline \<notin> set (show_number e n) \<Longrightarrow> newline \<notin> set (encode (context_payload e sn))"
  unfolding context_payload_def by (intro encode_no_newline stringify_no_newline)

lemma prepend_bytes:
  "stream_bytes (prependContextStream e s sn)
     = (if sn = [] then stream_bytes s
        else encode (context_payload e sn) @ [newline] @ stream_bytes s)"
  by (simp add: prependContextStream_def stream_bytes_def encode_append encode_newline)

lemma chat_streams:
  assumes "snd (fst (handleChatRequest e clk1 clk2 b ss)) = Some cap"
  shows "(\<exists>resp. ai_chat e (chat_model clk1 b ss) (chat_prompt e b ss) = Inr resp
                 \<and> ai_body resp = Some (cap_stream cap)
                 \<and> status (fst (fst (handleChatRequest e clk1 clk2 b ss))) = ai_status resp)
       \<and> body (fst (fst (handleChatRequest e clk1 clk2 b ss)))
           = StreamBody (prependContextStream e (cap_stream cap) (chat_snippets e b))"
proof -
  have v: "truthy b \<and> chat_session b \<noteq> [] \<and> chat_message b \<noteq> []"
    using assms handleChatRequest_invalid[of b e clk1 clk2 ss] by auto
  then have h: "fst (handleChatRequest e clk1 clk2 b ss) =
     (case ai_chat e (chat_model clk1 b ss) (chat_prompt e b ss) of
        Inl err \<Rightarrow> (jsonResponse (error_body ''Failed to process request'') 500, None)
      | Inr resp \<Rightarrow>
          (case ai_body resp of
             None \<Rightarrow> (jsonResponse (error_body ''Model returned empty response'') 500, None)
           | Some s \<Rightarrow>
               (\<lparr>status = ai_status resp,
                 body = StreamBody (prependContextStream e s (chat_snippets e b))\<rparr>,
                Some \<lparr>cap_stream = s, cap_session = chat_session b,
                      cap_modelId = chat_model clk1 b ss\<rparr>)))"
    by (simp add: handleChatRequest_valid)
  show ?thesis
  proof (cases "ai_chat e (chat_model clk1 b ss) (chat_prompt e b ss)")
    case (Inl err)
    with h assms show ?thesis by simp
  next
    case (Inr resp)
    show ?thesis
    proof (cases "ai_body resp")
      case None
      with h Inr assms show ?thesis by simp
    next
      case (Some s)
      with h Inr assms have "cap_stream cap = s" by auto
      with h Inr Some show ?thesis by simp
    qed
  qed
qed

lemma stringify_snippet:
  "stringify sn (snippet_json c)
     = ''{'' @ join '',''
         ((case snip_title c of None \<Rightarrow> [] | Some t \<Rightarrow> [quote ''title'' @ '':'' @ quote t])
          @ [quote ''text'' @ '':'' @ quote (snip_text c)]
          @ (case snip_index c of None \<Rightarrow> [] | Some n \<Rightarrow> [quote ''index'' @ '':'' @ sn n])
          @ (case snip_score c of None \<Rightarrow> [] | Some x \<Rightarrow> [quote ''score'' @ '':'' @ sn x])) @ ''}''"
  by (cases "snip_title c"; cases "snip_index c"; cases "snip_score c")
     (simp_all add: snippet_json_def opt_field_def)

lemma context_payload_text:
  "context_payload e sn
     = ''{'' @ quote ''context'' @ '':['' @
       join '',''
         (map (\<lambda>c. ''{'' @ join '',''
                 ((case snip_title c of None \<Rightarrow> [] | Some t \<Rightarrow> [quote ''title'' @ '':'' @ quote t])
                  @ [quote ''text'' @ '':'' @ quote (snip_text c)]
                  @ (case snip_index c of None \<Rightarrow> [] | Some n \<Rightarrow> [quote ''index'' @ '':'' @ show_number e n])
                  @ (case snip_score c of None \<Rightarrow> [] | Some x \<Rightarrow> [quote ''score'' @ '':'' @ show_number e x]))
                 @ ''}'') sn)
       @ '']}''"
  by (simp add: context_payload_def stringify_snippet comp_def)

lemma escape_char_plain:
  "c \<noteq> dquote \<Longrightarrow> c \<noteq> CHR 0x5C \<Longrightarrow> 32 \<le> (of_char c :: nat) \<Longrightarrow> escape_char c = [c]"
  by (auto simp: escape_char_def)

lemma quote_plain:
  "\<forall>c\<in>set t. c \<noteq> dquote \<and> c \<noteq> CHR 0x5C \<and> 32 \<le> (of_char c :: nat) \<Longrightarrow> quote t = [dquote] @ t @ [dquote]"
proof -
  assume a: "\<forall>c\<in>set t. c \<noteq> dquote \<and> c \<noteq> CHR 0x5C \<and> 32 \<le> (of_char c :: nat)"
  then have "concat (map escape_char t) = t"
    by (induction t) (simp_all add: escape_char_plain)
  then show ?thesis by (simp add: quote_def)
qed

lemma encode_ascii: "\<forall>c\<in>set t. (of_char c :: nat) < 128 \<Longrightarrow> encode t = t"
  by (induction t) (simp_all add: encode_def utf8_def Let_def)

text \<open>
  C1. With no snippets \<open>prependContextStream\<close> returns the model's stream itself. With
  snippets, the bytes of its stream are one line followed by the bytes of the model's
  stream, in order. The line is the UTF-8 encoding of \<open>{"context":[...]}\<close>, where every
  snippet is written as an object with its \<open>title\<close>, \<open>text\<close>, \<open>index\<close> and
  \<open>score\<close>, a property that is \<open>undefined\<close> being left out; a string without quote,
  backslash and control character is written between quotes as it is, and ASCII text is
  encoded as it is. The line holds no newline before its end, as long as the text of a
  number holds none. The body of a streamed chat answer is \<open>prependContextStream\<close> of the
  model's stream and the retrieved snippets.
\<close>
theorem client_stream_framing:
  "stream_bytes (prependContextStream e s sn)
     = (if sn = [] then stream_bytes s
        else encode (context_payload e sn) @ [newline] @ stream_bytes s)
   \<and> (sn = [] \<longrightarrow> prependContextStream e s sn = s)
   \<and> context_payload e sn
       = ''{'' @ quote ''context'' @ '':['' @
         join '',''
           (map (\<lambda>c. ''{'' @ join '',''
                   ((case snip_title c of None \<Rightarrow> [] | Some t \<Rightarrow> [quote ''title'' @ '':'' @ quote t])
                    @ [quote ''text'' @ '':'' @ quote (snip_text c)]
                    @ (case snip_index c of None \<Rightarrow> [] | Some n \<Rightarrow> [quote ''index'' @ '':'' @ show_number e n])
                    @ (case snip_score c of None \<Rightarrow> [] | Some x \<Rightarrow> [quote ''score'' @ '':'' @ show_number e x]))
                   @ ''}'') sn)
         @ '']}''
   \<and> ((\<forall>c\<in>set t. c \<noteq> dquote \<and> c \<noteq> CHR 0x5C \<and> 32 \<le> (of_char c :: nat))
        \<longrightarrow> quote t = [dquote] @ t @ [dquote])
   \<and> ((\<forall>c\<in>set t. (of_char c :: nat) < 128) \<longrightarrow> encode t = t)
   \<and> ((\<forall>n. newline \<notin> set (show_number e n)) \<longrightarrow> newline \<notin> set (encode (context_payload e sn)))
   \<and> (sn \<noteq> [] \<and> (\<forall>n. newline \<notin> set (show_number e n))
        \<longrightarrow> takeWhile (\<lambda>c. c \<noteq> newline) (stream_bytes (prependContextStream e s sn))
              = encode (context_payload e sn))
   \<and> (snd (fst (handleChatRequest e clk1 clk2 b ss)) = Some cap
        \<longrightarrow> (\<exists>resp. ai_chat e (chat_model clk1 b ss) (chat_prompt e b ss) = Inr resp
                    \<and> ai_body resp = Some (cap_stream cap))
          \<and> body (fst (fst (handleChatRequest e clk1 clk2 b ss)))
              = StreamBody (prependContextStream e (cap_stream cap) (chat_snippets e b)))"
proof (intro conjI impI)
  show "stream_bytes (prependContextStream e s sn)
     = (if sn = [] then stream_bytes s
        else encode (context_payload e sn) @ [newline] @ stream_bytes s)"
    by (rule prepend_bytes)
  show "prependContextStream e s sn = s" if "sn = []"
    using that by (simp add: prependContextStream_def)
  show "context_payload e sn
       = ''{'' @ quote ''context'' @ '':['' @
         join '',''
           (map (\<lambda>c. ''{'' @ join '',''
                   ((case snip_title c of None \<Rightarrow> [] | Some t \<Rightarrow> [quote ''title'' @ '':'' @ quote t])
                    @ [quote ''text'' @ '':'' @ quote (snip_text c)]
                    @ (case snip_index c of None \<Rightarrow> [] | Some n \<Rightarrow> [quote ''index'' @ '':'' @ show_number e n])
                    @ (case snip_score c of None \<Rightarrow> [] | Some x \<Rightarrow> [quote ''score'' @ '':'' @ show_number e x]))
                   @ ''}'') sn)
         @ '']}''"
    by (rule context_payload_text)
  show "quote t = [dquote] @ t @ [dquote]"
    if "\<forall>c\<in>set t. c \<noteq> dquote \<and> c \<noteq> CHR 0x5C \<and> 32 \<le> (of_char c :: nat)"
    using that by (rule quote_plain)
  show "encode t = t" if "\<forall>c\<in>set t. (of_char c :: nat) < 128"
    using that by (rule encode_ascii)
  show "newline \<notin> set (encode (context_payload e sn))" if "\<forall>n. newline \<notin> set (show_number e n)"
    using that by (rule payload_one_line)
  show "takeWhile (\<lambda>c. c \<noteq> newline) (stream_bytes (prependContextStream e s sn))
              = encode (context_payload e sn)"
    if "sn \<noteq> [] \<and> (\<forall>n. newline \<notin> set (show_number e n))"
  proof -
    from that have "newline \<notin> set (encode (context_payload e sn))" by (simp add: payload_one_line)
    then have "takeWhile (\<lambda>c. c \<noteq> newline) (encode (context_payload e sn) @ newline # stream_bytes s)
               = encode (context_payload e sn)"
      by (subst takeWhile_append2) auto
    with that show ?thesis by (simp add: prepend_bytes)
  qed
  assume c: "snd (fst (handleChatRequest e clk1 clk2 b ss)) = Some cap"
  from chat_streams[OF c]
  show "\<exists>resp. ai_chat e (chat_model clk1 b ss) (chat_prompt e b ss) = Inr resp
                    \<and> ai_body resp = Some (cap_stream cap)"
    by blast
  from chat_streams[OF c]
  show "body (fst (fst (handleChatRequest e clk1 clk2 b ss)))
              = StreamBody (prependContextStream e (cap_stream cap) (chat_snippets e b))"
    by simp
qed

lemma quote_samples:
  "quote ''context'' = [CHR 0x22] @ ''context'' @ [CHR 0x22]"
  "quote ''title'' = [CHR 0x22] @ ''title'' @ [CHR 0x22]"
  "quote ''text'' = [CHR 0x22] @ ''text'' @ [CHR 0x22]"
  "quote ''index'' = [CHR 0x22] @ ''index'' @ [CHR 0x22]"
  "quote ''score'' = [CHR 0x22] @ ''score'' @ [CHR 0x22]"
  "quote ''Doc'' = [CHR 0x22] @ ''Doc'' @ [CHR 0x22]"
  "quote [CHR ''a'', CHR 0x0A, CHR ''b''] = [CHR 0x22] @ ''a'' @ [CHR 0x5C] @ ''nb'' @ [CHR 0x22]"
  by (simp_all add: quote_def escape_char_def dquote_def)

theorem client_stream_framing_witness:
  "stream_bytes (prependContextStream
     \<lparr>ai_embed = (\<lambda>texts. Inr (Some \<lparr>data = Some [Some [1]]\<rparr>)),
      ai_chat = (\<lambda>m ms. Inr \<lparr>ai_status = 200,
                                 ai_body = Some \<lparr>stream_chunks = [''da'', ''ta''], stream_errored = False\<rparr>\<rparr>),
      vectorize_query = (\<lambda>v k. Inr (Some (JObj [(''matches'',
          JArr [JObj [(''score'', JNum 1),
                      (''metadata'', JObj [(''text'', JStr [CHR ''a'', CHR 0x0A, CHR ''b'']), (''title'', JStr ''Doc''),
                                           (''chunkIndex'', JNum 0)])]])]))),
      vectorize_upsert = (\<lambda>records. Inr ()),
      date_at = (\<lambda>i. []), show_number = (\<lambda>r. show_nat (nat \<lfloor>r\<rfloor>)), show_plus = (\<lambda>a b. [])\<rparr>
     \<lparr>stream_chunks = [''da'', ''ta''], stream_errored = False\<rparr>
     [\<lparr>snip_title = Some ''Doc'', snip_text = [CHR ''a'', CHR 0x0A, CHR ''b''],
       snip_index = Some 0, snip_score = Some 1\<rparr>])
   = ''{'' @ [CHR 0x22] @ ''context'' @ [CHR 0x22] @ '':[{''
     @ [CHR 0x22] @ ''title'' @ [CHR 0x22] @ '':'' @ [CHR 0x22] @ ''Doc'' @ [CHR 0x22] @ '',''
     @ [CHR 0x22] @ ''text'' @ [CHR 0x22] @ '':'' @ [CHR 0x22] @ ''a'' @ [CHR 0x5C] @ ''nb'' @ [CHR 0x22] @ '',''
     @ [CHR 0x22] @ ''index'' @ [CHR 0x22] @ '':0,''
     @ [CHR 0x22] @ ''score'' @ [CHR 0x22] @ '':1}]}'' @ [CHR 0x0A] @ ''data''
   \<and> body (fst (fst (handleChatRequest
     \<lparr>ai_embed = (\<lambda>texts. Inr (Some \<lparr>data = Some [Some [1]]\<rparr>)),
      ai_chat = (\<lambda>m ms. Inr \<lparr>ai_status = 200,
                                 ai_body = Some \<lparr>stream_chunks = [''da'', ''ta''], stream_errored = False\<rparr>\<rparr>),
      vectorize_query = (\<lambda>v k. Inr (Some (JObj [(''matches'',
          JArr [JObj [(''score'', JNum 1),
                      (''metadata'', JObj [(''text'', JStr [CHR ''a'', CHR 0x0A, CHR ''b'']), (''title'', JStr ''Doc''),
                                           (''chunkIndex'', JNum 0)])]])]))),
      vectorize_upsert = (\<lambda>records. Inr ()),
      date_at = (\<lambda>i. []), show_number = (\<lambda>r. show_nat (nat \<lfloor>r\<rfloor>)), show_plus = (\<lambda>a b. [])\<rparr>
     \<lparr>t_created = ''t'', t_updated = ''t'', t_now = ''t''\<rparr> \<lparr>t_created = ''t'', t_updated = ''t'', t_now = ''t''\<rparr>
     (Some (JObj [(''sessionId'', JStr ''s1''), (''message'', JStr ''hi'')])) (\<lambda>sid k. None))))
   = StreamBody
       \<lparr>stream_chunks =
          [''{'' @ [CHR 0x22] @ ''context'' @ [CHR 0x22] @ '':[{''
           @ [CHR 0x22] @ ''title'' @ [CHR 0x22] @ '':'' @ [CHR 0x22] @ ''Doc'' @ [CHR 0x22] @ '',''
           @ [CHR 0x22] @ ''text'' @ [CHR 0x22] @ '':'' @ [CHR 0x22] @ ''a'' @ [CHR 0x5C] @ ''nb'' @ [CHR 0x22] @ '',''
           @ [CHR 0x22] @ ''index'' @ [CHR 0x22] @ '':0,''
           @ [CHR 0x22] @ ''score'' @ [CHR 0x22] @ '':1}]}'' @ [CHR 0x0A],
           ''da'', ''ta''],
        stream_errored = False\<rparr>
   \<and> stream_bytes (prependContextStream
     \<lparr>ai_embed = (\<lambda>texts. Inr (Some \<lparr>data = Some [Some [1]]\<rparr>)),
      ai_chat = (\<lambda>m ms. Inr \<lparr>ai_status = 200,
                                 ai_body = Some \<lparr>stream_chunks = [''da'', ''ta''], stream_errored = False\<rparr>\<rparr>),
      vectorize_query = (\<lambda>v k. Inr (Some (JObj [(''matches'',
          JArr [JObj [(''score'', JNum 1),
                      (''metadata'', JObj [(''text'', JStr [CHR ''a'', CHR 0x0A, CHR ''b'']), (''title'', JStr ''Doc''),
                                           (''chunkIndex'', JNum 0)])]])]))),
      vectorize_upsert = (\<lambda>records. Inr ()),
      date_at = (\<lambda>i. []), show_number = (\<lambda>r. show_nat (nat \<lfloor>r\<rfloor>)), show_plus = (\<lambda>a b. [])\<rparr>
     \<lparr>stream_chunks = [''da'', ''ta''], stream_errored = False\<rparr> []) = ''data''"
proof -
  let ?E = "\<lparr>ai_embed = (\<lambda>texts. Inr (Some \<lparr>data = Some [Some [1]]\<rparr>)),
      ai_chat = (\<lambda>m ms. Inr \<lparr>ai_status = 200,
                                 ai_body = Some \<lparr>stream_chunks = [''da'', ''ta''], stream_errored = False\<rparr>\<rparr>),
      vectorize_query = (\<lambda>v k. Inr (Some (JObj [(''matches'',
          JArr [JObj [(''score'', JNum 1),
                      (''metadata'', JObj [(''text'', JStr [CHR ''a'', CHR 0x0A, CHR ''b'']), (''title'', JStr ''Doc''),
                                           (''chunkIndex'', JNum 0)])]])]))),
      vectorize_upsert = (\<lambda>records. Inr ()),
      date_at = (\<lambda>i. []), show_number = (\<lambda>r. show_nat (nat \<lfloor>r\<rfloor>)), show_plus = (\<lambda>a b. [])\<rparr>"
  let ?S = "\<lparr>stream_chunks = [''da'', ''ta''], stream_errored = False\<rparr>"
  let ?SN = "[\<lparr>snip_title = Some ''Doc'', snip_text = [CHR ''a'', CHR 0x0A, CHR ''b''],
               snip_index = Some 0, snip_score = Some 1\<rparr>]"
  let ?L = "''{'' @ [CHR 0x22] @ ''context'' @ [CHR 0x22] @ '':[{''
     @ [CHR 0x22] @ ''title'' @ [CHR 0x22] @ '':'' @ [CHR 0x22] @ ''Doc'' @ [CHR 0x22] @ '',''
     @ [CHR 0x22] @ ''text'' @ [CHR 0x22] @ '':'' @ [CHR 0x22] @ ''a'' @ [CHR 0x5C] @ ''nb'' @ [CHR 0x22] @ '',''
     @ [CHR 0x22] @ ''index'' @ [CHR 0x22] @ '':0,''
     @ [CHR 0x22] @ ''score'' @ [CHR 0x22] @ '':1}]}''"
  let ?B = "(Some (JObj [(''sessionId'', JStr ''s1''), (''message'', JStr ''hi'')]))"
  let ?c = "\<lparr>t_created = ''t'', t_updated = ''t'', t_now = ''t''\<rparr>"
  let ?ss = "(\<lambda>sid k. None) :: sessions"
  let ?cap = "\<lparr>cap_stream = ?S, cap_session = chat_session ?B, cap_modelId = chat_model ?c ?B ?ss\<rparr>"
  have t: "trim ''hi'' = ''hi''" "trim ''s1'' = ''s1''" "trim ''Doc'' = ''Doc''"
          "trim [CHR ''a'', CHR 0x0A, CHR ''b''] = [CHR ''a'', CHR 0x0A, CHR ''b'']"
    by (simp_all add: trim_def is_space_def)
  have ne: "?SN \<noteq> []" by simp
  have sb: "stream_bytes ?S = ''data''" by (simp add: stream_bytes_def)
  have msg: "chat_message ?B = ''hi''" by (simp add: chat_message_def t)
  have em: "embedText ?E ''hi'' = Some [1]"
    by (simp add: embedText_def EMBEDDING_MAX_CHARS_def at_index_def)
  have sn: "chat_snippets ?E ?B = ?SN"
    by (simp add: chat_snippets_def msg buildRetrievalContext_def retrieval_try_def t em
                  MAX_CONTEXT_CHUNKS_def Let_def)
  have v: "truthy ?B" "chat_session ?B \<noteq> []" "chat_message ?B \<noteq> []"
    by (simp_all add: chat_session_def chat_message_def t)
  have cap: "snd (fst (handleChatRequest ?E ?c ?c ?B ?ss)) = Some ?cap"
    by (simp add: handleChatRequest_valid[OF v])
  note w1 = client_stream_framing[of ?E ?S ?SN _ ?c ?c ?B ?ss ?cap]
  note w0 = client_stream_framing[of ?E ?S "[]" _ ?c ?c ?B ?ss ?cap]
  have asc: "\<forall>c\<in>set ?L. (of_char c :: nat) < 128" by simp
  from w1 have "context_payload ?E ?SN
       = ''{'' @ quote ''context'' @ '':['' @
         join '',''
           (map (\<lambda>c. ''{'' @ join '',''
                   ((case snip_title c of None \<Rightarrow> [] | Some t \<Rightarrow> [quote ''title'' @ '':'' @ quote t])
                    @ [quote ''text'' @ '':'' @ quote (snip_text c)]
                    @ (case snip_index c of None \<Rightarrow> [] | Some n \<Rightarrow> [quote ''index'' @ '':'' @ show_number ?E n])
                    @ (case snip_score c of None \<Rightarrow> [] | Some x \<Rightarrow> [quote ''score'' @ '':'' @ show_number ?E x]))
                   @ ''}'') ?SN)
         @ '']}''"
    by blast
  then have pl: "context_payload ?E ?SN = ?L"
    using quote_samples by (simp add: show_nat_small)
  from client_stream_framing[of ?E ?S ?SN ?L ?c ?c ?B ?ss ?cap] asc
  have en: "encode ?L = ?L" by blast
  from w1 ne sb have "stream_bytes (prependContextStream ?E ?S ?SN)
       = encode (context_payload ?E ?SN) @ [newline] @ ''data''"
    by simp
  then have 1: "stream_bytes (prependContextStream ?E ?S ?SN) = ?L @ [CHR 0x0A] @ ''data''"
    unfolding pl en by (simp add: newline_def)
  have e1: "encode (context_payload ?E ?SN @ [newline]) = encode (context_payload ?E ?SN) @ [newline]"
    by (simp add: encode_append encode_newline)
  have e2: "encode (context_payload ?E ?SN) = ?L"
    unfolding pl by (rule en)
  have p: "prependContextStream ?E ?S ?SN
             = \<lparr>stream_chunks = encode (context_payload ?E ?SN @ [newline]) # stream_chunks ?S,
                 stream_errored = False\<rparr>"
    by (simp add: prependContextStream_def)
  from w1 cap have "body (fst (fst (handleChatRequest ?E ?c ?c ?B ?ss)))
       = StreamBody (prependContextStream ?E ?S ?SN)"
    by (simp add: sn)
  then have 3: "body (fst (fst (handleChatRequest ?E ?c ?c ?B ?ss)))
       = StreamBody \<lparr>stream_chunks = [?L @ [CHR 0x0A], ''da'', ''ta''], stream_errored = False\<rparr>"
    unfolding p e1 e2 by (simp add: newline_def)
  from w0 sb have 4: "stream_bytes (prependContextStream ?E ?S []) = ''data''" by simp
  from 1 3 4 show ?thesis by simp
qed

end
